theory Spec2Isabelle
  imports Complex_Main
begin

section \<open>Python values used by the pattern tool\<close>

text \<open>
  The repository is a set of Python 3 programs (\<^verbatim>\<open>data_handler.py\<close>,
  \<^verbatim>\<open>ultra_simple_main.py\<close>, \<^verbatim>\<open>web_app.py\<close>, \<^verbatim>\<open>simple_chart_canvas.py\<close>).
  Exceptions are values: every \<^verbatim>\<open>raise\<close> of the source is an \<open>Inl\<close> branch of the model.
  The handlers catch every \<^verbatim>\<open>Exception\<close> and raise a new generic \<^verbatim>\<open>Exception\<close>
  whose message starts with "Error importing pattern" or "Error exporting pattern".
\<close>

datatype py_error =
    KeyError | ValueError | TypeError | AttributeError | IndexError
  | ZeroDivisionError | FileNotFoundError

datatype exn = ErrorImportingPattern py_error | ErrorExportingPattern py_error

fun bind :: "'e + 'a \<Rightarrow> ('a \<Rightarrow> 'e + 'b) \<Rightarrow> 'e + 'b" where
  \<comment> \<open>run the next statement unless an exception was raised\<close>
  "bind (Inr x) next_step = next_step x"
| "bind (Inl e) next_step = Inl e"

subsection \<open>Characters\<close>

text \<open>
  Strings are lists of 8-bit characters, read as the code points 0..255. In that range the
  regular-expression class \<^verbatim>\<open>\d\<close> is exactly the ASCII digits, and \<^verbatim>\<open>\s\<close> is the ASCII
  white space together with the separators 28..31, 133 and 160.
\<close>

definition is_digit :: "char \<Rightarrow> bool" where
  "is_digit c = (48 \<le> (of_char c :: nat) \<and> (of_char c :: nat) \<le> 57)"

definition digit_val :: "char \<Rightarrow> nat" where
  "digit_val c = of_char c - 48"

definition in_class :: "nat \<Rightarrow> nat \<Rightarrow> char \<Rightarrow> bool" where
  \<comment> \<open>the character class \<^verbatim>\<open>[lo-hi]\<close> of digits\<close>
  "in_class lo hi c = (is_digit c \<and> lo \<le> digit_val c \<and> digit_val c \<le> hi)"

definition is_space :: "char \<Rightarrow> bool" where
  "is_space c = ((of_char c :: nat) \<in> {9, 10, 11, 12, 13, 28, 29, 30, 31, 32, 133, 160})"

definition digit_char :: "nat \<Rightarrow> char" where
  "digit_char n = ''0123456789'' ! (n mod 10)"

definition pad2 :: "nat \<Rightarrow> string" where
  \<comment> \<open>\<^verbatim>\<open>%02d\<close>, for values below 100\<close>
  "pad2 n = [digit_char (n div 10), digit_char n]"

definition pad4 :: "nat \<Rightarrow> string" where
  \<comment> \<open>four decimal digits, for values below 10000\<close>
  "pad4 n = [digit_char (n div 1000), digit_char (n div 100), digit_char (n div 10), digit_char n]"

section \<open>datetime\<close>

record datetime =
  year :: nat
  month :: nat
  day :: nat
  hour :: nat
  minute :: nat
  second :: nat
  microsecond :: nat

definition is_leap :: "nat \<Rightarrow> bool" where
  "is_leap y = (y mod 4 = 0 \<and> (y mod 100 \<noteq> 0 \<or> y mod 400 = 0))"

definition days_in_month :: "nat \<Rightarrow> nat \<Rightarrow> nat" where
  "days_in_month y m =
     (if m = 2 then (if is_leap y then 29 else 28)
      else if m = 4 \<or> m = 6 \<or> m = 9 \<or> m = 11 then 30 else 31)"

definition days_before_year :: "nat \<Rightarrow> nat" where
  "days_before_year y = (y - 1) * 365 + (y - 1) div 4 - (y - 1) div 100 + (y - 1) div 400"

definition days_before_month :: "nat \<Rightarrow> nat \<Rightarrow> nat" where
  \<comment> \<open>the library's table of days before each month, indexed from 1, plus the leap day\<close>
  "days_before_month y m =
     [0, 0, 31, 59, 90, 120, 151, 181, 212, 243, 273, 304, 334] ! m
       + (if m > 2 \<and> is_leap y then 1 else 0)"

definition toordinal :: "datetime \<Rightarrow> nat" where
  "toordinal d = days_before_year (year d) + days_before_month (year d) (month d) + day d"

definition valid_datetime :: "datetime \<Rightarrow> bool" where
  \<comment> \<open>the checks of the \<^verbatim>\<open>datetime\<close> constructor (MINYEAR = 1, MAXYEAR = 9999)\<close>
  "valid_datetime d =
     (1 \<le> year d \<and> year d \<le> 9999 \<and> 1 \<le> month d \<and> month d \<le> 12 \<and>
      1 \<le> day d \<and> day d \<le> days_in_month (year d) (month d) \<and>
      hour d \<le> 23 \<and> minute d \<le> 59 \<and> second d \<le> 59 \<and> microsecond d \<le> 999999)"

definition to_microseconds :: "datetime \<Rightarrow> int" where
  "to_microseconds d =
     (((int (toordinal d) * 24 + int (hour d)) * 60 + int (minute d)) * 60 + int (second d)) * 1000000
       + int (microsecond d)"

definition total_seconds :: "datetime \<Rightarrow> datetime \<Rightarrow> real" where
  \<comment> \<open>\<^verbatim>\<open>(a - b).total_seconds()\<close>: the signed difference in seconds\<close>
  "total_seconds a b = real_of_int (to_microseconds a - to_microseconds b) / 1000000"

subsection \<open>strptime\<close>

text \<open>
  \<^verbatim>\<open>datetime.strptime\<close> turns the format into a regular expression, matches it at the
  start of the string with backtracking, and raises \<^verbatim>\<open>ValueError\<close> when there is no match,
  when text remains after the match, or when the fields are not a date. The directives the
  repository uses, with the expressions of the library's table, alternatives in order:
  \<^verbatim>\<open>%m  1[0-2]|0[1-9]|[1-9]\<close>,
  \<^verbatim>\<open>%d  3[0-1]|[1-2]\d|0[1-9]|[1-9]| [1-9]\<close>,
  \<^verbatim>\<open>%Y  \d\d\d\d\<close>,
  \<^verbatim>\<open>%H  2[0-3]|[0-1]\d|\d\<close>,
  \<^verbatim>\<open>%M  [0-5]\d|\d\<close>,
  \<^verbatim>\<open>%S  6[0-1]|[0-5]\d|\d\<close>;
  white space in the format stands for \<^verbatim>\<open>\s+\<close>, any other character for itself.
\<close>

datatype directive = Dm | Dd | DY | DH | DM | DS | Spaces | Lit char

fun compile_format :: "string \<Rightarrow> directive list" where
  "compile_format [] = []"
| "compile_format [c] = (if is_space c then [Spaces] else [Lit c])"
| "compile_format (c # e # cs) =
     (if c = CHR ''%'' then
        (if e = CHR ''m'' then Dm else if e = CHR ''d'' then Dd else if e = CHR ''Y'' then DY
         else if e = CHR ''H'' then DH else if e = CHR ''M'' then DM else if e = CHR ''S'' then DS
         else Lit e) # compile_format cs
      else if is_space c then
        (if is_space e then compile_format (e # cs) else Spaces # compile_format (e # cs))
      else Lit c # compile_format (e # cs))"

definition one :: "nat \<Rightarrow> nat \<Rightarrow> string \<Rightarrow> (nat \<times> string) list" where
  "one lo hi s = (case s of a # r \<Rightarrow> if in_class lo hi a then [(digit_val a, r)] else [] | _ \<Rightarrow> [])"

definition two :: "nat \<Rightarrow> nat \<Rightarrow> nat \<Rightarrow> nat \<Rightarrow> string \<Rightarrow> (nat \<times> string) list" where
  "two lo1 hi1 lo2 hi2 s =
     (case s of a # b # r \<Rightarrow>
        if in_class lo1 hi1 a \<and> in_class lo2 hi2 b then [(10 * digit_val a + digit_val b, r)] else []
      | _ \<Rightarrow> [])"

definition space_one :: "nat \<Rightarrow> nat \<Rightarrow> string \<Rightarrow> (nat \<times> string) list" where
  "space_one lo hi s =
     (case s of a # b # r \<Rightarrow> if a = CHR '' '' \<and> in_class lo hi b then [(digit_val b, r)] else []
      | _ \<Rightarrow> [])"

definition four :: "string \<Rightarrow> (nat \<times> string) list" where
  "four s =
     (case s of a # b # c # d # r \<Rightarrow>
        if is_digit a \<and> is_digit b \<and> is_digit c \<and> is_digit d
        then [(1000 * digit_val a + 100 * digit_val b + 10 * digit_val c + digit_val d, r)] else []
      | _ \<Rightarrow> [])"

fun spaces :: "string \<Rightarrow> string list" where
  \<comment> \<open>\<^verbatim>\<open>\s+\<close>, greedy: the remainders after the longest run first\<close>
  "spaces [] = []"
| "spaces (c # cs) = (if is_space c then spaces cs @ [cs] else [])"

fun alternatives :: "directive \<Rightarrow> datetime \<Rightarrow> string \<Rightarrow> (datetime \<times> string) list" where
  "alternatives Dm f s =
     map (\<lambda>(v, r). (f\<lparr>month := v\<rparr>, r)) (two 1 1 0 2 s @ two 0 0 1 9 s @ one 1 9 s)"
| "alternatives Dd f s =
     map (\<lambda>(v, r). (f\<lparr>day := v\<rparr>, r))
       (two 3 3 0 1 s @ two 1 2 0 9 s @ two 0 0 1 9 s @ one 1 9 s @ space_one 1 9 s)"
| "alternatives DY f s = map (\<lambda>(v, r). (f\<lparr>year := v\<rparr>, r)) (four s)"
| "alternatives DH f s =
     map (\<lambda>(v, r). (f\<lparr>hour := v\<rparr>, r)) (two 2 2 0 3 s @ two 0 1 0 9 s @ one 0 9 s)"
| "alternatives DM f s = map (\<lambda>(v, r). (f\<lparr>minute := v\<rparr>, r)) (two 0 5 0 9 s @ one 0 9 s)"
| "alternatives DS f s =
     map (\<lambda>(v, r). (f\<lparr>second := v\<rparr>, r)) (two 6 6 0 1 s @ two 0 5 0 9 s @ one 0 9 s)"
| "alternatives Spaces f s = map (\<lambda>r. (f, r)) (spaces s)"
| "alternatives (Lit c) f s = (case s of a # r \<Rightarrow> if a = c then [(f, r)] else [] | _ \<Rightarrow> [])"

primrec matches :: "directive list \<Rightarrow> datetime \<Rightarrow> string \<Rightarrow> (datetime \<times> string) list" where
  \<comment> \<open>every way the expression matches a prefix, in the order the backtracking finds them\<close>
  "matches [] f s = [(f, s)]"
| "matches (d # ds) f s = concat (map (\<lambda>(f', r). matches ds f' r) (alternatives d f s))"

definition default_fields :: datetime where
  "default_fields = \<lparr>year = 1900, month = 1, day = 1, hour = 0, minute = 0, second = 0, microsecond = 0\<rparr>"

definition strptime :: "string option \<Rightarrow> string \<Rightarrow> py_error + datetime" where
  "strptime data_string format =
     (case data_string of
        None \<Rightarrow> Inl TypeError
      | Some s \<Rightarrow>
          (case matches (compile_format format) default_fields s of
             [] \<Rightarrow> Inl ValueError
           | (d, rest) # _ \<Rightarrow>
               if rest \<noteq> [] then Inl ValueError
               else if valid_datetime d then Inr d else Inl ValueError))"

subsection \<open>strftime\<close>

text \<open>
  Month, day, hour, minute and second are written with two digits. The year is written as the
  C library on Linux writes \<^verbatim>\<open>%Y\<close>, without padding: four digits from the year 1000 on, as
  on every platform, and fewer digits for an earlier year.
\<close>

function str_nat :: "nat \<Rightarrow> string" where
  \<comment> \<open>a number in decimal, as \<^verbatim>\<open>str\<close> and \<^verbatim>\<open>%d\<close> write it\<close>
  "str_nat n = (if n < 10 then [digit_char n] else str_nat (n div 10) @ [digit_char n])"
  by pat_completeness auto
termination
  by (relation "measure (\<lambda>n. n)") auto

declare str_nat.simps [simp del]

fun strftime :: "datetime \<Rightarrow> string \<Rightarrow> string" where
  "strftime d [] = []"
| "strftime d [c] = [c]"
| "strftime d (c # e # cs) =
     (if c = CHR ''%'' then
        (if e = CHR ''m'' then pad2 (month d) else if e = CHR ''d'' then pad2 (day d)
         else if e = CHR ''Y'' then str_nat (year d) else if e = CHR ''H'' then pad2 (hour d)
         else if e = CHR ''M'' then pad2 (minute d) else if e = CHR ''S'' then pad2 (second d)
         else [e]) @ strftime d cs
      else c # strftime d (e # cs))"


section \<open>CSV tables\<close>

text \<open>
  A file is held as the rows \<^verbatim>\<open>csv.reader\<close> yields for it, the header row first; a blank
  line is the empty row. \<^verbatim>\<open>csv.writer\<close> applies \<^verbatim>\<open>str\<close> to every value that is not a
  string. \<^verbatim>\<open>csv.DictReader\<close> takes the first row as the field names, skips empty rows, and
  pairs the names with the cells of each row: a later duplicate name wins, a name with no
  cell in a short row gets \<^verbatim>\<open>None\<close>, and the cells beyond the names go under a key that
  the handlers never read. Writing a file always succeeds.
\<close>

type_synonym table = "string list list"
type_synonym row = "string \<rightharpoonup> string option"
type_synonym files = "string \<rightharpoonup> table"

definition dict_row :: "string list \<Rightarrow> string list \<Rightarrow> row" where
  "dict_row fieldnames r =
     map_of (rev (zip fieldnames (map Some r @ replicate (length fieldnames - length r) None)))"

definition DictReader :: "table \<Rightarrow> row list" where
  "DictReader t =
     (case t of [] \<Rightarrow> [] | fieldnames # rs \<Rightarrow> map (dict_row fieldnames) (filter (\<lambda>r. r \<noteq> []) rs))"

definition getitem :: "row \<Rightarrow> string \<Rightarrow> py_error + string option" where
  \<comment> \<open>\<^verbatim>\<open>row[key]\<close>\<close>
  "getitem r k = (case r k of None \<Rightarrow> Inl KeyError | Some v \<Rightarrow> Inr v)"

text \<open>
  \<^verbatim>\<open>int\<close>, \<^verbatim>\<open>float\<close> and \<^verbatim>\<open>str\<close> are Python's own; the model takes the conversions of
  strings as parameters (\<open>None\<close> where Python raises \<^verbatim>\<open>ValueError\<close>). A cell that is
  \<^verbatim>\<open>None\<close> raises \<^verbatim>\<open>TypeError\<close>.
\<close>

definition py_int :: "(string \<Rightarrow> int option) \<Rightarrow> string option \<Rightarrow> py_error + int" where
  "py_int parse_int cell =
     (case cell of None \<Rightarrow> Inl TypeError
      | Some s \<Rightarrow> (case parse_int s of None \<Rightarrow> Inl ValueError | Some i \<Rightarrow> Inr i))"

definition py_float :: "(string \<Rightarrow> 'p option) \<Rightarrow> string option \<Rightarrow> py_error + 'p" where
  "py_float parse_float cell =
     (case cell of None \<Rightarrow> Inl TypeError
      | Some s \<Rightarrow> (case parse_float s of None \<Rightarrow> Inl ValueError | Some x \<Rightarrow> Inr x))"

section \<open>DataHandler (data_handler.py)\<close>

text \<open>
  The first component of a stroke point is whatever the caller stored: a string, a
  \<^verbatim>\<open>datetime\<close> object, or \<^verbatim>\<open>None\<close> (a cell of a short row read back by the import).
\<close>

datatype stamp = Str string | Dt datetime | NoStamp

type_synonym 'p point = "stamp \<times> 'p"
type_synonym 'p stroke = "'p point list"

definition stamp_of :: "string option \<Rightarrow> stamp" where
  "stamp_of cell = (case cell of None \<Rightarrow> NoStamp | Some s \<Rightarrow> Str s)"

definition pattern_header :: "string list" where
  "pattern_header = [''stroke_id'', ''datetime'', ''open'', ''high'', ''low'', ''close'', ''volume'']"

definition day_format :: string where
  "day_format = ''%m/%d/%Y %H:%M''"

subsection \<open>export_pattern_to_csv\<close>

definition export_point ::
  "(int \<Rightarrow> string) \<Rightarrow> ('p \<Rightarrow> string) \<Rightarrow> int \<Rightarrow> 'p point \<Rightarrow> py_error + string list" where
  "export_point str_int str_float stroke_id point =
     (case point of (datetime_str, price) \<Rightarrow>
        bind (case datetime_str of
                Str s \<Rightarrow> strptime (Some s) day_format
              | Dt d \<Rightarrow> Inr d
              | NoStamp \<Rightarrow> Inl AttributeError)
          (\<lambda>dt. Inr [str_int stroke_id, strftime dt day_format,
                      str_float price, str_float price, str_float price, str_float price,
                      str_int 0]))"

fun write_stroke ::
  "(int \<Rightarrow> string) \<Rightarrow> ('p \<Rightarrow> string) \<Rightarrow> int \<Rightarrow> 'p stroke \<Rightarrow> table \<times> py_error option" where
  \<comment> \<open>the inner loop: the rows written, and the exception that stopped it, if any\<close>
  "write_stroke str_int str_float stroke_id [] = ([], None)"
| "write_stroke str_int str_float stroke_id (point # points) =
     (case export_point str_int str_float stroke_id point of
        Inl e \<Rightarrow> ([], Some e)
      | Inr r \<Rightarrow>
          (case write_stroke str_int str_float stroke_id points of (rs, x) \<Rightarrow> (r # rs, x)))"

fun write_strokes ::
  "(int \<Rightarrow> string) \<Rightarrow> ('p \<Rightarrow> string) \<Rightarrow> int \<Rightarrow> 'p stroke list \<Rightarrow> table \<times> py_error option" where
  \<comment> \<open>the outer loop over \<^verbatim>\<open>enumerate(strokes)\<close>\<close>
  "write_strokes str_int str_float stroke_id [] = ([], None)"
| "write_strokes str_int str_float stroke_id (stroke # strokes) =
     (case write_stroke str_int str_float stroke_id stroke of
        (rs, Some e) \<Rightarrow> (rs, Some e)
      | (rs, None) \<Rightarrow>
          (case write_strokes str_int str_float (stroke_id + 1) strokes of
             (rs', x) \<Rightarrow> (rs @ rs', x)))"

definition export_pattern_to_csv ::
  "(int \<Rightarrow> string) \<Rightarrow> ('p \<Rightarrow> string) \<Rightarrow> 'p stroke list \<Rightarrow> string \<Rightarrow> files \<Rightarrow> files \<times> (exn + unit)" where
  \<comment> \<open>the file is opened for writing and keeps what was written before an exception\<close>
  "export_pattern_to_csv str_int str_float strokes filename fs =
     (case write_strokes str_int str_float 0 strokes of
        (rs, x) \<Rightarrow>
          (fs(filename \<mapsto> pattern_header # rs),
           case x of None \<Rightarrow> Inr () | Some e \<Rightarrow> Inl (ErrorExportingPattern e)))"

subsection \<open>import_pattern_from_csv\<close>

datatype last = NoLast | LastInt int | LastDt datetime

type_synonym 'p import_state = "'p stroke list \<times> 'p stroke \<times> last"

definition new_stroke :: "'p stroke list \<Rightarrow> 'p stroke \<Rightarrow> 'p stroke list \<times> 'p stroke" where
  \<comment> \<open>\<^verbatim>\<open>if current_stroke: strokes.append(current_stroke)\<close>, then \<^verbatim>\<open>current_stroke = []\<close>\<close>
  "new_stroke strokes current_stroke =
     (if current_stroke \<noteq> [] then strokes @ [current_stroke] else strokes, [])"

definition import_row ::
  "(string \<Rightarrow> int option) \<Rightarrow> (string \<Rightarrow> 'p option) \<Rightarrow> row \<Rightarrow> 'p import_state
     \<Rightarrow> py_error + 'p import_state" where
  "import_row parse_int parse_float r st =
     (case st of (strokes, current_stroke, last_stroke_id) \<Rightarrow>
      if r ''stroke_id'' \<noteq> None then
        bind (bind (getitem r ''stroke_id'') (py_int parse_int)) (\<lambda>stroke_id.
        bind (getitem r ''datetime'') (\<lambda>datetime_str.
        bind (bind (getitem r ''close'') (py_float parse_float)) (\<lambda>price.
          (case (if last_stroke_id \<noteq> NoLast \<and> LastInt stroke_id \<noteq> last_stroke_id
                 then new_stroke strokes current_stroke else (strokes, current_stroke)) of
             (strokes', current_stroke') \<Rightarrow>
               Inr (strokes', current_stroke' @ [(stamp_of datetime_str, price)],
                    LastInt stroke_id)))))
      else
        bind (getitem r ''datetime'') (\<lambda>datetime_str.
        bind (bind (getitem r ''close'') (py_float parse_float)) (\<lambda>price.
        bind (strptime datetime_str day_format) (\<lambda>dt.
        bind (case last_stroke_id of
                NoLast \<Rightarrow> Inr (strokes, current_stroke)
              | LastInt i \<Rightarrow> Inl TypeError
              | LastDt l \<Rightarrow>
                  Inr (if total_seconds dt l > 30 then new_stroke strokes current_stroke
                       else (strokes, current_stroke)))
          (\<lambda>(strokes', current_stroke').
             Inr (strokes', current_stroke' @ [(stamp_of datetime_str, price)], LastDt dt))))))"

fun import_rows ::
  "(string \<Rightarrow> int option) \<Rightarrow> (string \<Rightarrow> 'p option) \<Rightarrow> row list \<Rightarrow> 'p import_state
     \<Rightarrow> py_error + 'p import_state" where
  "import_rows parse_int parse_float [] st = Inr st"
| "import_rows parse_int parse_float (r # rs) st =
     bind (import_row parse_int parse_float r st) (import_rows parse_int parse_float rs)"

definition add_last_stroke :: "'p import_state \<Rightarrow> 'p stroke list" where
  \<comment> \<open>after the loop: \<^verbatim>\<open>if current_stroke: strokes.append(current_stroke)\<close>\<close>
  "add_last_stroke st =
     (case st of (strokes, current_stroke, l) \<Rightarrow>
        if current_stroke \<noteq> [] then strokes @ [current_stroke] else strokes)"

definition read_table :: "files \<Rightarrow> string \<Rightarrow> py_error + table" where
  "read_table fs filename = (case fs filename of None \<Rightarrow> Inl FileNotFoundError | Some t \<Rightarrow> Inr t)"

definition import_pattern_from_csv ::
  "(string \<Rightarrow> int option) \<Rightarrow> (string \<Rightarrow> 'p option) \<Rightarrow> string \<Rightarrow> files \<Rightarrow> 'p stroke list
     \<Rightarrow> 'p stroke list \<times> (exn + 'p stroke list)" where
  \<comment> \<open>the last argument and the first result are \<^verbatim>\<open>self.pattern_strokes\<close>\<close>
  "import_pattern_from_csv parse_int parse_float filename fs pattern_strokes =
     (case bind (read_table fs filename) (\<lambda>t.
             bind (import_rows parse_int parse_float (DictReader t) ([], [], NoLast)) (\<lambda>st.
             Inr (add_last_stroke st))) of
        Inl e \<Rightarrow> (pattern_strokes, Inl (ErrorImportingPattern e))
      | Inr strokes \<Rightarrow> (strokes, Inr strokes))"


section \<open>UltraSimpleDataHandler (ultra_simple_main.py)\<close>

type_synonym 'p legacy_state = "'p stroke list \<times> 'p stroke \<times> datetime option"

definition gap_split ::
  "real \<Rightarrow> datetime \<Rightarrow> datetime option \<Rightarrow> 'p stroke list \<Rightarrow> 'p stroke \<Rightarrow> 'p stroke list \<times> 'p stroke" where
  \<comment> \<open>\<^verbatim>\<open>if last_datetime is not None: time_diff = (dt - last_datetime).total_seconds();
      if time_diff > threshold: ...\<close>\<close>
  "gap_split threshold dt last_datetime strokes current_stroke =
     (case last_datetime of
        None \<Rightarrow> (strokes, current_stroke)
      | Some l \<Rightarrow>
          if total_seconds dt l > threshold then new_stroke strokes current_stroke
          else (strokes, current_stroke))"

definition ultra_import_row ::
  "(string \<Rightarrow> 'p option) \<Rightarrow> row \<Rightarrow> 'p legacy_state \<Rightarrow> py_error + 'p legacy_state" where
  "ultra_import_row parse_float r st =
     (case st of (strokes, current_stroke, last_datetime) \<Rightarrow>
        bind (getitem r ''datetime'') (\<lambda>datetime_str.
        bind (bind (getitem r ''close'') (py_float parse_float)) (\<lambda>price.
        bind (strptime datetime_str day_format) (\<lambda>dt.
          (case gap_split 60 dt last_datetime strokes current_stroke of
             (strokes', current_stroke') \<Rightarrow>
               Inr (strokes', current_stroke' @ [(stamp_of datetime_str, price)], Some dt))))))"

fun ultra_import_rows ::
  "(string \<Rightarrow> 'p option) \<Rightarrow> row list \<Rightarrow> 'p legacy_state \<Rightarrow> py_error + 'p legacy_state" where
  "ultra_import_rows parse_float [] st = Inr st"
| "ultra_import_rows parse_float (r # rs) st =
     bind (ultra_import_row parse_float r st) (ultra_import_rows parse_float rs)"

definition legacy_last_stroke :: "'p legacy_state \<Rightarrow> 'p stroke list" where
  "legacy_last_stroke st =
     (case st of (strokes, current_stroke, l) \<Rightarrow>
        if current_stroke \<noteq> [] then strokes @ [current_stroke] else strokes)"

definition ultra_import_pattern_from_csv ::
  "(string \<Rightarrow> 'p option) \<Rightarrow> string \<Rightarrow> files \<Rightarrow> 'p stroke list
     \<Rightarrow> 'p stroke list \<times> (exn + 'p stroke list)" where
  "ultra_import_pattern_from_csv parse_float filename fs pattern_strokes =
     (case bind (read_table fs filename) (\<lambda>t.
             bind (ultra_import_rows parse_float (DictReader t) ([], [], None)) (\<lambda>st.
             Inr (legacy_last_stroke st))) of
        Inl e \<Rightarrow> (pattern_strokes, Inl (ErrorImportingPattern e))
      | Inr strokes \<Rightarrow> (strokes, Inr strokes))"

section \<open>WebDataHandler (web_app.py)\<close>

definition formats_to_try :: "string list" where
  "formats_to_try =
     [''%m/%d/%Y %H:%M'', ''%m/%d/%Y %H:%M:%S'', ''%Y-%m-%d %H:%M:%S'', ''%Y-%m-%d %H:%M'',
      ''%m/%d/%Y'', ''%Y-%m-%d'']"

fun try_formats :: "string option \<Rightarrow> string list \<Rightarrow> py_error + datetime option" where
  \<comment> \<open>only \<^verbatim>\<open>ValueError\<close> is caught; the result is \<open>None\<close> when every format failed\<close>
  "try_formats datetime_str [] = Inr None"
| "try_formats datetime_str (fmt # fmts) =
     (case strptime datetime_str fmt of
        Inr dt \<Rightarrow> Inr (Some dt)
      | Inl e \<Rightarrow> if e = ValueError then try_formats datetime_str fmts else Inl e)"

definition web_import_row ::
  "(string \<Rightarrow> 'p option) \<Rightarrow> datetime \<Rightarrow> row \<Rightarrow> 'p legacy_state \<Rightarrow> py_error + 'p legacy_state" where
  \<comment> \<open>\<open>now\<close> is what \<^verbatim>\<open>datetime.now()\<close> returns if it is called for this row\<close>
  "web_import_row parse_float now r st =
     (case st of (strokes, current_stroke, last_datetime) \<Rightarrow>
        bind (getitem r ''datetime'') (\<lambda>datetime_str.
        bind (bind (getitem r ''close'') (py_float parse_float)) (\<lambda>price.
        bind (try_formats datetime_str formats_to_try) (\<lambda>parsed.
          (case gap_split 60 (case parsed of None \<Rightarrow> now | Some dt \<Rightarrow> dt)
                  last_datetime strokes current_stroke of
             (strokes', current_stroke') \<Rightarrow>
               Inr (strokes', current_stroke' @ [(stamp_of datetime_str, price)],
                    Some (case parsed of None \<Rightarrow> now | Some dt \<Rightarrow> dt)))))))"

fun web_import_rows ::
  "(string \<Rightarrow> 'p option) \<Rightarrow> (nat \<Rightarrow> datetime) \<Rightarrow> nat \<Rightarrow> row list \<Rightarrow> 'p legacy_state
     \<Rightarrow> py_error + 'p legacy_state" where
  \<comment> \<open>\<open>clock i\<close> is the wall-clock time while row \<open>i\<close> is processed\<close>
  "web_import_rows parse_float clock i [] st = Inr st"
| "web_import_rows parse_float clock i (r # rs) st =
     bind (web_import_row parse_float (clock i) r st) (web_import_rows parse_float clock (Suc i) rs)"

definition web_import_pattern_from_csv ::
  "(string \<Rightarrow> 'p option) \<Rightarrow> (nat \<Rightarrow> datetime) \<Rightarrow> string \<Rightarrow> files \<Rightarrow> exn + 'p stroke list" where
  "web_import_pattern_from_csv parse_float clock filename fs =
     (case bind (read_table fs filename) (\<lambda>t.
             bind (web_import_rows parse_float clock 0 (DictReader t) ([], [], None)) (\<lambda>st.
             Inr (legacy_last_stroke st))) of
        Inl e \<Rightarrow> Inl (ErrorImportingPattern e)
      | Inr strokes \<Rightarrow> Inr strokes)"

section \<open>UltraSimpleChartCanvas (ultra_simple_main.py)\<close>

text \<open>
  Pixel coordinates, prices and time indices are Python numbers. The definitions compute
  with reals, the exact results; the rounding of floating-point arithmetic is added to them
  in the last subsection. Drawing on the Tk canvas is output only and is not modelled; what
  the handlers do to the object's fields is.
\<close>

record data_point =
  dp_datetime :: datetime
  dp_open :: real
  dp_high :: real
  dp_low :: real
  dp_close :: real
  dp_volume :: int

record canvas =
  is_drawing :: bool
  current_stroke :: "real stroke"
  all_strokes :: "real stroke list"
  drawing_enabled :: bool
  market_data :: "data_point list"
  data_handler :: "real stroke list option"
  chart_width :: real
  chart_height :: real
  margin_left :: real
  margin_right :: real
  margin_top :: real
  margin_bottom :: real
  min_price :: real
  max_price :: real
  min_time :: real
  max_time :: real

text \<open>
  \<open>data_handler\<close> is \<open>None\<close> until \<^verbatim>\<open>set_data_handler\<close> is called, and then holds the
  handler's \<^verbatim>\<open>pattern_strokes\<close>.
\<close>

definition init_canvas :: canvas where
  \<comment> \<open>\<^verbatim>\<open>__init__\<close>\<close>
  "init_canvas =
     \<lparr>is_drawing = False, current_stroke = [], all_strokes = [], drawing_enabled = False,
      market_data = [], data_handler = None,
      chart_width = 800, chart_height = 600,
      margin_left = 60, margin_right = 20, margin_top = 20, margin_bottom = 60,
      min_price = 0, max_price = 1000, min_time = 0, max_time = 100\<rparr>"

definition py_div :: "real \<Rightarrow> real \<Rightarrow> py_error + real" where
  \<comment> \<open>\<^verbatim>\<open>a / b\<close>\<close>
  "py_div a b = (if b = 0 then Inl ZeroDivisionError else Inr (a / b))"

definition time_to_x :: "canvas \<Rightarrow> real \<Rightarrow> py_error + real" where
  "time_to_x c time =
     (if max_time c = min_time c then Inr (margin_left c)
      else bind (py_div (time - min_time c) (max_time c - min_time c)) (\<lambda>q.
           Inr (margin_left c + q * (chart_width c - margin_left c - margin_right c))))"

definition price_to_y :: "canvas \<Rightarrow> real \<Rightarrow> py_error + real" where
  "price_to_y c price =
     (if max_price c = min_price c then Inr (margin_top c)
      else bind (py_div (price - min_price c) (max_price c - min_price c)) (\<lambda>q.
           Inr (chart_height c - margin_bottom c
                  - q * (chart_height c - margin_top c - margin_bottom c))))"

definition x_to_time :: "canvas \<Rightarrow> real \<Rightarrow> py_error + real" where
  "x_to_time c x =
     (if chart_width c - margin_left c - margin_right c = 0 then Inr (min_time c)
      else bind (py_div (x - margin_left c) (chart_width c - margin_left c - margin_right c)) (\<lambda>q.
           Inr (min_time c + q * (max_time c - min_time c))))"

definition y_to_price :: "canvas \<Rightarrow> real \<Rightarrow> py_error + real" where
  "y_to_price c y =
     (if chart_height c - margin_top c - margin_bottom c = 0 then Inr (min_price c)
      else bind (py_div (chart_height c - margin_bottom c - y)
                   (chart_height c - margin_top c - margin_bottom c)) (\<lambda>q.
           Inr (min_price c + q * (max_price c - min_price c))))"

fun list_min :: "real list \<Rightarrow> real" where
  "list_min [] = 0"
| "list_min (x # xs) = foldl min x xs"

fun list_max :: "real list \<Rightarrow> real" where
  "list_max [] = 0"
| "list_max (x # xs) = foldl max x xs"

definition plot_market_data :: "canvas \<Rightarrow> canvas" where
  \<comment> \<open>the data ranges it recomputes; \<^verbatim>\<open>min\<close> and \<^verbatim>\<open>max\<close> are only reached with data\<close>
  "plot_market_data c =
     (if market_data c = [] then c
      else
        (let prices = map dp_close (market_data c);
             lo = list_min prices; hi = list_max prices;
             price_range = hi - lo
         in c\<lparr>min_price := lo - price_range * 0.05, max_price := hi + price_range * 0.05,
               min_time := 0, max_time := real (length (market_data c)) - 1\<rparr>))"

definition load_market_data :: "data_point list \<Rightarrow> canvas \<Rightarrow> canvas" where
  "load_market_data data c = plot_market_data (c\<lparr>market_data := data\<rparr>)"

definition enable_drawing :: "canvas \<Rightarrow> canvas" where
  "enable_drawing c = c\<lparr>drawing_enabled := True\<rparr>"

definition add_stroke :: "'p stroke \<Rightarrow> 'p stroke list \<Rightarrow> 'p stroke list" where
  \<comment> \<open>the handler's \<^verbatim>\<open>add_stroke\<close>, on its \<^verbatim>\<open>pattern_strokes\<close>\<close>
  "add_stroke stroke pattern_strokes =
     (if stroke \<noteq> [] then pattern_strokes @ [stroke] else pattern_strokes)"

subsection \<open>The nearest bar of a stored point (update_drawing_preview)\<close>

definition below :: "real \<Rightarrow> real option \<Rightarrow> bool" where
  \<comment> \<open>\<^verbatim>\<open>diff < min_diff\<close>, where \<open>None\<close> is \<^verbatim>\<open>float('inf')\<close>\<close>
  "below diff min_diff = (case min_diff of None \<Rightarrow> True | Some m \<Rightarrow> diff < m)"

fun nearest_loop ::
  "datetime \<Rightarrow> data_point list \<Rightarrow> nat \<Rightarrow> nat \<times> real option \<Rightarrow> nat \<times> real option" where
  "nearest_loop dt [] i st = st"
| "nearest_loop dt (p # ps) i st =
     (case st of (time_idx, min_diff) \<Rightarrow>
        nearest_loop dt ps (Suc i)
          (if below \<bar>total_seconds dt (dp_datetime p)\<bar> min_diff
           then (i, Some \<bar>total_seconds dt (dp_datetime p)\<bar>) else (time_idx, min_diff)))"

definition nearest_index :: "datetime \<Rightarrow> data_point list \<Rightarrow> nat" where
  \<comment> \<open>\<^verbatim>\<open>time_idx = 0; min_diff = float('inf'); for i, data_point in enumerate(...)\<close>\<close>
  "nearest_index dt data = fst (nearest_loop dt data 0 (0, None))"

definition preview_x :: "canvas \<Rightarrow> stamp \<Rightarrow> py_error + real" where
  \<comment> \<open>the x coordinate of a stored point; the bare \<^verbatim>\<open>except\<close> catches every exception\<close>
  "preview_x c time_str =
     (if market_data c \<noteq> [] then
        (case bind (strptime (case time_str of Str s \<Rightarrow> Some s | _ \<Rightarrow> None) day_format) (\<lambda>dt.
                time_to_x c (real (nearest_index dt (market_data c)))) of
           Inl e \<Rightarrow> Inr (margin_left c)
         | Inr x \<Rightarrow> Inr x)
      else Inr (margin_left c))"

definition update_drawing_preview :: "canvas \<Rightarrow> canvas" where
  "update_drawing_preview c = plot_market_data c"

subsection \<open>Pointer events\<close>

definition inside :: "canvas \<Rightarrow> real \<Rightarrow> real \<Rightarrow> bool" where
  "inside c x y =
     (margin_left c \<le> x \<and> x \<le> chart_width c - margin_right c \<and>
      margin_top c \<le> y \<and> y \<le> chart_height c - margin_bottom c)"

definition py_trunc :: "real \<Rightarrow> int" where
  \<comment> \<open>\<^verbatim>\<open>int(x)\<close> of a number: towards zero\<close>
  "py_trunc r = (if 0 \<le> r then \<lfloor>r\<rfloor> else \<lceil>r\<rceil>)"

definition py_index :: "'a list \<Rightarrow> int \<Rightarrow> py_error + 'a" where
  \<comment> \<open>\<^verbatim>\<open>xs[i]\<close>\<close>
  "py_index xs i =
     (if 0 \<le> i \<and> i < int (length xs) then Inr (xs ! nat i)
      else if i < 0 \<and> - int (length xs) \<le> i then Inr (xs ! nat (int (length xs) + i))
      else Inl IndexError)"

definition time_string :: "datetime \<Rightarrow> canvas \<Rightarrow> real \<Rightarrow> py_error + string" where
  \<comment> \<open>\<open>now\<close> is the wall-clock time of the event\<close>
  "time_string now c time_val =
     (if market_data c \<noteq> [] \<and> 0 \<le> time_val \<and> time_val < real (length (market_data c)) then
        bind (py_index (market_data c) (py_trunc time_val)) (\<lambda>p.
        Inr (strftime (dp_datetime p) day_format))
      else Inr (strftime now day_format))"

definition event_point :: "datetime \<Rightarrow> canvas \<Rightarrow> real \<Rightarrow> real \<Rightarrow> py_error + real point" where
  "event_point now c x y =
     bind (x_to_time c x) (\<lambda>time_val.
     bind (y_to_price c y) (\<lambda>price_val.
     bind (time_string now c time_val) (\<lambda>time_str.
     Inr (Str time_str, price_val))))"

definition on_mouse_press :: "datetime \<Rightarrow> canvas \<Rightarrow> real \<Rightarrow> real \<Rightarrow> py_error + canvas" where
  "on_mouse_press now c x y =
     (if \<not> drawing_enabled c then Inr c
      else if inside c x y then
        bind (event_point now c x y) (\<lambda>pt. Inr (c\<lparr>is_drawing := True, current_stroke := [pt]\<rparr>))
      else Inr c)"

definition on_mouse_move :: "datetime \<Rightarrow> canvas \<Rightarrow> real \<Rightarrow> real \<Rightarrow> py_error + canvas" where
  "on_mouse_move now c x y =
     (if \<not> drawing_enabled c \<or> \<not> is_drawing c then Inr c
      else if inside c x y then
        bind (event_point now c x y) (\<lambda>pt.
        Inr (update_drawing_preview (c\<lparr>current_stroke := current_stroke c @ [pt]\<rparr>)))
      else Inr c)"

definition on_mouse_release :: "canvas \<Rightarrow> canvas" where
  "on_mouse_release c =
     (if \<not> drawing_enabled c \<or> \<not> is_drawing c then c
      else
        update_drawing_preview
          ((if length (current_stroke c) > 1
            then c\<lparr>is_drawing := False,
                   all_strokes := all_strokes c @ [current_stroke c],
                   data_handler := map_option (add_stroke (current_stroke c)) (data_handler c)\<rparr>
            else c\<lparr>is_drawing := False\<rparr>)
           \<lparr>current_stroke := []\<rparr>))"

datatype event = PointerDown datetime real real | PointerMove datetime real real | PointerUp

fun handle :: "event \<Rightarrow> canvas \<Rightarrow> py_error + canvas" where
  "handle (PointerDown now x y) c = on_mouse_press now c x y"
| "handle (PointerMove now x y) c = on_mouse_move now c x y"
| "handle PointerUp c = Inr (on_mouse_release c)"

fun run :: "event list \<Rightarrow> canvas \<Rightarrow> py_error + canvas" where
  "run [] c = Inr c"
| "run (e # es) c = bind (handle e c) (run es)"

definition export_patterns ::
  "(real stroke list \<Rightarrow> string \<Rightarrow> files \<Rightarrow> files \<times> (exn + unit)) \<Rightarrow> canvas \<Rightarrow> string \<Rightarrow> files
     \<Rightarrow> files \<times> (exn + bool)" where
  \<comment> \<open>\<open>export\<close> is the \<^verbatim>\<open>export_pattern_to_csv\<close> of whichever handler was set\<close>
  "export_patterns export c filename fs =
     (if data_handler c \<noteq> None \<and> all_strokes c \<noteq> [] then
        (case export (all_strokes c) filename fs of
           (fs', Inl e) \<Rightarrow> (fs', Inl e)
         | (fs', Inr u) \<Rightarrow> (fs', Inr True))
      else (fs, Inr False))"

subsection \<open>The arithmetic in floating point\<close>

text \<open>
  Python computes the four maps and the data ranges in binary floating point: a division, and
  every other operation with a float among its operands, gives the exact result rounded to a
  double. The definitions above compute with the exact results. The ones below take the
  rounding as a parameter \<open>rnd\<close> and apply it where Python rounds. The six geometry fields
  hold ints, and Python computes sums and differences of ints exactly, so nothing is rounded
  there. The literal \<^verbatim>\<open>0.05\<close> is the double next to it. With the identity for \<open>rnd\<close> the
  definitions below are the ones above.
\<close>

definition time_to_x_fl :: "(real \<Rightarrow> real) \<Rightarrow> canvas \<Rightarrow> real \<Rightarrow> py_error + real" where
  "time_to_x_fl rnd c time =
     (if max_time c = min_time c then Inr (margin_left c)
      else bind (py_div (rnd (time - min_time c)) (rnd (max_time c - min_time c))) (\<lambda>q.
           Inr (rnd (margin_left c
                  + rnd (rnd q * (chart_width c - margin_left c - margin_right c))))))"

definition price_to_y_fl :: "(real \<Rightarrow> real) \<Rightarrow> canvas \<Rightarrow> real \<Rightarrow> py_error + real" where
  "price_to_y_fl rnd c price =
     (if max_price c = min_price c then Inr (margin_top c)
      else bind (py_div (rnd (price - min_price c)) (rnd (max_price c - min_price c))) (\<lambda>q.
           Inr (rnd (chart_height c - margin_bottom c
                  - rnd (rnd q * (chart_height c - margin_top c - margin_bottom c))))))"

definition x_to_time_fl :: "(real \<Rightarrow> real) \<Rightarrow> canvas \<Rightarrow> real \<Rightarrow> py_error + real" where
  "x_to_time_fl rnd c x =
     (if chart_width c - margin_left c - margin_right c = 0 then Inr (min_time c)
      else bind (py_div (rnd (x - margin_left c))
                   (chart_width c - margin_left c - margin_right c)) (\<lambda>q.
           Inr (rnd (min_time c + rnd (rnd q * rnd (max_time c - min_time c))))))"

definition y_to_price_fl :: "(real \<Rightarrow> real) \<Rightarrow> canvas \<Rightarrow> real \<Rightarrow> py_error + real" where
  "y_to_price_fl rnd c y =
     (if chart_height c - margin_top c - margin_bottom c = 0 then Inr (min_price c)
      else bind (py_div (rnd (chart_height c - margin_bottom c - y))
                   (chart_height c - margin_top c - margin_bottom c)) (\<lambda>q.
           Inr (rnd (min_price c + rnd (rnd q * rnd (max_price c - min_price c))))))"

definition plot_market_data_fl :: "(real \<Rightarrow> real) \<Rightarrow> canvas \<Rightarrow> canvas" where
  "plot_market_data_fl rnd c =
     (if market_data c = [] then c
      else
        (let prices = map dp_close (market_data c);
             lo = list_min prices; hi = list_max prices;
             price_range = rnd (hi - lo)
         in c\<lparr>min_price := rnd (lo - rnd (price_range * rnd 0.05)),
               max_price := rnd (hi + rnd (price_range * rnd 0.05)),
               min_time := 0, max_time := real (length (market_data c)) - 1\<rparr>))"

definition load_market_data_fl :: "(real \<Rightarrow> real) \<Rightarrow> data_point list \<Rightarrow> canvas \<Rightarrow> canvas" where
  "load_market_data_fl rnd data c = plot_market_data_fl rnd (c\<lparr>market_data := data\<rparr>)"

definition event_point_fl ::
  "(real \<Rightarrow> real) \<Rightarrow> datetime \<Rightarrow> canvas \<Rightarrow> real \<Rightarrow> real \<Rightarrow> py_error + real point" where
  "event_point_fl rnd now c x y =
     bind (x_to_time_fl rnd c x) (\<lambda>time_val.
     bind (y_to_price_fl rnd c y) (\<lambda>price_val.
     bind (time_string now c time_val) (\<lambda>time_str.
     Inr (Str time_str, price_val))))"

definition on_mouse_press_fl ::
  "(real \<Rightarrow> real) \<Rightarrow> datetime \<Rightarrow> canvas \<Rightarrow> real \<Rightarrow> real \<Rightarrow> py_error + canvas" where
  "on_mouse_press_fl rnd now c x y =
     (if \<not> drawing_enabled c then Inr c
      else if inside c x y then
        bind (event_point_fl rnd now c x y) (\<lambda>pt.
        Inr (c\<lparr>is_drawing := True, current_stroke := [pt]\<rparr>))
      else Inr c)"

definition on_mouse_move_fl ::
  "(real \<Rightarrow> real) \<Rightarrow> datetime \<Rightarrow> canvas \<Rightarrow> real \<Rightarrow> real \<Rightarrow> py_error + canvas" where
  "on_mouse_move_fl rnd now c x y =
     (if \<not> drawing_enabled c \<or> \<not> is_drawing c then Inr c
      else if inside c x y then
        bind (event_point_fl rnd now c x y) (\<lambda>pt.
        Inr (plot_market_data_fl rnd (c\<lparr>current_stroke := current_stroke c @ [pt]\<rparr>)))
      else Inr c)"

text \<open>
  \<open>binary64\<close> rounds a real number to the nearest double, and a number half way between two
  doubles to the one with an even significand. For \<open>2 ^ e \<le> \<bar>r\<bar> < 2 ^ (e + 1)\<close> the doubles
  around \<open>r\<close> are the multiples of \<open>2 ^ (e - 52)\<close>. Overflow and the subnormal range are left
  out: the numbers of a chart are far from both.
\<close>

definition round_even :: "real \<Rightarrow> int" where
  "round_even x =
     (if frac x < 1 / 2 then \<lfloor>x\<rfloor>
      else if 1 / 2 < frac x then \<lfloor>x\<rfloor> + 1
      else if even \<lfloor>x\<rfloor> then \<lfloor>x\<rfloor> else \<lfloor>x\<rfloor> + 1)"

definition binary64 :: "real \<Rightarrow> real" where
  "binary64 r =
     (if r = 0 then 0
      else of_int (round_even (r / 2 powr (of_int \<lfloor>log 2 \<bar>r\<bar>\<rfloor> - 52)))
             * 2 powr (of_int \<lfloor>log 2 \<bar>r\<bar>\<rfloor> - 52))"

text \<open>
  The geometry of a canvas is set by the constructor; no method assigns to these fields.
\<close>

definition geometry :: "canvas \<Rightarrow> real \<times> real \<times> real \<times> real \<times> real \<times> real" where
  "geometry c =
     (chart_width c, chart_height c, margin_left c, margin_right c, margin_top c,
      margin_bottom c)"

subsection \<open>A decimal fragment of int, float and str\<close>

text \<open>
  The closed examples below need concrete conversions. These agree with Python's on the
  strings and numbers the examples use: decimal integers, and non-negative numbers with one
  decimal digit whose value is a binary fraction (\<^verbatim>\<open>560.0\<close>, \<^verbatim>\<open>558.5\<close>).
\<close>

definition nat_of_digits :: "string \<Rightarrow> nat" where
  "nat_of_digits s = foldl (\<lambda>a c. 10 * a + digit_val c) 0 s"

definition int_of_string :: "string \<Rightarrow> int option" where
  "int_of_string s =
     (if s \<noteq> [] \<and> list_all is_digit s then Some (int (nat_of_digits s)) else None)"

definition float_of_string :: "string \<Rightarrow> real option" where
  "float_of_string s =
     (let ip = takeWhile (\<lambda>c. c \<noteq> CHR ''.'') s;
          fp = drop 1 (dropWhile (\<lambda>c. c \<noteq> CHR ''.'') s)
      in if ip \<noteq> [] \<and> list_all is_digit ip \<and> list_all is_digit fp
         then Some (real (nat_of_digits ip) + real (nat_of_digits fp) / 10 ^ length fp)
         else None)"

definition str_int :: "int \<Rightarrow> string" where
  "str_int i = (if i < 0 then CHR ''-'' # str_nat (nat (- i)) else str_nat (nat i))"

definition str_float :: "real \<Rightarrow> string" where
  "str_float r = str_nat (nat \<lfloor>r\<rfloor>) @ CHR ''.'' # [digit_char (nat \<lfloor>r * 10\<rfloor>)]"


section \<open>Reference definitions for the legacy format\<close>

text \<open>
  What the three handlers read from a legacy row before they touch the strokes, in the
  order of the source: \<^verbatim>\<open>row['datetime']\<close>, \<^verbatim>\<open>float(row['close'])\<close>, then the timestamp.
\<close>

definition legacy_parse_row ::
  "(string \<Rightarrow> 'p option) \<Rightarrow> row \<Rightarrow> py_error + (datetime \<times> 'p point)" where
  "legacy_parse_row parse_float r =
     bind (getitem r ''datetime'') (\<lambda>datetime_str.
     bind (bind (getitem r ''close'') (py_float parse_float)) (\<lambda>price.
     bind (strptime datetime_str day_format) (\<lambda>dt.
     Inr (dt, (stamp_of datetime_str, price)))))"

definition web_parse_row ::
  "(string \<Rightarrow> 'p option) \<Rightarrow> datetime \<Rightarrow> row \<Rightarrow> py_error + (datetime \<times> 'p point)" where
  "web_parse_row parse_float now r =
     bind (getitem r ''datetime'') (\<lambda>datetime_str.
     bind (bind (getitem r ''close'') (py_float parse_float)) (\<lambda>price.
     bind (try_formats datetime_str formats_to_try) (\<lambda>parsed.
     Inr (case parsed of None \<Rightarrow> now | Some dt \<Rightarrow> dt, (stamp_of datetime_str, price)))))"

fun web_parse_rows ::
  "(string \<Rightarrow> 'p option) \<Rightarrow> (nat \<Rightarrow> datetime) \<Rightarrow> nat \<Rightarrow> row list
     \<Rightarrow> (py_error + (datetime \<times> 'p point)) list" where
  "web_parse_rows parse_float clock i [] = []"
| "web_parse_rows parse_float clock i (r # rs) =
     web_parse_row parse_float (clock i) r # web_parse_rows parse_float clock (Suc i) rs"

text \<open>
  The specification of the legacy decode, in its own words: a row starts a new stroke
  exactly when the gap from the previous row's timestamp exceeds the threshold; otherwise
  it continues the stroke of the previous row; the last stroke is kept.
\<close>

fun strokes_by_gap :: "real \<Rightarrow> (datetime \<times> 'a) list \<Rightarrow> 'a list list" where
  "strokes_by_gap threshold [] = []"
| "strokes_by_gap threshold [(t, a)] = [[a]]"
| "strokes_by_gap threshold ((t, a) # (t', b) # rest) =
     (if total_seconds t' t > threshold
      then [a] # strokes_by_gap threshold ((t', b) # rest)
      else (case strokes_by_gap threshold ((t', b) # rest) of
              [] \<Rightarrow> [[a]]
            | g # gs \<Rightarrow> (a # g) # gs))"

fun never_later :: "(datetime \<times> 'a) list \<Rightarrow> bool" where
  \<comment> \<open>each row is at or before the previous row's time\<close>
  "never_later [] = True"
| "never_later [(t, a)] = True"
| "never_later ((t, a) # (t', b) # rest) =
     (total_seconds t' t \<le> 0 \<and> never_later ((t', b) # rest))"

definition gap_step :: "real \<Rightarrow> 'p legacy_state \<Rightarrow> datetime \<times> 'p point \<Rightarrow> 'p legacy_state" where
  \<comment> \<open>the rest of the loop body, once the row is read\<close>
  "gap_step threshold st x =
     (case st of (strokes, cur, last_datetime) \<Rightarrow>
        (case gap_split threshold (fst x) last_datetime strokes cur of
           (strokes', cur') \<Rightarrow> (strokes', cur' @ [snd x], Some (fst x))))"

definition to_last :: "datetime option \<Rightarrow> last" where
  "to_last l = (case l of None \<Rightarrow> NoLast | Some d \<Rightarrow> LastDt d)"

subsection \<open>Example files\<close>

definition market_header :: "string list" where
  "market_header = [''datetime'', ''open'', ''high'', ''low'', ''close'', ''volume'']"

definition legacy_table :: table where
  \<comment> \<open>rows at 10:00, 10:00:30 and 10:05\<close>
  "legacy_table =
     [market_header,
      [''03/12/2025 10:00'', ''560.0'', ''560.0'', ''560.0'', ''560.0'', ''0''],
      [''03/12/2025 10:00:30'', ''559.5'', ''559.5'', ''559.5'', ''559.5'', ''0''],
      [''03/12/2025 10:05'', ''558.0'', ''558.0'', ''558.0'', ''558.0'', ''0'']]"

definition minute_table :: table where
  \<comment> \<open>rows at 10:00, 10:01 and 10:05\<close>
  "minute_table =
     [market_header,
      [''03/12/2025 10:00'', ''560.0'', ''560.0'', ''560.0'', ''560.0'', ''0''],
      [''03/12/2025 10:01'', ''559.5'', ''559.5'', ''559.5'', ''559.5'', ''0''],
      [''03/12/2025 10:05'', ''558.0'', ''558.0'', ''558.0'', ''558.0'', ''0'']]"

definition backwards_table :: table where
  \<comment> \<open>rows at 10:05, 10:05 again, and 09:00 of the day before\<close>
  "backwards_table =
     [market_header,
      [''03/12/2025 10:05'', ''560.0'', ''560.0'', ''560.0'', ''560.0'', ''0''],
      [''03/12/2025 10:05'', ''559.5'', ''559.5'', ''559.5'', ''559.5'', ''0''],
      [''03/11/2025 09:00'', ''558.0'', ''558.0'', ''558.0'', ''558.0'', ''0'']]"

definition stamp_at :: "nat \<Rightarrow> nat \<Rightarrow> nat \<Rightarrow> nat \<Rightarrow> nat \<Rightarrow> nat \<Rightarrow> datetime" where
  "stamp_at y mo d h mi s =
     \<lparr>year = y, month = mo, day = d, hour = h, minute = mi, second = s, microsecond = 0\<rparr>"

definition bar_at :: "datetime \<Rightarrow> real \<Rightarrow> data_point" where
  \<comment> \<open>a bar whose four prices are the same\<close>
  "bar_at dt price =
     \<lparr>dp_datetime = dt, dp_open = price, dp_high = price, dp_low = price, dp_close = price,
      dp_volume = 0\<rparr>"

definition three_bars :: "data_point list" where
  "three_bars =
     [bar_at (stamp_at 2025 3 12 10 0 0) 560, bar_at (stamp_at 2025 3 12 10 30 0) 558,
      bar_at (stamp_at 2025 3 12 11 0 0) 556]"

definition example_canvas :: canvas where
  \<comment> \<open>a new canvas with three bars loaded and drawing switched on\<close>
  "example_canvas = enable_drawing (load_market_data three_bars init_canvas)"

definition pressed_canvas :: canvas where
  \<comment> \<open>\<open>example_canvas\<close> after the pointer went down at pixel (330, 280)\<close>
  "pressed_canvas =
     example_canvas\<lparr>is_drawing := True, current_stroke := [(Str ''03/12/2025 10:00'', 558)]\<rparr>"

definition float_canvas :: canvas where
  \<comment> \<open>as \<open>example_canvas\<close>, with the data ranges computed in doubles\<close>
  "float_canvas = enable_drawing (load_market_data_fl binary64 three_bars init_canvas)"

definition pressed_float_canvas :: canvas where
  \<comment> \<open>\<open>float_canvas\<close> after the pointer went down at pixel (330, 280)\<close>
  "pressed_float_canvas =
     float_canvas\<lparr>is_drawing := True, current_stroke := [(Str ''03/12/2025 10:00'', 558)]\<rparr>"

definition minute_bars :: "data_point list" where
  \<comment> \<open>46 bars, one a minute from 10:00 on, all at the same price\<close>
  "minute_bars = map (\<lambda>i. bar_at (stamp_at 2025 3 12 10 i 0) 560) [0..<46]"

definition minute_canvas :: canvas where
  "minute_canvas = enable_drawing (load_market_data_fl binary64 minute_bars init_canvas)"

definition fixed_clock :: "nat \<Rightarrow> datetime" where
  \<comment> \<open>a wall clock that reads noon of 1 January 2026 at every row\<close>
  "fixed_clock i = stamp_at 2026 1 1 12 0 0"

section \<open>Reference definitions for the modern format\<close>

definition normalized :: "string \<Rightarrow> string" where
  \<comment> \<open>a timestamp as the export writes it: parsed, then formatted again\<close>
  "normalized s =
     (case strptime (Some s) day_format of Inr d \<Rightarrow> strftime d day_format | Inl e \<Rightarrow> s)"

definition row_of :: "(int \<Rightarrow> string) \<Rightarrow> ('p \<Rightarrow> string) \<Rightarrow> int \<Rightarrow> string \<times> 'p \<Rightarrow> string list" where
  \<comment> \<open>the row of one point in the pattern file\<close>
  "row_of show_int show_float stroke_id pt =
     [show_int stroke_id, normalized (fst pt), show_float (snd pt), show_float (snd pt),
      show_float (snd pt), show_float (snd pt), show_int 0]"

fun rows_from ::
  "(int \<Rightarrow> string) \<Rightarrow> ('p \<Rightarrow> string) \<Rightarrow> int \<Rightarrow> (string \<times> 'p) list list \<Rightarrow> table" where
  "rows_from show_int show_float stroke_id [] = []"
| "rows_from show_int show_float stroke_id (stroke # strokes) =
     map (row_of show_int show_float stroke_id) stroke
       @ rows_from show_int show_float (stroke_id + 1) strokes"

definition as_point :: "string \<times> 'p \<Rightarrow> 'p point" where
  "as_point pt = (Str (fst pt), snd pt)"

definition as_normalized_point :: "string \<times> 'p \<Rightarrow> 'p point" where
  "as_normalized_point pt = (Str (normalized (fst pt)), snd pt)"

definition not_a_date_table :: table where
  "not_a_date_table =
     [pattern_header, [''0'', ''not-a-date'', ''1.5'', ''1.5'', ''1.5'', ''1.5'', ''0'']]"

definition no_close_table :: table where
  "no_close_table = [[''stroke_id'', ''datetime''], [''0'', ''03/12/2025 10:00'']]"

definition no_datetime_cell_table :: table where
  \<comment> \<open>a row that ends before its \<open>datetime\<close> cell\<close>
  "no_datetime_cell_table = [[''stroke_id'', ''close'', ''datetime''], [''0'', ''1.5'']]"

definition no_close_cell_table :: table where
  \<comment> \<open>a row that ends before its \<open>close\<close> cell\<close>
  "no_close_cell_table = [pattern_header, [''0'', ''03/12/2025 10:00'']]"

definition unpadded_strokes :: "(string \<times> real) list list" where
  "unpadded_strokes = [[(''3/12/2025 9:30'', 560), (''3/12/2025 10:00'', 558.5)]]"

definition sample_strokes :: "(string \<times> real) list list" where
  \<comment> \<open>two of the strokes of test_workflow.py, shortened\<close>
  "sample_strokes =
     [[(''03/12/2025 10:00'', 560), (''03/12/2025 10:30'', 558)],
      [(''03/12/2025 12:00'', 555), (''03/12/2025 13:00'', 555)]]"

section \<open>Evaluation rules and small facts\<close>


lemma str_nat_digit: "n < 10 \<Longrightarrow> str_nat n = [digit_char n]"
  by (simp add: str_nat.simps)

lemma str_nat_more: "10 \<le> n \<Longrightarrow> str_nat n = str_nat (n div 10) @ [digit_char n]"
  by (subst str_nat.simps) simp

lemmas conv_eval = nat_of_digits_def int_of_string_def float_of_string_def str_int_def
  str_float_def is_digit_def digit_val_def digit_char_def str_nat_digit str_nat_more

lemmas map_defs = price_to_y_def time_to_x_def x_to_time_def y_to_price_def py_div_def

lemmas strptime_eval = strptime_def is_space_def one_def two_def four_def space_one_def
  in_class_def is_digit_def digit_val_def default_fields_def valid_datetime_def
  days_in_month_def is_leap_def day_format_def formats_to_try_def
lemmas time_eval = total_seconds_def to_microseconds_def toordinal_def days_before_year_def
  days_before_month_def stamp_at_def
lemmas csv_eval = DictReader_def dict_row_def getitem_def py_float_def py_int_def read_table_def
  pattern_header_def market_header_def stamp_of_def
lemmas legacy_eval = web_import_pattern_from_csv_def web_import_row_def gap_split_def
  new_stroke_def legacy_last_stroke_def ultra_import_pattern_from_csv_def ultra_import_row_def
  legacy_parse_row_def web_parse_row_def

section \<open>strptime reads back what strftime writes\<close>

lemma digit_char_props:
  assumes "n < 10"
  shows "is_digit (digit_char n)" and "digit_val (digit_char n) = n" and "\<not> is_space (digit_char n)"
    and "digit_char n \<noteq> CHR '' ''"
proof -
  from assms have "n \<in> set [0, 1, 2, 3, 4, 5, 6, 7, 8, 9]"
    by simp arith
  then show "is_digit (digit_char n)" and "digit_val (digit_char n) = n" and "\<not> is_space (digit_char n)"
    and "digit_char n \<noteq> CHR '' ''"
    by (auto simp: digit_char_def is_digit_def digit_val_def is_space_def)
qed

lemma digit_char_mod: "digit_char (n mod 10) = digit_char n"
  by (simp add: digit_char_def)

lemma is_digit_digit_char: "is_digit (digit_char n)"
  using digit_char_props(1)[of "n mod 10"] by (simp add: digit_char_mod)

lemma digit_val_digit_char: "digit_val (digit_char n) = n mod 10"
  using digit_char_props(2)[of "n mod 10"] by (simp add: digit_char_mod)

lemma not_space_digit_char: "\<not> is_space (digit_char n)"
  using digit_char_props(3)[of "n mod 10"] by (simp add: digit_char_mod)

lemma digit_char_not_blank: "digit_char n \<noteq> CHR '' ''"
  using digit_char_props(4)[of "n mod 10"] by (simp add: digit_char_mod)

lemma in_class_digit_char: "in_class lo hi (digit_char n) = (lo \<le> n mod 10 \<and> n mod 10 \<le> hi)"
  by (simp add: in_class_def is_digit_digit_char digit_val_digit_char)

lemma two_pad2:
  "n < 100 \<Longrightarrow> two lo1 hi1 lo2 hi2 (pad2 n @ r) =
     (if lo1 \<le> n div 10 \<and> n div 10 \<le> hi1 \<and> lo2 \<le> n mod 10 \<and> n mod 10 \<le> hi2 then [(n, r)] else [])"
  by (simp add: two_def pad2_def in_class_digit_char digit_val_digit_char)

lemma decimal_digits4:
  "1000 * (n div 1000) + 100 * (n div 100 mod 10) + 10 * (n div 10 mod 10) + n mod 10 = (n::nat)"
proof -
  have a: "n div 100 = (n div 10) div 10" and b: "n div 1000 = (n div 100) div 10"
    by (simp_all add: div_mult2_eq)
  have e1: "10 * (n div 10) + n mod 10 = n"
    and e2: "10 * ((n div 10) div 10) + (n div 10) mod 10 = n div 10"
    and e3: "10 * ((n div 100) div 10) + (n div 100) mod 10 = n div 100"
    by simp_all
  from a b e1 e2 e3 show ?thesis by linarith
qed

lemma four_pad4: "n < 10000 \<Longrightarrow> four (pad4 n @ r) = [(n, r)]"
  by (simp add: four_def pad4_def is_digit_digit_char digit_val_digit_char decimal_digits4)

lemma spaces_blank_digit: "spaces (CHR '' '' # digit_char n # r) = [digit_char n # r]"
  by (simp add: not_space_digit_char) (simp add: is_space_def)

lemma alternatives_Dm:
  assumes "1 \<le> m" and "m \<le> 12"
  shows "\<exists>rest. alternatives Dm f (pad2 m @ r) = (f\<lparr>month := m\<rparr>, r) # rest"
proof -
  from assms have "m div 10 = 1 \<and> m mod 10 \<le> 2 \<or> m div 10 = 0 \<and> 1 \<le> m mod 10" by arith
  with assms show ?thesis by (auto simp: two_pad2)
qed

lemma alternatives_Dd:
  assumes "1 \<le> d" and "d \<le> 31"
  shows "\<exists>rest. alternatives Dd f (pad2 d @ r) = (f\<lparr>day := d\<rparr>, r) # rest"
proof -
  from assms have "d div 10 = 3 \<and> d mod 10 \<le> 1 \<or> (d div 10 = 1 \<or> d div 10 = 2) \<or> d div 10 = 0 \<and> 1 \<le> d mod 10"
    by arith
  with assms show ?thesis by (auto simp: two_pad2)
qed

lemma alternatives_DH:
  assumes "h \<le> 23"
  shows "\<exists>rest. alternatives DH f (pad2 h @ r) = (f\<lparr>hour := h\<rparr>, r) # rest"
proof -
  from assms have "h div 10 = 2 \<and> h mod 10 \<le> 3 \<or> h div 10 \<le> 1" by arith
  with assms show ?thesis by (auto simp: two_pad2)
qed

lemma alternatives_DM:
  assumes "m \<le> 59"
  shows "\<exists>rest. alternatives DM f (pad2 m @ r) = (f\<lparr>minute := m\<rparr>, r) # rest"
proof -
  from assms have "m div 10 \<le> 5" by arith
  with assms show ?thesis by (auto simp: two_pad2)
qed

lemma alternatives_DY:
  "y < 10000 \<Longrightarrow> \<exists>rest. alternatives DY f (pad4 y @ r) = (f\<lparr>year := y\<rparr>, r) # rest"
  by (simp add: four_pad4)

lemma matches_Spaces:
  "\<exists>ys. matches ds f (pad2 n @ r) = x # ys
    \<Longrightarrow> \<exists>ys. matches (Spaces # ds) f (CHR '' '' # pad2 n @ r) = x # ys"
  by (simp add: pad2_def not_space_digit_char) (simp add: is_space_def)

lemma matches_first:
  assumes "\<exists>rest. alternatives d f s = (f', r) # rest" and "\<exists>ys. matches ds f' r = x # ys"
  shows "\<exists>ys. matches (d # ds) f s = x # ys"
  using assms by auto

lemma matches_Lit: "\<exists>ys. matches ds f r = x # ys \<Longrightarrow> \<exists>ys. matches (Lit c # ds) f (c # r) = x # ys"
  by simp

lemma compile_day_format:
  "compile_format day_format = [Dm, Lit CHR ''/'', Dd, Lit CHR ''/'', DY, Spaces, DH, Lit CHR '':'', DM]"
  by (simp add: day_format_def is_space_def)

lemma str_nat_pad4:
  assumes "1000 \<le> y" and "y \<le> 9999"
  shows "str_nat y = pad4 y"
proof -
  have a: "y div 10 div 10 = y div 100" and b: "y div 100 div 10 = y div 1000"
    by (simp_all add: div_mult2_eq)
  from assms have c: "10 \<le> y" "10 \<le> y div 10" "10 \<le> y div 100" "y div 1000 < 10"
    by simp_all
  have "str_nat y = str_nat (y div 10) @ [digit_char y]"
    by (rule str_nat_more[OF c(1)])
  also have "str_nat (y div 10) = str_nat (y div 100) @ [digit_char (y div 10)]"
    using str_nat_more[OF c(2)] by (simp only: a)
  also have "str_nat (y div 100) = str_nat (y div 1000) @ [digit_char (y div 100)]"
    using str_nat_more[OF c(3)] by (simp only: b)
  also have "str_nat (y div 1000) = [digit_char (y div 1000)]"
    by (rule str_nat_digit[OF c(4)])
  finally show ?thesis by (simp add: pad4_def)
qed

lemma strftime_day_format:
  "strftime d day_format =
     pad2 (month d) @ CHR ''/'' # pad2 (day d) @ CHR ''/'' # str_nat (year d) @ CHR '' '' # pad2 (hour d) @ CHR '':'' # pad2 (minute d)"
  by (simp add: day_format_def)

lemma matches_day_format:
  assumes "valid_datetime d" and "1000 \<le> year d"
  shows "\<exists>ys. matches (compile_format day_format) f (strftime d day_format) =
           (f\<lparr>month := month d, day := day d, year := year d, hour := hour d, minute := minute d\<rparr>, []) # ys"
proof -
  from assms(1) have m: "1 \<le> month d" "month d \<le> 12" and dd: "1 \<le> day d" "day d \<le> 31"
    and y: "year d < 10000" and h: "hour d \<le> 23" and mi: "minute d \<le> 59"
    by (auto simp: valid_datetime_def days_in_month_def split: if_splits)
  let ?f1 = "f\<lparr>month := month d\<rparr>"
  let ?f2 = "?f1\<lparr>day := day d\<rparr>"
  let ?f3 = "?f2\<lparr>year := year d\<rparr>"
  let ?f4 = "?f3\<lparr>hour := hour d\<rparr>"
  let ?f5 = "?f4\<lparr>minute := minute d\<rparr>"
  have s9: "\<exists>ys. matches [DM] ?f4 (pad2 (minute d) @ []) = (?f5, []) # ys"
    by (rule matches_first[OF alternatives_DM[OF mi]]) simp
  have s8: "\<exists>ys. matches [Lit CHR '':'', DM] ?f4 (CHR '':'' # pad2 (minute d)) = (?f5, []) # ys"
    using matches_Lit[OF s9] by simp
  have s7: "\<exists>ys. matches [DH, Lit CHR '':'', DM] ?f3 (pad2 (hour d) @ CHR '':'' # pad2 (minute d)) = (?f5, []) # ys"
    by (rule matches_first[OF alternatives_DH[OF h] s8])
  have s6: "\<exists>ys. matches [Spaces, DH, Lit CHR '':'', DM] ?f3 (CHR '' '' # pad2 (hour d) @ CHR '':'' # pad2 (minute d)) = (?f5, []) # ys"
    by (rule matches_Spaces[OF s7])
  have s5: "\<exists>ys. matches [DY, Spaces, DH, Lit CHR '':'', DM] ?f2 (pad4 (year d) @ CHR '' '' # pad2 (hour d) @ CHR '':'' # pad2 (minute d)) = (?f5, []) # ys"
    by (rule matches_first[OF alternatives_DY[OF y] s6])
  have s4: "\<exists>ys. matches [Lit CHR ''/'', DY, Spaces, DH, Lit CHR '':'', DM] ?f2 (CHR ''/'' # pad4 (year d) @ CHR '' '' # pad2 (hour d) @ CHR '':'' # pad2 (minute d)) = (?f5, []) # ys"
    by (rule matches_Lit[OF s5])
  have s3: "\<exists>ys. matches [Dd, Lit CHR ''/'', DY, Spaces, DH, Lit CHR '':'', DM] ?f1 (pad2 (day d) @ CHR ''/'' # pad4 (year d) @ CHR '' '' # pad2 (hour d) @ CHR '':'' # pad2 (minute d)) = (?f5, []) # ys"
    by (rule matches_first[OF alternatives_Dd[OF dd] s4])
  have s2: "\<exists>ys. matches [Lit CHR ''/'', Dd, Lit CHR ''/'', DY, Spaces, DH, Lit CHR '':'', DM] ?f1 (CHR ''/'' # pad2 (day d) @ CHR ''/'' # pad4 (year d) @ CHR '' '' # pad2 (hour d) @ CHR '':'' # pad2 (minute d)) = (?f5, []) # ys"
    by (rule matches_Lit[OF s3])
  have s1: "\<exists>ys. matches [Dm, Lit CHR ''/'', Dd, Lit CHR ''/'', DY, Spaces, DH, Lit CHR '':'', DM] f (pad2 (month d) @ CHR ''/'' # pad2 (day d) @ CHR ''/'' # pad4 (year d) @ CHR '' '' # pad2 (hour d) @ CHR '':'' # pad2 (minute d)) = (?f5, []) # ys"
    by (rule matches_first[OF alternatives_Dm[OF m] s2])
  moreover from assms have "str_nat (year d) = pad4 (year d)"
    by (intro str_nat_pad4) (simp_all add: valid_datetime_def)
  ultimately show ?thesis
    unfolding compile_day_format strftime_day_format by simp
qed

lemma strptime_strftime:
  assumes "valid_datetime d" and "1000 \<le> year d"
  shows "strptime (Some (strftime d day_format)) day_format = Inr (d\<lparr>second := 0, microsecond := 0\<rparr>)"
proof -
  obtain ys where "matches (compile_format day_format) default_fields (strftime d day_format) =
      (default_fields\<lparr>month := month d, day := day d, year := year d, hour := hour d, minute := minute d\<rparr>, []) # ys"
    using matches_day_format[OF assms] by blast
  moreover have "default_fields\<lparr>month := month d, day := day d, year := year d, hour := hour d, minute := minute d\<rparr>
      = d\<lparr>second := 0, microsecond := 0\<rparr>"
    by (simp add: default_fields_def)
  moreover have "valid_datetime (d\<lparr>second := 0, microsecond := 0\<rparr>)"
    using assms(1) by (simp add: valid_datetime_def)
  ultimately show ?thesis by (simp add: strptime_def)
qed

lemma strftime_ignores_seconds:
  "strftime (d\<lparr>second := 0, microsecond := 0\<rparr>) day_format = strftime d day_format"
  by (simp add: strftime_day_format)

section \<open>The coordinate maps at the degenerate ranges\<close>

text \<open>
  C9. When \<open>max_price = min_price\<close>, \<open>price_to_y\<close> returns the top margin for every price;
  when \<open>max_time = min_time\<close>, \<open>time_to_x\<close> returns the left margin for every index. Under
  the same conditions \<open>x_to_time\<close> returns \<open>min_time\<close> and \<open>y_to_price\<close> returns
  \<open>min_price\<close>. None of the four functions raises \<^verbatim>\<open>ZeroDivisionError\<close>, in any
  configuration and on any argument.
\<close>

theorem degenerate_ranges:
  "(max_price c = min_price c \<longrightarrow> price_to_y c p = Inr (margin_top c)) \<and>
   (max_time c = min_time c \<longrightarrow> time_to_x c i = Inr (margin_left c)) \<and>
   (max_time c = min_time c \<longrightarrow> x_to_time c x = Inr (min_time c)) \<and>
   (max_price c = min_price c \<longrightarrow> y_to_price c y = Inr (min_price c)) \<and>
   price_to_y c p \<noteq> Inl ZeroDivisionError \<and> time_to_x c i \<noteq> Inl ZeroDivisionError \<and>
   x_to_time c x \<noteq> Inl ZeroDivisionError \<and> y_to_price c y \<noteq> Inl ZeroDivisionError"
  by (simp add: map_defs)

theorem degenerate_ranges_witness:
  "max_price (init_canvas\<lparr>min_price := 5, max_price := 5, min_time := 0, max_time := 0\<rparr>)
     = min_price (init_canvas\<lparr>min_price := 5, max_price := 5, min_time := 0, max_time := 0\<rparr>) \<and>
   max_time (init_canvas\<lparr>min_price := 5, max_price := 5, min_time := 0, max_time := 0\<rparr>)
     = min_time (init_canvas\<lparr>min_price := 5, max_price := 5, min_time := 0, max_time := 0\<rparr>) \<and>
   price_to_y (init_canvas\<lparr>min_price := 5, max_price := 5, min_time := 0, max_time := 0\<rparr>) 7 = Inr 20 \<and>
   time_to_x (init_canvas\<lparr>min_price := 5, max_price := 5, min_time := 0, max_time := 0\<rparr>) 3 = Inr 60 \<and>
   x_to_time (init_canvas\<lparr>min_price := 5, max_price := 5, min_time := 0, max_time := 0\<rparr>) 400 = Inr 0 \<and>
   y_to_price (init_canvas\<lparr>min_price := 5, max_price := 5, min_time := 0, max_time := 0\<rparr>) 300 = Inr 5"
  using degenerate_ranges [of "init_canvas\<lparr>min_price := 5, max_price := 5, min_time := 0, max_time := 0\<rparr>"
      7 3 400 300]
  by (simp add: init_canvas_def)

section \<open>The legacy decode\<close>

lemma bind_eq_Inr: "bind m f = Inr y \<longleftrightarrow> (\<exists>x. m = Inr x \<and> f x = Inr y)"
  by (cases m) auto

lemma bind_eq_Inl: "bind m f = Inl e \<longleftrightarrow> (m = Inl e \<or> (\<exists>x. m = Inr x \<and> f x = Inl e))"
  by (cases m) auto

lemma ultra_import_row_parsed:
  assumes "legacy_parse_row pf r = Inr x"
  shows "ultra_import_row pf r st = Inr (gap_step 60 st x)"
proof -
  from assms obtain cell price dt where
    "getitem r ''datetime'' = Inr cell" "bind (getitem r ''close'') (py_float pf) = Inr price"
    "strptime cell day_format = Inr dt" "x = (dt, (stamp_of cell, price))"
    by (auto simp: legacy_parse_row_def bind_eq_Inr)
  then show ?thesis
    by (cases st) (simp add: ultra_import_row_def gap_step_def split: prod.splits)
qed

lemma web_import_row_parsed:
  assumes "web_parse_row pf now r = Inr x"
  shows "web_import_row pf now r st = Inr (gap_step 60 st x)"
proof -
  from assms obtain cell price parsed where
    "getitem r ''datetime'' = Inr cell" "bind (getitem r ''close'') (py_float pf) = Inr price"
    "try_formats cell formats_to_try = Inr parsed"
    "x = (case parsed of None \<Rightarrow> now | Some dt \<Rightarrow> dt, (stamp_of cell, price))"
    by (auto simp: web_parse_row_def bind_eq_Inr)
  then show ?thesis
    by (cases st) (simp add: web_import_row_def gap_step_def split: prod.splits)
qed

lemma web_import_rows_parsed:
  "web_parse_rows pf clock i rows = map Inr parsed
    \<Longrightarrow> web_import_rows pf clock i rows st = Inr (foldl (gap_step 60) st parsed)"
proof (induction rows arbitrary: st parsed i)
  case Nil
  then show ?case by simp
next
  case (Cons r rows)
  then obtain x xs where p: "parsed = x # xs" "web_parse_row pf (clock i) r = Inr x"
      "web_parse_rows pf clock (Suc i) rows = map Inr xs"
    by (cases parsed) auto
  show ?case using Cons.IH[OF p(3)] p by (simp add: web_import_row_parsed)
qed

lemma ultra_import_rows_parsed:
  "map (legacy_parse_row pf) rows = map Inr parsed
    \<Longrightarrow> ultra_import_rows pf rows st = Inr (foldl (gap_step 60) st parsed)"
proof (induction rows arbitrary: st parsed)
  case Nil
  then show ?case by simp
next
  case (Cons r rows)
  then obtain x xs where p: "parsed = x # xs" "legacy_parse_row pf r = Inr x"
      "map (legacy_parse_row pf) rows = map Inr xs"
    by (cases parsed) auto
  show ?case using Cons.IH[OF p(3)] p by (simp add: ultra_import_row_parsed)
qed

lemma strokes_by_gap_Cons: "strokes_by_gap th (x # xs) \<noteq> []"
  by (induction th "x # xs" arbitrary: x xs rule: strokes_by_gap.induct) (auto split: list.splits)

lemma gap_loop:
  "legacy_last_stroke (foldl (gap_step th) (S, c0 @ [a], Some t) ps) =
     S @ (case strokes_by_gap th ((t, a) # ps) of [] \<Rightarrow> [] | g # gs \<Rightarrow> (c0 @ g) # gs)"
proof (induction ps arbitrary: S c0 a t)
  case Nil
  then show ?case by (simp add: legacy_last_stroke_def)
next
  case (Cons p ps)
  obtain t' b where p: "p = (t', b)" by (cases p)
  obtain g gs where g: "strokes_by_gap th ((t', b) # ps) = g # gs"
    using strokes_by_gap_Cons[of th "(t', b)" ps] by (cases "strokes_by_gap th ((t', b) # ps)") auto
  show ?case
  proof (cases "total_seconds t' t > th")
    case True
    have "foldl (gap_step th) (S, c0 @ [a], Some t) (p # ps)
        = foldl (gap_step th) (S @ [c0 @ [a]], [] @ [b], Some t') ps"
      using True by (simp add: p gap_step_def gap_split_def new_stroke_def)
    then show ?thesis using Cons.IH[of "S @ [c0 @ [a]]" "[]" b t'] True g by (simp add: p)
  next
    case False
    have "foldl (gap_step th) (S, c0 @ [a], Some t) (p # ps)
        = foldl (gap_step th) (S, (c0 @ [a]) @ [b], Some t') ps"
      using False by (simp add: p gap_step_def gap_split_def)
    then show ?thesis using Cons.IH[of S "c0 @ [a]" b t'] False g by (simp add: p)
  qed
qed

lemma gap_loop_start:
  "legacy_last_stroke (foldl (gap_step th) ([], [], None) ps) = strokes_by_gap th ps"
proof (cases ps)
  case Nil
  then show ?thesis by (simp add: legacy_last_stroke_def)
next
  case (Cons p ps')
  obtain t a where p: "p = (t, a)" by (cases p)
  have "foldl (gap_step th) ([], [], None) ps = foldl (gap_step th) ([], [] @ [a], Some t) ps'"
    by (simp add: Cons p gap_step_def gap_split_def)
  then show ?thesis using gap_loop[of th "[]" "[]" a t ps'] strokes_by_gap_Cons[of th "(t, a)" ps']
    by (simp add: Cons p split: list.splits)
qed

lemma strokes_by_gap_never_later:
  "0 \<le> th \<Longrightarrow> never_later ps \<Longrightarrow> strokes_by_gap th ps = (if ps = [] then [] else [map snd ps])"
proof (induction th ps rule: strokes_by_gap.induct)
  case (3 th t a t' b rest)
  then show ?case by simp
qed simp_all


lemma import_row_legacy:
  assumes "r ''stroke_id'' = None" and "legacy_parse_row pf r = Inr x"
  shows "import_row pint pf r (S, cur, to_last l) =
           Inr (case gap_step 30 (S, cur, l) x of (S', cur', l') \<Rightarrow> (S', cur', to_last l'))"
proof -
  from assms(2) obtain cell price dt where
    "getitem r ''datetime'' = Inr cell" "bind (getitem r ''close'') (py_float pf) = Inr price"
    "strptime cell day_format = Inr dt" "x = (dt, (stamp_of cell, price))"
    by (auto simp: legacy_parse_row_def bind_eq_Inr)
  then show ?thesis using assms(1)
    by (cases l) (simp_all add: import_row_def gap_step_def gap_split_def to_last_def split: prod.splits)
qed

lemma import_rows_legacy:
  "\<forall>r\<in>set rows. r ''stroke_id'' = None \<Longrightarrow> map (legacy_parse_row pf) rows = map Inr parsed
    \<Longrightarrow> import_rows pint pf rows (S, cur, to_last l) =
        Inr (case foldl (gap_step 30) (S, cur, l) parsed of (S', cur', l') \<Rightarrow> (S', cur', to_last l'))"
proof (induction rows arbitrary: S cur l parsed)
  case Nil
  then show ?case by simp
next
  case (Cons r rows)
  then obtain x xs where p: "parsed = x # xs" "legacy_parse_row pf r = Inr x"
      "map (legacy_parse_row pf) rows = map Inr xs"
    by (cases parsed) auto
  obtain S' cur' l' where g: "gap_step 30 (S, cur, l) x = (S', cur', l')"
    by (cases "gap_step 30 (S, cur, l) x") auto
  from Cons.prems(1) have n: "r ''stroke_id'' = None" "\<forall>r\<in>set rows. r ''stroke_id'' = None"
    by auto
  show ?case using Cons.IH[OF n(2) p(3), of S' cur' l'] import_row_legacy[OF n(1) p(2), of pint S cur l] g
    by (simp add: p(1))
qed

lemma add_last_stroke_legacy:
  "add_last_stroke (case st of (S', cur', l') \<Rightarrow> (S', cur', to_last l')) = legacy_last_stroke st"
  by (cases st) (simp add: add_last_stroke_def legacy_last_stroke_def)

lemma ultra_decode:
  assumes "fs filename = Some t" and "map (legacy_parse_row pf) (DictReader t) = map Inr parsed"
  shows "ultra_import_pattern_from_csv pf filename fs ps0 =
           (strokes_by_gap 60 parsed, Inr (strokes_by_gap 60 parsed))"
  using assms
  by (simp add: ultra_import_pattern_from_csv_def read_table_def ultra_import_rows_parsed gap_loop_start)

lemma web_decode:
  assumes "fs filename = Some t" and "web_parse_rows pf clock 0 (DictReader t) = map Inr parsed"
  shows "web_import_pattern_from_csv pf clock filename fs = Inr (strokes_by_gap 60 parsed)"
  using assms
  by (simp add: web_import_pattern_from_csv_def read_table_def web_import_rows_parsed gap_loop_start)

lemma handler_legacy_decode:
  assumes "fs filename = Some t" and "\<forall>r\<in>set (DictReader t). r ''stroke_id'' = None"
    and "map (legacy_parse_row pf) (DictReader t) = map Inr parsed"
  shows "import_pattern_from_csv pint pf filename fs ps0 =
           (strokes_by_gap 30 parsed, Inr (strokes_by_gap 30 parsed))"
proof -
  have n: "NoLast = to_last None" by (simp add: to_last_def)
  have "import_rows pint pf (DictReader t) ([], [], NoLast) =
      Inr (case foldl (gap_step 30) ([], [], None) parsed of (S', cur', l') \<Rightarrow> (S', cur', to_last l'))"
    unfolding n by (rule import_rows_legacy[OF assms(2,3)])
  then show ?thesis using assms(1)
    by (simp add: import_pattern_from_csv_def read_table_def add_last_stroke_legacy gap_loop_start)
qed

lemma concat_strokes_by_gap: "concat (strokes_by_gap th ps) = map snd ps"
  by (induction th ps rule: strokes_by_gap.induct) (auto simp: strokes_by_gap_Cons split: list.splits)

lemma strokes_by_gap_no_empty: "[] \<notin> set (strokes_by_gap th ps)"
  by (induction th ps rule: strokes_by_gap.induct) (auto split: list.splits)

text \<open>
  C2. Legacy decode, threshold 60 seconds (\<open>ultra_import_pattern_from_csv\<close> and
  \<open>web_import_pattern_from_csv\<close>): when every row can be read, the result is
  \<open>strokes_by_gap 60\<close> of the rows, that is, a row starts a new stroke exactly when its
  timestamp is more than 60 seconds after the previous row's, and the stroke in progress at
  the end of the rows is kept; every row is in the result, in order, and no stroke is empty.
  Rows at 10:00, 10:00:30 and 10:05 of one day (read by the web handler, the one that accepts
  seconds) give two strokes, of two points and of one.
\<close>

theorem legacy_decode_splits_on_gaps:
  "(fs filename = Some t \<longrightarrow> map (legacy_parse_row pf) (DictReader t) = map Inr parsed \<longrightarrow>
      ultra_import_pattern_from_csv pf filename fs ps0 =
        (strokes_by_gap 60 parsed, Inr (strokes_by_gap 60 parsed))) \<and>
   (fs filename = Some t \<longrightarrow> web_parse_rows pf clock 0 (DictReader t) = map Inr parsed \<longrightarrow>
      web_import_pattern_from_csv pf clock filename fs = Inr (strokes_by_gap 60 parsed)) \<and>
   concat (strokes_by_gap 60 parsed) = map snd parsed \<and>
   [] \<notin> set (strokes_by_gap 60 parsed) \<and>
   web_import_pattern_from_csv float_of_string clock ''pattern.csv'' [''pattern.csv'' \<mapsto> legacy_table] =
     Inr [[(Str ''03/12/2025 10:00'', 560), (Str ''03/12/2025 10:00:30'', 559.5)],
          [(Str ''03/12/2025 10:05'', 558)]]"
proof -
  have "web_import_pattern_from_csv float_of_string clock ''pattern.csv'' [''pattern.csv'' \<mapsto> legacy_table] =
     Inr [[(Str ''03/12/2025 10:00'', 560), (Str ''03/12/2025 10:00:30'', 559.5)],
          [(Str ''03/12/2025 10:05'', 558)]]"
    by (simp add: legacy_table_def legacy_eval csv_eval float_of_string_def nat_of_digits_def
        strptime_eval time_eval)
  then show ?thesis
    by (intro conjI impI)
       (simp_all add: ultra_decode web_decode concat_strokes_by_gap strokes_by_gap_no_empty)
qed

lemma minute_table_parsed:
  "map (legacy_parse_row float_of_string) (DictReader minute_table) =
     map Inr [(stamp_at 2025 3 12 10 0 0, (Str ''03/12/2025 10:00'', 560)),
              (stamp_at 2025 3 12 10 1 0, (Str ''03/12/2025 10:01'', 559.5)),
              (stamp_at 2025 3 12 10 5 0, (Str ''03/12/2025 10:05'', 558))]"
  by (simp add: minute_table_def legacy_eval csv_eval float_of_string_def nat_of_digits_def
      strptime_eval time_eval)

lemma legacy_table_parsed:
  "web_parse_rows float_of_string clock 0 (DictReader legacy_table) =
     map Inr [(stamp_at 2025 3 12 10 0 0, (Str ''03/12/2025 10:00'', 560)),
              (stamp_at 2025 3 12 10 0 30, (Str ''03/12/2025 10:00:30'', 559.5)),
              (stamp_at 2025 3 12 10 5 0, (Str ''03/12/2025 10:05'', 558))]"
  by (simp add: legacy_table_def legacy_eval csv_eval float_of_string_def nat_of_digits_def
      strptime_eval time_eval)

theorem legacy_decode_splits_on_gaps_witness:
  "[''pattern.csv'' \<mapsto> minute_table] ''pattern.csv'' = Some minute_table \<and>
   map (legacy_parse_row float_of_string) (DictReader minute_table) =
     map Inr [(stamp_at 2025 3 12 10 0 0, (Str ''03/12/2025 10:00'', 560)),
              (stamp_at 2025 3 12 10 1 0, (Str ''03/12/2025 10:01'', 559.5)),
              (stamp_at 2025 3 12 10 5 0, (Str ''03/12/2025 10:05'', 558))] \<and>
   web_parse_rows float_of_string fixed_clock 0 (DictReader minute_table) =
     map Inr [(stamp_at 2025 3 12 10 0 0, (Str ''03/12/2025 10:00'', 560)),
              (stamp_at 2025 3 12 10 1 0, (Str ''03/12/2025 10:01'', 559.5)),
              (stamp_at 2025 3 12 10 5 0, (Str ''03/12/2025 10:05'', 558))] \<and>
   ultra_import_pattern_from_csv float_of_string ''pattern.csv'' [''pattern.csv'' \<mapsto> minute_table] [] =
     ([[(Str ''03/12/2025 10:00'', 560), (Str ''03/12/2025 10:01'', 559.5)],
       [(Str ''03/12/2025 10:05'', 558)]],
      Inr [[(Str ''03/12/2025 10:00'', 560), (Str ''03/12/2025 10:01'', 559.5)],
           [(Str ''03/12/2025 10:05'', 558)]]) \<and>
   web_import_pattern_from_csv float_of_string fixed_clock ''pattern.csv''
       [''pattern.csv'' \<mapsto> minute_table] =
     Inr [[(Str ''03/12/2025 10:00'', 560), (Str ''03/12/2025 10:01'', 559.5)],
          [(Str ''03/12/2025 10:05'', 558)]]"
proof -
  have g: "strokes_by_gap 60 [(stamp_at 2025 3 12 10 0 0, (Str ''03/12/2025 10:00'', 560::real)),
              (stamp_at 2025 3 12 10 1 0, (Str ''03/12/2025 10:01'', 559.5)),
              (stamp_at 2025 3 12 10 5 0, (Str ''03/12/2025 10:05'', 558))] =
     [[(Str ''03/12/2025 10:00'', 560), (Str ''03/12/2025 10:01'', 559.5)],
       [(Str ''03/12/2025 10:05'', 558)]]"
    by (simp add: time_eval)
  have h1: "[''pattern.csv'' \<mapsto> minute_table] ''pattern.csv'' = Some minute_table"
    by simp
  have h2: "web_parse_rows float_of_string fixed_clock 0 (DictReader minute_table) =
     map Inr [(stamp_at 2025 3 12 10 0 0, (Str ''03/12/2025 10:00'', 560)),
              (stamp_at 2025 3 12 10 1 0, (Str ''03/12/2025 10:01'', 559.5)),
              (stamp_at 2025 3 12 10 5 0, (Str ''03/12/2025 10:05'', 558))]"
    by (simp add: minute_table_def legacy_eval csv_eval float_of_string_def nat_of_digits_def
        strptime_eval time_eval)
  note T = legacy_decode_splits_on_gaps [of "[''pattern.csv'' \<mapsto> minute_table]" "''pattern.csv''"
        minute_table float_of_string _ "[]" fixed_clock]
  note r1 = T [THEN conjunct1, rule_format, OF h1 minute_table_parsed]
  note r2 = T [THEN conjunct2, THEN conjunct1, rule_format, OF h1 h2]
  show ?thesis
    apply (intro conjI)
        apply (rule h1)
       apply (rule minute_table_parsed)
      apply (rule h2)
     apply (rule r1 [unfolded g])
    apply (rule r2 [unfolded g])
    done
qed

text \<open>
  C10. The stroke-break test is on the signed difference, so going back in time never
  splits: when no row is later than the row before it, each of the three legacy decoders
  returns all rows as one stroke (and no stroke when there are no rows).
\<close>

theorem backward_rows_single_stroke:
  "(fs filename = Some t \<longrightarrow> map (legacy_parse_row pf) (DictReader t) = map Inr parsed \<longrightarrow>
    never_later parsed \<longrightarrow>
      ultra_import_pattern_from_csv pf filename fs ps0 =
        (if parsed = [] then [] else [map snd parsed],
         Inr (if parsed = [] then [] else [map snd parsed]))) \<and>
   (fs filename = Some t \<longrightarrow> (\<forall>r\<in>set (DictReader t). r ''stroke_id'' = None) \<longrightarrow>
    map (legacy_parse_row pf) (DictReader t) = map Inr parsed \<longrightarrow> never_later parsed \<longrightarrow>
      import_pattern_from_csv pint pf filename fs ps0 =
        (if parsed = [] then [] else [map snd parsed],
         Inr (if parsed = [] then [] else [map snd parsed]))) \<and>
   (fs filename = Some t \<longrightarrow> web_parse_rows pf clock 0 (DictReader t) = map Inr parsed \<longrightarrow>
    never_later parsed \<longrightarrow>
      web_import_pattern_from_csv pf clock filename fs =
        Inr (if parsed = [] then [] else [map snd parsed]))"
proof (intro conjI impI)
  assume a: "fs filename = Some t" "map (legacy_parse_row pf) (DictReader t) = map Inr parsed"
    "never_later parsed"
  show "ultra_import_pattern_from_csv pf filename fs ps0 =
        (if parsed = [] then [] else [map snd parsed],
         Inr (if parsed = [] then [] else [map snd parsed]))"
    using ultra_decode[of fs filename t pf parsed ps0] a
      strokes_by_gap_never_later[of 60 parsed] by simp
next
  assume a: "fs filename = Some t" "\<forall>r\<in>set (DictReader t). r ''stroke_id'' = None"
    "map (legacy_parse_row pf) (DictReader t) = map Inr parsed" "never_later parsed"
  show "import_pattern_from_csv pint pf filename fs ps0 =
        (if parsed = [] then [] else [map snd parsed],
         Inr (if parsed = [] then [] else [map snd parsed]))"
    using handler_legacy_decode[of fs filename t pf parsed pint ps0] a
      strokes_by_gap_never_later[of 30 parsed] by simp
next
  assume a: "fs filename = Some t" "web_parse_rows pf clock 0 (DictReader t) = map Inr parsed"
    "never_later parsed"
  show "web_import_pattern_from_csv pf clock filename fs =
        Inr (if parsed = [] then [] else [map snd parsed])"
    using web_decode[of fs filename t pf clock parsed] a
      strokes_by_gap_never_later[of 60 parsed] by simp
qed

lemma backwards_table_parsed:
  "map (legacy_parse_row float_of_string) (DictReader backwards_table) =
     map Inr [(stamp_at 2025 3 12 10 5 0, (Str ''03/12/2025 10:05'', 560)),
              (stamp_at 2025 3 12 10 5 0, (Str ''03/12/2025 10:05'', 559.5)),
              (stamp_at 2025 3 11 9 0 0, (Str ''03/11/2025 09:00'', 558))]"
  by (simp add: backwards_table_def legacy_eval csv_eval float_of_string_def nat_of_digits_def
      strptime_eval time_eval)

lemma backwards_table_web_parsed:
  "web_parse_rows float_of_string clock 0 (DictReader backwards_table) =
     map Inr [(stamp_at 2025 3 12 10 5 0, (Str ''03/12/2025 10:05'', 560)),
              (stamp_at 2025 3 12 10 5 0, (Str ''03/12/2025 10:05'', 559.5)),
              (stamp_at 2025 3 11 9 0 0, (Str ''03/11/2025 09:00'', 558))]"
  by (simp add: backwards_table_def legacy_eval csv_eval float_of_string_def nat_of_digits_def
      strptime_eval time_eval)

lemma backwards_table_no_id: "\<forall>r\<in>set (DictReader backwards_table). r ''stroke_id'' = None"
  by (simp add: backwards_table_def csv_eval)

lemma backwards_never_later:
  "never_later [(stamp_at 2025 3 12 10 5 0, (Str ''03/12/2025 10:05'', 560::real)),
              (stamp_at 2025 3 12 10 5 0, (Str ''03/12/2025 10:05'', 559.5)),
              (stamp_at 2025 3 11 9 0 0, (Str ''03/11/2025 09:00'', 558))]"
  by (simp add: time_eval)

theorem backward_rows_single_stroke_witness:
  "[''pattern.csv'' \<mapsto> backwards_table] ''pattern.csv'' = Some backwards_table \<and>
   map (\<lambda>r. r ''stroke_id'') (DictReader backwards_table) = [None, None, None] \<and>
   map (legacy_parse_row float_of_string) (DictReader backwards_table) =
     map Inr [(stamp_at 2025 3 12 10 5 0, (Str ''03/12/2025 10:05'', 560)),
              (stamp_at 2025 3 12 10 5 0, (Str ''03/12/2025 10:05'', 559.5)),
              (stamp_at 2025 3 11 9 0 0, (Str ''03/11/2025 09:00'', 558))] \<and>
   web_parse_rows float_of_string fixed_clock 0 (DictReader backwards_table) =
     map Inr [(stamp_at 2025 3 12 10 5 0, (Str ''03/12/2025 10:05'', 560)),
              (stamp_at 2025 3 12 10 5 0, (Str ''03/12/2025 10:05'', 559.5)),
              (stamp_at 2025 3 11 9 0 0, (Str ''03/11/2025 09:00'', 558))] \<and>
   never_later [(stamp_at 2025 3 12 10 5 0, (Str ''03/12/2025 10:05'', 560::real)),
              (stamp_at 2025 3 12 10 5 0, (Str ''03/12/2025 10:05'', 559.5)),
              (stamp_at 2025 3 11 9 0 0, (Str ''03/11/2025 09:00'', 558))] \<and>
   ultra_import_pattern_from_csv float_of_string ''pattern.csv''
       [''pattern.csv'' \<mapsto> backwards_table] [] =
     ([[(Str ''03/12/2025 10:05'', 560), (Str ''03/12/2025 10:05'', 559.5),
        (Str ''03/11/2025 09:00'', 558)]],
      Inr [[(Str ''03/12/2025 10:05'', 560), (Str ''03/12/2025 10:05'', 559.5),
            (Str ''03/11/2025 09:00'', 558)]]) \<and>
   import_pattern_from_csv int_of_string float_of_string ''pattern.csv''
       [''pattern.csv'' \<mapsto> backwards_table] [] =
     ([[(Str ''03/12/2025 10:05'', 560), (Str ''03/12/2025 10:05'', 559.5),
        (Str ''03/11/2025 09:00'', 558)]],
      Inr [[(Str ''03/12/2025 10:05'', 560), (Str ''03/12/2025 10:05'', 559.5),
            (Str ''03/11/2025 09:00'', 558)]]) \<and>
   web_import_pattern_from_csv float_of_string fixed_clock ''pattern.csv''
       [''pattern.csv'' \<mapsto> backwards_table] =
     Inr [[(Str ''03/12/2025 10:05'', 560), (Str ''03/12/2025 10:05'', 559.5),
           (Str ''03/11/2025 09:00'', 558)]]"
proof -
  have h1: "[''pattern.csv'' \<mapsto> backwards_table] ''pattern.csv'' = Some backwards_table"
    by simp
  note T = backward_rows_single_stroke [of "[''pattern.csv'' \<mapsto> backwards_table]"
      "''pattern.csv''" backwards_table float_of_string _ "[]" int_of_string fixed_clock]
  note r1 = T [THEN conjunct1, rule_format, OF h1 backwards_table_parsed backwards_never_later]
  note r2 = T [THEN conjunct2, THEN conjunct1, THEN mp, OF h1, THEN mp,
      OF backwards_table_no_id, THEN mp, OF backwards_table_parsed, THEN mp,
      OF backwards_never_later]
  note r3 = T [THEN conjunct2, THEN conjunct2, rule_format,
      OF h1 backwards_table_web_parsed backwards_never_later]
  show ?thesis
    apply (intro conjI)
           apply (rule h1)
          apply (simp add: backwards_table_def csv_eval)
         apply (rule backwards_table_parsed)
        apply (rule backwards_table_web_parsed)
       apply (rule backwards_never_later)
    using r1 apply simp
    using r2 apply simp
    using r3 apply simp
    done
qed

section \<open>Rounding to the nearest double\<close>

lemma round_even_near: "\<bar>of_int (round_even x) - x\<bar> \<le> 1 / 2"
proof -
  define f where "f = frac x"
  have x: "x = of_int \<lfloor>x\<rfloor> + f" by (simp add: frac_def f_def)
  have f: "0 \<le> f" "f < 1" by (simp_all add: frac_lt_1 f_def)
  have "round_even x = (if f < 1 / 2 then \<lfloor>x\<rfloor> else if 1 / 2 < f then \<lfloor>x\<rfloor> + 1
      else if even \<lfloor>x\<rfloor> then \<lfloor>x\<rfloor> else \<lfloor>x\<rfloor> + 1)"
    by (simp add: round_even_def f_def)
  then consider "round_even x = \<lfloor>x\<rfloor>" "f \<le> 1 / 2" | "round_even x = \<lfloor>x\<rfloor> + 1" "1 / 2 \<le> f"
    by (cases "f < 1 / 2"; cases "1 / 2 < f"; cases "even \<lfloor>x\<rfloor>") simp_all
  then show ?thesis
  proof cases
    case 1
    have "of_int (round_even x) - x = - f" using x by (simp add: 1(1))
    with f 1(2) show ?thesis by simp
  next
    case 2
    have "of_int (round_even x) - x = 1 - f" using x by (simp add: 2(1))
    with f 2(2) show ?thesis by simp
  qed
qed

text \<open>
  The relative error of \<open>binary64\<close> is at most \<open>2\<^sup>-\<^sup>5\<^sup>3\<close>.
\<close>

lemma binary64_rel: "\<bar>binary64 r - r\<bar> \<le> 1 / 2 ^ 53 * \<bar>r\<bar>"
proof (cases "r = 0")
  case True
  then show ?thesis by (simp add: binary64_def)
next
  case False
  define e where "e = \<lfloor>log 2 \<bar>r\<bar>\<rfloor>"
  define ulp :: real where "ulp = 2 powr (of_int e - 52)"
  have ulp: "0 < ulp" by (simp add: ulp_def)
  have b: "binary64 r = of_int (round_even (r / ulp)) * ulp"
    using False by (simp add: binary64_def ulp_def e_def)
  have "binary64 r - r = (of_int (round_even (r / ulp)) - r / ulp) * ulp"
    using ulp by (simp add: b left_diff_distrib)
  then have "\<bar>binary64 r - r\<bar> = \<bar>of_int (round_even (r / ulp)) - r / ulp\<bar> * ulp"
    using ulp by (simp add: abs_mult)
  also have "\<dots> \<le> 1 / 2 * ulp"
    using round_even_near[of "r / ulp"] ulp by (intro mult_right_mono) simp_all
  also have "1 / 2 * ulp = 2 powr (of_int e) / 2 ^ 53"
    by (simp add: ulp_def powr_diff)
  also have "2 powr (of_int e) \<le> \<bar>r\<bar>"
  proof -
    have "of_int e \<le> log 2 \<bar>r\<bar>" by (simp add: e_def)
    then have "2 powr (of_int e) \<le> 2 powr (log 2 \<bar>r\<bar>)" by (simp del: powr_log_cancel)
    then show ?thesis using False by simp
  qed
  finally show ?thesis by (simp add: divide_right_mono)
qed

text \<open>
  How to compute it: scale \<open>r\<close> by the power of two that brings it between \<open>2\<^sup>5\<^sup>2\<close> and
  \<open>2\<^sup>5\<^sup>3\<close>, round to an integer, and scale back.
\<close>

lemma binary64_eval:
  assumes "2 ^ 52 \<le> \<bar>r\<bar> * 2 ^ n" and "\<bar>r\<bar> * 2 ^ n < 2 ^ 53"
  shows "binary64 r = of_int (round_even (r * 2 ^ n)) / 2 ^ n"
proof -
  have p: "0 < \<bar>r\<bar>"
  proof (rule ccontr)
    assume "\<not> 0 < \<bar>r\<bar>"
    then have "r = 0" by simp
    with assms(1) show False by simp
  qed
  define k :: int where "k = 52 - int n"
  have pw: "(2::real) powr (of_int k - 52) = 1 / 2 ^ n"
    by (simp add: k_def powr_minus powr_realpow field_simps)
  have "(2::real) powr (of_int k) = 2 powr (of_int k - 52) * 2 ^ 52"
    by (simp add: powr_diff)
  then have pk: "(2::real) powr (of_int k) = 2 ^ 52 / 2 ^ n" by (simp add: pw)
  have "\<lfloor>log 2 \<bar>r\<bar>\<rfloor> = k"
  proof (rule floor_unique)
    have "2 powr (of_int k) \<le> \<bar>r\<bar>" using assms(1) by (simp add: pk field_simps)
    then show "of_int k \<le> log 2 \<bar>r\<bar>" using p by (simp add: le_log_iff)
    have "\<bar>r\<bar> < 2 powr (of_int k + 1)"
      using assms(2) by (simp add: powr_add pk field_simps)
    then show "log 2 \<bar>r\<bar> < of_int k + 1" using p by (simp add: log_less_iff)
  qed
  with p show ?thesis by (auto simp: binary64_def pw)
qed

text \<open>
  The roundings that the examples below go through.
\<close>

lemma binary64_values:
  "binary64 4 = 4"
  "binary64 (1 / 20) = 3602879701896397 / 72057594037927936"
  "binary64 (3602879701896397 / 18014398509481984) = 3602879701896397 / 18014398509481984"
  "binary64 (10012402691570086707 / 18014398509481984) = 2444434250871603 / 4398046511104"
  "binary64 (10091666045011807437 / 18014398509481984) = 2463785655520461 / 4398046511104"
  "binary64 270 = 270"
  "binary64 (3 / 8) = 3 / 8"
  "binary64 2 = 2"
  "binary64 (3 / 4) = 3 / 4"
  "binary64 260 = 260"
  "binary64 (1 / 2) = 1 / 2"
  "binary64 (9675702324429 / 2199023255552) = 9675702324429 / 2199023255552"
  "binary64 (9675702324429 / 4398046511104) = 9675702324429 / 4398046511104"
  "binary64 558 = 558"
  "binary64 630 = 630"
  "binary64 (7 / 8) = 7 / 8"
  "binary64 (7 / 4) = 7 / 4"
  "binary64 390 = 390"
  "binary64 (29027106973287 / 8796093022208) = 29027106973287 / 8796093022208"
  "binary64 (4917895608716493 / 8796093022208) = 4917895608716493 / 8796093022208"
  "binary64 560 = 560"
  "binary64 208 = 208"
  "binary64 (13 / 45) = 2602079784702953 / 9007199254740992"
  "binary64 45 = 45"
  "binary64 (117093590311632885 / 9007199254740992) = 7318349394477055 / 562949953421312"
  "binary64 (7318349394477055 / 562949953421312) = 7318349394477055 / 562949953421312"
  "binary64 (1 / 10) = 3602879701896397 / 36028797018963968"
  "binary64 (3602879701896397 / 36028797018963968) = 3602879701896397 / 36028797018963968"
  "binary64 1000 = 1000"
  "binary64 (3602879701896397 / 36028797018963968000) = 7378697629483821 / 73786976294838206464"
  "binary64 (479615345916448365 / 9223372036854775808) = 3746994889972253 / 72057594037927936"
  "binary64 (38907353785591113187 / 72057594037927936) = 4749432835155165 / 8796093022208"
  "binary64 (457396837155 / 8796093022208) = 457396837155 / 8796093022208"
  "binary64 (91479367431 / 914793674309632) = 7378697629486789 / 73786976294838206464"
  "binary64 (922337203685848625 / 9223372036854775808) = 1801439850948923 / 18014398509481984"
  "binary64 (1801439850948923 / 18014398509481984) = 1801439850948923 / 18014398509481984"
  "binary64 33 = 33"
  "binary64 100 = 100"
  "binary64 (33 / 100) = 5944751508129055 / 18014398509481984"
  "binary64 (267513817865807475 / 1125899906842624) = 2089951702076621 / 8796093022208"
  "binary64 (2617717283409101 / 8796093022208) = 2617717283409101 / 8796093022208"
  "binary64 (2089951702076621 / 8796093022208) = 2089951702076621 / 8796093022208"
  "binary64 (2089951702076621 / 6333186975989760) = 5944751508129055 / 18014398509481984"
  "binary64 (148618787703226375 / 4503599627370496) = 33"
proof -
  show "binary64 4 = 4"
    by (subst binary64_eval[where n = 50]) (simp_all add: round_even_def frac_def)
  show "binary64 (1 / 20) = 3602879701896397 / 72057594037927936"
    by (subst binary64_eval[where n = 57]) (simp_all add: round_even_def frac_def)
  show "binary64 (3602879701896397 / 18014398509481984) = 3602879701896397 / 18014398509481984"
    by (subst binary64_eval[where n = 55]) (simp_all add: round_even_def frac_def)
  show "binary64 (10012402691570086707 / 18014398509481984) = 2444434250871603 / 4398046511104"
    by (subst binary64_eval[where n = 43]) (simp_all add: round_even_def frac_def)
  show "binary64 (10091666045011807437 / 18014398509481984) = 2463785655520461 / 4398046511104"
    by (subst binary64_eval[where n = 43]) (simp_all add: round_even_def frac_def)
  show "binary64 270 = 270"
    by (subst binary64_eval[where n = 44]) (simp_all add: round_even_def frac_def)
  show "binary64 (3 / 8) = 3 / 8"
    by (subst binary64_eval[where n = 54]) (simp_all add: round_even_def frac_def)
  show "binary64 2 = 2"
    by (subst binary64_eval[where n = 51]) (simp_all add: round_even_def frac_def)
  show "binary64 (3 / 4) = 3 / 4"
    by (subst binary64_eval[where n = 53]) (simp_all add: round_even_def frac_def)
  show "binary64 260 = 260"
    by (subst binary64_eval[where n = 44]) (simp_all add: round_even_def frac_def)
  show "binary64 (1 / 2) = 1 / 2"
    by (subst binary64_eval[where n = 53]) (simp_all add: round_even_def frac_def)
  show "binary64 (9675702324429 / 2199023255552) = 9675702324429 / 2199023255552"
    by (subst binary64_eval[where n = 50]) (simp_all add: round_even_def frac_def)
  show "binary64 (9675702324429 / 4398046511104) = 9675702324429 / 4398046511104"
    by (subst binary64_eval[where n = 51]) (simp_all add: round_even_def frac_def)
  show "binary64 558 = 558"
    by (subst binary64_eval[where n = 43]) (simp_all add: round_even_def frac_def)
  show "binary64 630 = 630"
    by (subst binary64_eval[where n = 43]) (simp_all add: round_even_def frac_def)
  show "binary64 (7 / 8) = 7 / 8"
    by (subst binary64_eval[where n = 53]) (simp_all add: round_even_def frac_def)
  show "binary64 (7 / 4) = 7 / 4"
    by (subst binary64_eval[where n = 52]) (simp_all add: round_even_def frac_def)
  show "binary64 390 = 390"
    by (subst binary64_eval[where n = 44]) (simp_all add: round_even_def frac_def)
  show "binary64 (29027106973287 / 8796093022208) = 29027106973287 / 8796093022208"
    by (subst binary64_eval[where n = 51]) (simp_all add: round_even_def frac_def)
  show "binary64 (4917895608716493 / 8796093022208) = 4917895608716493 / 8796093022208"
    by (subst binary64_eval[where n = 43]) (simp_all add: round_even_def frac_def)
  show "binary64 560 = 560"
    by (subst binary64_eval[where n = 43]) (simp_all add: round_even_def frac_def)
  show "binary64 208 = 208"
    by (subst binary64_eval[where n = 45]) (simp_all add: round_even_def frac_def)
  show "binary64 (13 / 45) = 2602079784702953 / 9007199254740992"
    by (subst binary64_eval[where n = 54]) (simp_all add: round_even_def frac_def)
  show "binary64 45 = 45"
    by (subst binary64_eval[where n = 47]) (simp_all add: round_even_def frac_def)
  show "binary64 (117093590311632885 / 9007199254740992) = 7318349394477055 / 562949953421312"
    by (subst binary64_eval[where n = 49]) (simp_all add: round_even_def frac_def)
  show "binary64 (7318349394477055 / 562949953421312) = 7318349394477055 / 562949953421312"
    by (subst binary64_eval[where n = 49]) (simp_all add: round_even_def frac_def)
  show "binary64 (1 / 10) = 3602879701896397 / 36028797018963968"
    by (subst binary64_eval[where n = 56]) (simp_all add: round_even_def frac_def)
  show "binary64 (3602879701896397 / 36028797018963968) = 3602879701896397 / 36028797018963968"
    by (subst binary64_eval[where n = 56]) (simp_all add: round_even_def frac_def)
  show "binary64 1000 = 1000"
    by (subst binary64_eval[where n = 43]) (simp_all add: round_even_def frac_def)
  show "binary64 (3602879701896397 / 36028797018963968000) = 7378697629483821 / 73786976294838206464"
    by (subst binary64_eval[where n = 66]) (simp_all add: round_even_def frac_def)
  show "binary64 (479615345916448365 / 9223372036854775808) = 3746994889972253 / 72057594037927936"
    by (subst binary64_eval[where n = 57]) (simp_all add: round_even_def frac_def)
  show "binary64 (38907353785591113187 / 72057594037927936) = 4749432835155165 / 8796093022208"
    by (subst binary64_eval[where n = 43]) (simp_all add: round_even_def frac_def)
  show "binary64 (457396837155 / 8796093022208) = 457396837155 / 8796093022208"
    by (subst binary64_eval[where n = 57]) (simp_all add: round_even_def frac_def)
  show "binary64 (91479367431 / 914793674309632) = 7378697629486789 / 73786976294838206464"
    by (subst binary64_eval[where n = 66]) (simp_all add: round_even_def frac_def)
  show "binary64 (922337203685848625 / 9223372036854775808) = 1801439850948923 / 18014398509481984"
    by (subst binary64_eval[where n = 56]) (simp_all add: round_even_def frac_def)
  show "binary64 (1801439850948923 / 18014398509481984) = 1801439850948923 / 18014398509481984"
    by (subst binary64_eval[where n = 56]) (simp_all add: round_even_def frac_def)
  show "binary64 33 = 33"
    by (subst binary64_eval[where n = 47]) (simp_all add: round_even_def frac_def)
  show "binary64 100 = 100"
    by (subst binary64_eval[where n = 46]) (simp_all add: round_even_def frac_def)
  show "binary64 (33 / 100) = 5944751508129055 / 18014398509481984"
    by (subst binary64_eval[where n = 54]) (simp_all add: round_even_def frac_def)
  show "binary64 (267513817865807475 / 1125899906842624) = 2089951702076621 / 8796093022208"
    by (subst binary64_eval[where n = 45]) (simp_all add: round_even_def frac_def)
  show "binary64 (2617717283409101 / 8796093022208) = 2617717283409101 / 8796093022208"
    by (subst binary64_eval[where n = 44]) (simp_all add: round_even_def frac_def)
  show "binary64 (2089951702076621 / 8796093022208) = 2089951702076621 / 8796093022208"
    by (subst binary64_eval[where n = 45]) (simp_all add: round_even_def frac_def)
  show "binary64 (2089951702076621 / 6333186975989760) = 5944751508129055 / 18014398509481984"
    by (subst binary64_eval[where n = 54]) (simp_all add: round_even_def frac_def)
  show "binary64 (148618787703226375 / 4503599627370496) = 33"
    by (subst binary64_eval[where n = 47]) (simp_all add: round_even_def frac_def)
qed

lemma binary64_zero: "binary64 0 = 0"
  by (simp add: binary64_def)

text \<open>
  Rounding errors through a chain of operations. \<open>rel_step\<close> adds one rounding, of relative
  error \<open>u\<close> and absolute error \<open>c\<close>, to a value already known up to a multiple of \<open>u\<close>.
\<close>

lemma rel_scale:
  fixes x y k u :: real
  assumes "\<bar>y - x\<bar> \<le> u * \<bar>x\<bar>"
  shows "\<bar>y * k - x * k\<bar> \<le> u * \<bar>x * k\<bar>"
proof -
  have "\<bar>y * k - x * k\<bar> = \<bar>y - x\<bar> * \<bar>k\<bar>"
    by (simp add: left_diff_distrib[symmetric] abs_mult)
  also have "\<dots> \<le> u * \<bar>x\<bar> * \<bar>k\<bar>"
    using assms by (intro mult_right_mono) simp_all
  finally show ?thesis by (simp add: abs_mult mult.assoc)
qed

lemma rel_step:
  fixes x y a u c k l A Dd :: real
  assumes yx: "\<bar>y - x\<bar> \<le> u * \<bar>x\<bar> + c"
    and xa: "\<bar>x - a\<bar> \<le> k * u * A + l * u * Dd"
    and u: "0 \<le> u" "u \<le> 1 / 100"
    and A: "\<bar>a\<bar> \<le> A" and Dd: "0 \<le> Dd"
    and k: "0 \<le> k" "k \<le> 10" and l: "0 \<le> l" "l \<le> 2"
  shows "\<bar>y - a\<bar> \<le> (k + 11 / 10) * u * A + (l + 1 / 50) * u * Dd + c"
proof -
  have A0: "0 \<le> A" using A by linarith
  have uA: "0 \<le> u * A" and uD: "0 \<le> u * Dd" using u A0 Dd by simp_all
  have "\<bar>x\<bar> \<le> \<bar>a\<bar> + \<bar>x - a\<bar>" by linarith
  then have x: "\<bar>x\<bar> \<le> A + k * u * A + l * u * Dd" using xa A by linarith
  have "u * \<bar>x\<bar> \<le> u * (A + k * u * A + l * u * Dd)"
    using x u(1) by (rule mult_left_mono)
  also have "\<dots> = u * A + k * u * (u * A) + l * u * (u * Dd)" by (simp add: algebra_simps)
  also have "\<dots> \<le> u * A + k * (1 / 100) * (u * A) + l * (1 / 100) * (u * Dd)"
  proof -
    have "k * u * (u * A) \<le> k * (1 / 100) * (u * A)"
      using u k uA by (intro mult_right_mono mult_left_mono) simp_all
    moreover have "l * u * (u * Dd) \<le> l * (1 / 100) * (u * Dd)"
      using u l uD by (intro mult_right_mono mult_left_mono) simp_all
    ultimately show ?thesis by linarith
  qed
  also have "\<dots> \<le> u * A + (1 / 10) * (u * A) + (1 / 50) * (u * Dd)"
  proof -
    have "k * (1 / 100) \<le> 1 / 10" and "l * (1 / 100) \<le> 1 / 50" using k l by simp_all
    then have "k * (1 / 100) * (u * A) \<le> (1 / 10) * (u * A)"
      and "l * (1 / 100) * (u * Dd) \<le> (1 / 50) * (u * Dd)"
      using uA uD by (simp_all only: mult_right_mono)
    then show ?thesis by linarith
  qed
  finally have ux: "u * \<bar>x\<bar> \<le> u * A + (1 / 10) * (u * A) + (1 / 50) * (u * Dd)" .
  have "\<bar>y - a\<bar> \<le> \<bar>y - x\<bar> + \<bar>x - a\<bar>" by linarith
  also have "\<dots> \<le> (u * \<bar>x\<bar> + c) + (k * u * A + l * u * Dd)" using yx xa by linarith
  also have "\<dots> \<le> (u * A + (1 / 10) * (u * A) + (1 / 50) * (u * Dd) + c) + (k * u * A + l * u * Dd)"
    using ux by linarith
  also have "\<dots> = (k + 11 / 10) * u * A + (l + 1 / 50) * u * Dd + c"
    by (simp add: algebra_simps)
  finally show ?thesis .
qed

text \<open>
  The arithmetic of a forward map followed by its inverse. \<open>E\<close> is the extent of the plot
  area and \<open>B\<close> the offset of its origin; \<open>w\<close> is the distance from the origin that the
  inverse map computes from the pixel coordinate the forward map returned.
\<close>

lemma round_trip_core:
  fixes rnd :: "real \<Rightarrow> real" and u E B hi lo v w :: real
  assumes R: "\<And>r. \<bar>rnd r - r\<bar> \<le> u * \<bar>r\<bar>" and u: "0 \<le> u" "u \<le> 1 / 100"
    and E: "0 < E" and B: "0 \<le> B" "26 * B \<le> 27 * E"
    and ne: "hi \<noteq> lo"
    and w: "\<bar>w - rnd (rnd (rnd (v - lo) / rnd (hi - lo)) * E)\<bar>
              \<le> u * (B + \<bar>rnd (rnd (rnd (v - lo) / rnd (hi - lo)) * E)\<bar>)"
  shows "rnd (hi - lo) \<noteq> 0"
    and "\<bar>rnd (lo + rnd (rnd (rnd w / E) * rnd (hi - lo))) - v\<bar>
           \<le> 12 * u * (\<bar>v\<bar> + \<bar>lo\<bar> + \<bar>hi\<bar>)"
proof -
  define D where "D = hi - lo"
  define Dh where "Dh = rnd D"
  define a where "a = v - lo"
  define ah where "ah = rnd a"
  define qh where "qh = rnd (ah / Dh)"
  define mh where "mh = rnd (qh * E)"
  define nh where "nh = rnd w"
  define sh where "sh = rnd (nh / E)"
  define rh where "rh = rnd (sh * Dh)"
  define res where "res = rnd (lo + rh)"
  have D0: "D \<noteq> 0" using ne by (simp add: D_def)
  have DhD: "\<bar>Dh - D\<bar> \<le> u * \<bar>D\<bar>" unfolding Dh_def by (rule R)
  have "u * \<bar>D\<bar> \<le> (1 / 100) * \<bar>D\<bar>" using u by (intro mult_right_mono) simp_all
  with DhD have DhD': "\<bar>Dh - D\<bar> \<le> (1 / 100) * \<bar>D\<bar>" by linarith
  then have Dh0: "Dh \<noteq> 0" using D0 by auto
  show "rnd (hi - lo) \<noteq> 0" using Dh0 by (simp add: Dh_def D_def)
  have Dhle: "\<bar>Dh\<bar> \<le> (101 / 100) * \<bar>D\<bar>" using DhD' by linarith
  define k where "k = Dh / E"
  have s1: "\<bar>ah - a\<bar> \<le> u * \<bar>a\<bar>" unfolding ah_def by (rule R)
  have s2: "\<bar>qh * Dh - ah\<bar> \<le> u * \<bar>ah\<bar>"
    using rel_scale[OF R[of "ah / Dh"], of Dh] Dh0 by (simp add: qh_def)
  have s3: "\<bar>mh * k - qh * Dh\<bar> \<le> u * \<bar>qh * Dh\<bar>"
    using rel_scale[OF R[of "qh * E"], of k] E by (simp add: mh_def k_def)
  have s4: "\<bar>w * k - mh * k\<bar> \<le> u * \<bar>mh * k\<bar> + 21 / 20 * u * \<bar>D\<bar>"
  proof -
    have "\<bar>w * k - mh * k\<bar> = \<bar>w - mh\<bar> * \<bar>k\<bar>"
      by (simp add: left_diff_distrib[symmetric] abs_mult)
    also have "\<dots> \<le> u * (B + \<bar>mh\<bar>) * \<bar>k\<bar>"
      using w by (intro mult_right_mono) (simp_all add: mh_def qh_def ah_def a_def Dh_def D_def)
    also have "\<dots> = u * \<bar>mh * k\<bar> + u * (B * \<bar>k\<bar>)" by (simp add: algebra_simps abs_mult)
    finally have wk: "\<bar>w * k - mh * k\<bar> \<le> u * \<bar>mh * k\<bar> + u * (B * \<bar>k\<bar>)" .
    have "B * \<bar>k\<bar> = (B / E) * \<bar>Dh\<bar>" using E by (simp add: k_def)
    also have "\<dots> \<le> (27 / 26) * \<bar>Dh\<bar>"
      using B E by (intro mult_right_mono) (simp_all add: field_simps)
    also have "\<dots> \<le> (27 / 26) * ((101 / 100) * \<bar>D\<bar>)"
      using Dhle by (intro mult_left_mono) simp_all
    also have "\<dots> \<le> 21 / 20 * \<bar>D\<bar>" by simp
    finally have "B * \<bar>k\<bar> \<le> 21 / 20 * \<bar>D\<bar>" .
    then have "u * (B * \<bar>k\<bar>) \<le> u * (21 / 20 * \<bar>D\<bar>)" using u(1) by (rule mult_left_mono)
    with wk show ?thesis by (simp add: algebra_simps)
  qed
  have s5: "\<bar>nh * k - w * k\<bar> \<le> u * \<bar>w * k\<bar>"
    using rel_scale[OF R[of w], of k] by (simp add: nh_def)
  have s6: "\<bar>sh * Dh - nh * k\<bar> \<le> u * \<bar>nh * k\<bar>"
    using rel_scale[OF R[of "nh / E"], of Dh] by (simp add: sh_def k_def)
  have s7: "\<bar>rh - sh * Dh\<bar> \<le> u * \<bar>sh * Dh\<bar>" unfolding rh_def by (rule R)
  have s8: "\<bar>res - (lo + rh)\<bar> \<le> u * \<bar>lo + rh\<bar>" unfolding res_def by (rule R)
  note st = rel_step[where A = "\<bar>a\<bar>" and Dd = "\<bar>D\<bar>" and u = u and a = a, OF _ _ u]
  have b1: "\<bar>ah - a\<bar> \<le> 1 * u * \<bar>a\<bar> + 0 * u * \<bar>D\<bar>" using s1 by simp
  have b2: "\<bar>qh * Dh - a\<bar> \<le> (21 / 10) * u * \<bar>a\<bar> + (1 / 50) * u * \<bar>D\<bar>"
    using st[of "qh * Dh" ah 0 1 0] s2 b1 by simp
  have b3: "\<bar>mh * k - a\<bar> \<le> (32 / 10) * u * \<bar>a\<bar> + (2 / 50) * u * \<bar>D\<bar>"
    using st[of "mh * k" "qh * Dh" 0 "21 / 10" "1 / 50"] s3 b2 by simp
  have b4: "\<bar>w * k - a\<bar> \<le> (43 / 10) * u * \<bar>a\<bar> + (111 / 100) * u * \<bar>D\<bar>"
    using st[of "w * k" "mh * k" "21 / 20 * u * \<bar>D\<bar>" "32 / 10" "2 / 50"] s4 b3 by simp
  have b5: "\<bar>nh * k - a\<bar> \<le> (54 / 10) * u * \<bar>a\<bar> + (113 / 100) * u * \<bar>D\<bar>"
    using st[of "nh * k" "w * k" 0 "43 / 10" "111 / 100"] s5 b4 by simp
  have b6: "\<bar>sh * Dh - a\<bar> \<le> (65 / 10) * u * \<bar>a\<bar> + (115 / 100) * u * \<bar>D\<bar>"
    using st[of "sh * Dh" "nh * k" 0 "54 / 10" "113 / 100"] s6 b5 by simp
  have b7: "\<bar>rh - a\<bar> \<le> (76 / 10) * u * \<bar>a\<bar> + (117 / 100) * u * \<bar>D\<bar>"
    using st[of rh "sh * Dh" 0 "65 / 10" "115 / 100"] s7 b6 by simp
  have b8: "\<bar>(res - lo) - a\<bar> \<le> (87 / 10) * u * \<bar>a\<bar> + (119 / 100) * u * \<bar>D\<bar> + u * \<bar>lo\<bar>"
  proof -
    have "\<bar>lo + rh\<bar> \<le> \<bar>lo\<bar> + \<bar>rh\<bar>" by linarith
    then have "u * \<bar>lo + rh\<bar> \<le> u * (\<bar>lo\<bar> + \<bar>rh\<bar>)" using u(1) by (rule mult_left_mono)
    with s8 have "\<bar>(res - lo) - rh\<bar> \<le> u * \<bar>rh\<bar> + u * \<bar>lo\<bar>" by (simp add: algebra_simps)
    from st[of "res - lo" rh "u * \<bar>lo\<bar>" "76 / 10" "117 / 100"] this b7 show ?thesis by simp
  qed
  define P where "P = u * \<bar>v\<bar>"
  define Q where "Q = u * \<bar>lo\<bar>"
  define S where "S = u * \<bar>hi\<bar>"
  define X where "X = u * \<bar>a\<bar>"
  define Y where "Y = u * \<bar>D\<bar>"
  have nn: "0 \<le> P" "0 \<le> Q" "0 \<le> S" using u by (simp_all add: P_def Q_def S_def)
  have "\<bar>a\<bar> \<le> \<bar>v\<bar> + \<bar>lo\<bar>" by (simp add: a_def)
  then have "u * \<bar>a\<bar> \<le> u * (\<bar>v\<bar> + \<bar>lo\<bar>)" using u(1) by (rule mult_left_mono)
  then have ua: "X \<le> P + Q" by (simp add: algebra_simps X_def P_def Q_def)
  have "\<bar>D\<bar> \<le> \<bar>hi\<bar> + \<bar>lo\<bar>" by (simp add: D_def)
  then have "u * \<bar>D\<bar> \<le> u * (\<bar>hi\<bar> + \<bar>lo\<bar>)" using u(1) by (rule mult_left_mono)
  then have uD: "Y \<le> S + Q" by (simp add: algebra_simps Y_def S_def Q_def)
  have "res - v = (res - lo) - a" by (simp add: a_def)
  then have "\<bar>res - v\<bar> \<le> (87 / 10) * X + (119 / 100) * Y + Q"
    using b8 by (simp add: algebra_simps X_def Y_def Q_def)
  with ua uD nn have "\<bar>res - v\<bar> \<le> 12 * (P + Q + S)" by argo
  also have "\<dots> = 12 * u * (\<bar>v\<bar> + \<bar>lo\<bar> + \<bar>hi\<bar>)"
    by (simp add: algebra_simps P_def Q_def S_def)
  finally show "\<bar>rnd (lo + rnd (rnd (rnd w / E) * rnd (hi - lo))) - v\<bar>
           \<le> 12 * u * (\<bar>v\<bar> + \<bar>lo\<bar> + \<bar>hi\<bar>)"
    by (simp add: res_def rh_def sh_def nh_def Dh_def D_def)
qed

section \<open>The chart canvas\<close>

lemmas canvas_eval = example_canvas_def enable_drawing_def load_market_data_def plot_market_data_def
  three_bars_def bar_at_def init_canvas_def inside_def

lemma nearest_loop_inv:
  assumes "i = length pre"
    and "(pre = [] \<and> m = None \<and> k = 0) \<or>
         (k < length pre \<and> m = Some \<bar>total_seconds q (dp_datetime (pre ! k))\<bar> \<and>
          (\<forall>j<length pre. \<bar>total_seconds q (dp_datetime (pre ! k))\<bar> \<le> \<bar>total_seconds q (dp_datetime (pre ! j))\<bar>) \<and>
          (\<forall>j<k. \<bar>total_seconds q (dp_datetime (pre ! k))\<bar> < \<bar>total_seconds q (dp_datetime (pre ! j))\<bar>))"
  shows "case nearest_loop q ps i (k, m) of (k', m') \<Rightarrow>
         (pre @ ps = [] \<and> k' = 0) \<or>
         (k' < length (pre @ ps) \<and>
          (\<forall>j<length (pre @ ps). \<bar>total_seconds q (dp_datetime ((pre @ ps) ! k'))\<bar> \<le> \<bar>total_seconds q (dp_datetime ((pre @ ps) ! j))\<bar>) \<and>
          (\<forall>j<k'. \<bar>total_seconds q (dp_datetime ((pre @ ps) ! k'))\<bar> < \<bar>total_seconds q (dp_datetime ((pre @ ps) ! j))\<bar>))"
  using assms
proof (induction ps arbitrary: pre i k m)
  case Nil
  then show ?case by auto
next
  case (Cons p ps)
  let ?d = "\<lambda>x. \<bar>total_seconds q (dp_datetime x)\<bar>"
  define st where "st = (if below (?d p) m then (i, Some (?d p)) else (k, m))"
  obtain k1 m1 where km: "st = (k1, m1)" by (cases st) auto
  have inv: "(pre @ [p] = [] \<and> m1 = None \<and> k1 = 0) \<or>
         (k1 < length (pre @ [p]) \<and> m1 = Some (?d ((pre @ [p]) ! k1)) \<and>
          (\<forall>j<length (pre @ [p]). ?d ((pre @ [p]) ! k1) \<le> ?d ((pre @ [p]) ! j)) \<and>
          (\<forall>j<k1. ?d ((pre @ [p]) ! k1) < ?d ((pre @ [p]) ! j)))"
    using Cons.prems km
    by (auto simp: st_def below_def nth_append less_Suc_eq split: if_splits)
  have step: "nearest_loop q (p # ps) i (k, m) = nearest_loop q ps (Suc i) (k1, m1)"
    using km by (simp add: st_def)
  have len: "Suc i = length (pre @ [p])" using Cons.prems(1) by simp
  show ?case
    unfolding step using Cons.IH[of "Suc i" "pre @ [p]" m1 k1, OF len inv] by simp
qed

text \<open>
  C6. For a non-empty series the nearest-time loop returns an index of the series whose
  absolute time difference to the query is minimal, and every earlier index is strictly
  farther away: among equally near bars the first wins. With bars at 10:00:00 and 10:01:00
  and the query 10:00:30 the result is index 0.
\<close>

theorem nearest_index_first_minimum:
  "(data \<noteq> [] \<longrightarrow>
      nearest_index q data < length data \<and>
      (\<forall>j<length data.
          \<bar>total_seconds q (dp_datetime (data ! nearest_index q data))\<bar>
            \<le> \<bar>total_seconds q (dp_datetime (data ! j))\<bar>) \<and>
      (\<forall>j<nearest_index q data.
          \<bar>total_seconds q (dp_datetime (data ! nearest_index q data))\<bar>
            < \<bar>total_seconds q (dp_datetime (data ! j))\<bar>)) \<and>
   nearest_index (stamp_at 2025 3 12 10 0 30)
     [bar_at (stamp_at 2025 3 12 10 0 0) 560, bar_at (stamp_at 2025 3 12 10 1 0) 558] = 0"
proof -
  have ex: "nearest_index (stamp_at 2025 3 12 10 0 30)
     [bar_at (stamp_at 2025 3 12 10 0 0) 560, bar_at (stamp_at 2025 3 12 10 1 0) 558] = 0"
    by (simp add: nearest_index_def below_def bar_at_def time_eval)
  obtain k m where km: "nearest_loop q data 0 (0, None) = (k, m)"
    by (cases "nearest_loop q data 0 (0, None)") auto
  from nearest_loop_inv[of 0 "[]" None 0 q data] km
  have "data = [] \<and> k = 0 \<or>
        k < length data \<and>
        (\<forall>j<length data. \<bar>total_seconds q (dp_datetime (data ! k))\<bar>
            \<le> \<bar>total_seconds q (dp_datetime (data ! j))\<bar>) \<and>
        (\<forall>j<k. \<bar>total_seconds q (dp_datetime (data ! k))\<bar>
            < \<bar>total_seconds q (dp_datetime (data ! j))\<bar>)"
    by simp
  moreover have "nearest_index q data = k" by (simp add: nearest_index_def km)
  ultimately show ?thesis using ex by blast
qed

theorem nearest_index_first_minimum_witness:
  "[bar_at (stamp_at 2025 3 12 10 0 0) 560, bar_at (stamp_at 2025 3 12 10 1 0) 558] \<noteq> [] \<and>
   nearest_index (stamp_at 2025 3 12 10 0 30)
     [bar_at (stamp_at 2025 3 12 10 0 0) 560, bar_at (stamp_at 2025 3 12 10 1 0) 558] < 2 \<and>
   \<bar>total_seconds (stamp_at 2025 3 12 10 0 30) (stamp_at 2025 3 12 10 0 0)\<bar>
     = \<bar>total_seconds (stamp_at 2025 3 12 10 0 30) (stamp_at 2025 3 12 10 1 0)\<bar>"
  using nearest_index_first_minimum [of
      "[bar_at (stamp_at 2025 3 12 10 0 0) 560, bar_at (stamp_at 2025 3 12 10 1 0) 558]"
      "stamp_at 2025 3 12 10 0 30"]
  by (simp add: time_eval)

lemma geometry_kept:
  "geometry (plot_market_data c) = geometry c"
  "geometry (plot_market_data_fl rnd c) = geometry c"
  "geometry (load_market_data data c) = geometry c"
  "geometry (load_market_data_fl rnd data c) = geometry c"
  "geometry (enable_drawing c) = geometry c"
  "geometry (on_mouse_release c) = geometry c"
  by (simp_all add: geometry_def plot_market_data_def plot_market_data_fl_def Let_def
      load_market_data_def load_market_data_fl_def enable_drawing_def on_mouse_release_def
      update_drawing_preview_def)

lemma geometry_of_strokes:
  "geometry (c\<lparr>current_stroke := s\<rparr>) = geometry c"
  "geometry (c\<lparr>is_drawing := b\<rparr>) = geometry c"
  by (simp_all add: geometry_def)

lemma geometry_kept_by_events:
  "on_mouse_press now c x y = Inr c' \<Longrightarrow> geometry c' = geometry c"
  "on_mouse_move now c x y = Inr c' \<Longrightarrow> geometry c' = geometry c"
  "on_mouse_press_fl rnd now c x y = Inr c' \<Longrightarrow> geometry c' = geometry c"
  "on_mouse_move_fl rnd now c x y = Inr c' \<Longrightarrow> geometry c' = geometry c"
  by (auto simp: on_mouse_press_def on_mouse_move_def on_mouse_press_fl_def on_mouse_move_fl_def
      bind_eq_Inr update_drawing_preview_def geometry_kept geometry_of_strokes
      split: if_splits)

lemma exact_arithmetic:
  "time_to_x_fl (\<lambda>r. r) c i = time_to_x c i"
  "price_to_y_fl (\<lambda>r. r) c p = price_to_y c p"
  "x_to_time_fl (\<lambda>r. r) c x = x_to_time c x"
  "y_to_price_fl (\<lambda>r. r) c y = y_to_price c y"
  "plot_market_data_fl (\<lambda>r. r) c = plot_market_data c"
  by (simp_all add: time_to_x_fl_def price_to_y_fl_def x_to_time_fl_def y_to_price_fl_def
      plot_market_data_fl_def plot_market_data_def map_defs)

lemma exact_round_trip:
  "max_price c \<noteq> min_price c \<Longrightarrow> chart_height c - margin_top c - margin_bottom c \<noteq> 0 \<Longrightarrow>
     bind (price_to_y c p) (y_to_price c) = Inr p"
  "max_time c \<noteq> min_time c \<Longrightarrow> chart_width c - margin_left c - margin_right c \<noteq> 0 \<Longrightarrow>
     bind (time_to_x c i) (x_to_time c) = Inr i"
  by (simp_all add: map_defs)

lemma constructor_extent:
  assumes "geometry c = geometry init_canvas"
  shows "chart_height c - margin_top c - margin_bottom c \<noteq> 0"
    and "chart_width c - margin_left c - margin_right c \<noteq> 0"
  using assms by (simp_all add: geometry_def init_canvas_def)

lemma price_round_trip:
  assumes g: "geometry c = geometry init_canvas"
    and R: "\<forall>r. \<bar>rnd r - r\<bar> \<le> u * \<bar>r\<bar>" and u: "u \<le> 1 / 100"
    and ne: "max_price c \<noteq> min_price c"
  shows "\<exists>y p'. price_to_y_fl rnd c p = Inr y \<and> y_to_price_fl rnd c y = Inr p' \<and>
           \<bar>p' - p\<bar> \<le> 12 * u * (\<bar>p\<bar> + \<bar>min_price c\<bar> + \<bar>max_price c\<bar>)"
proof -
  from g have G: "chart_height c = 600" "margin_top c = 20" "margin_bottom c = 60"
    by (simp_all add: geometry_def init_canvas_def)
  have u0: "0 \<le> u" using R[rule_format, of 1] by simp
  define mh where
    "mh = rnd (rnd (rnd (p - min_price c) / rnd (max_price c - min_price c)) * 520)"
  define y where "y = rnd (540 - mh)"
  have "\<bar>y - (540 - mh)\<bar> \<le> u * \<bar>540 - mh\<bar>" unfolding y_def using R by blast
  moreover have "u * \<bar>540 - mh\<bar> \<le> u * (540 + \<bar>mh\<bar>)"
    using u0 by (intro mult_left_mono) simp_all
  ultimately have w: "\<bar>(540 - y) - mh\<bar> \<le> u * (540 + \<bar>mh\<bar>)" by linarith
  note core = round_trip_core[of rnd u 520 540 "max_price c" "min_price c" "540 - y" p,
      OF R[rule_format] u0 u _ _ _ ne w[unfolded mh_def]]
  have fwd: "price_to_y_fl rnd c p = Inr y"
    using ne core(1) by (simp add: price_to_y_fl_def py_div_def G y_def mh_def)
  have bwd: "y_to_price_fl rnd c y =
      Inr (rnd (min_price c + rnd (rnd (rnd (540 - y) / 520) * rnd (max_price c - min_price c))))"
    by (simp add: y_to_price_fl_def py_div_def G)
  from core(2) have "\<bar>rnd (min_price c
        + rnd (rnd (rnd (540 - y) / 520) * rnd (max_price c - min_price c))) - p\<bar>
      \<le> 12 * u * (\<bar>p\<bar> + \<bar>min_price c\<bar> + \<bar>max_price c\<bar>)"
    by simp
  with fwd bwd show ?thesis by blast
qed

lemma time_round_trip:
  assumes g: "geometry c = geometry init_canvas"
    and R: "\<forall>r. \<bar>rnd r - r\<bar> \<le> u * \<bar>r\<bar>" and u: "u \<le> 1 / 100"
    and ne: "max_time c \<noteq> min_time c"
  shows "\<exists>x i'. time_to_x_fl rnd c i = Inr x \<and> x_to_time_fl rnd c x = Inr i' \<and>
           \<bar>i' - i\<bar> \<le> 12 * u * (\<bar>i\<bar> + \<bar>min_time c\<bar> + \<bar>max_time c\<bar>)"
proof -
  from g have G: "chart_width c = 800" "margin_left c = 60" "margin_right c = 20"
    by (simp_all add: geometry_def init_canvas_def)
  have u0: "0 \<le> u" using R[rule_format, of 1] by simp
  define mh where
    "mh = rnd (rnd (rnd (i - min_time c) / rnd (max_time c - min_time c)) * 720)"
  define x where "x = rnd (60 + mh)"
  have "\<bar>x - (60 + mh)\<bar> \<le> u * \<bar>60 + mh\<bar>" unfolding x_def using R by blast
  moreover have "u * \<bar>60 + mh\<bar> \<le> u * (60 + \<bar>mh\<bar>)"
    using u0 by (intro mult_left_mono) simp_all
  ultimately have w: "\<bar>(x - 60) - mh\<bar> \<le> u * (60 + \<bar>mh\<bar>)" by linarith
  note core = round_trip_core[of rnd u 720 60 "max_time c" "min_time c" "x - 60" i,
      OF R[rule_format] u0 u _ _ _ ne w[unfolded mh_def]]
  have fwd: "time_to_x_fl rnd c i = Inr x"
    using ne core(1) by (simp add: time_to_x_fl_def py_div_def G x_def mh_def)
  have bwd: "x_to_time_fl rnd c x =
      Inr (rnd (min_time c + rnd (rnd (rnd (x - 60) / 720) * rnd (max_time c - min_time c))))"
    by (simp add: x_to_time_fl_def py_div_def G)
  from core(2) have "\<bar>rnd (min_time c
        + rnd (rnd (rnd (x - 60) / 720) * rnd (max_time c - min_time c))) - i\<bar>
      \<le> 12 * u * (\<bar>i\<bar> + \<bar>min_time c\<bar> + \<bar>max_time c\<bar>)"
    by simp
  with fwd bwd show ?thesis by blast
qed

text \<open>
  C7. The constructor sets the geometry of a canvas and no method changes it. On a canvas
  with this geometry and with \<open>max_price \<noteq> min_price\<close>, \<open>y_to_price\<close> undoes \<open>price_to_y\<close>
  for every price \<open>p\<close>: computed exactly, \<open>p\<close> comes back as it was; computed in floating
  point, with a rounding of relative error at most \<open>u\<close> (for doubles \<open>u\<close> is \<open>2\<^sup>-\<^sup>5\<^sup>3\<close>; any
  \<open>u\<close> up to 1/100 will do), both calls return and the price that comes back is within
  \<open>12 u (\<bar>p\<bar> + \<bar>min_price\<bar> + \<bar>max_price\<bar>)\<close> of \<open>p\<close>. With \<open>max_time \<noteq> min_time\<close> the same
  holds of \<open>x_to_time\<close> and \<open>time_to_x\<close>, for every time index.
\<close>

theorem maps_inverse:
  "geometry c = geometry init_canvas \<longrightarrow> (\<forall>r. \<bar>rnd r - r\<bar> \<le> u * \<bar>r\<bar>) \<longrightarrow> u \<le> 1 / 100 \<longrightarrow>
     (max_price c \<noteq> min_price c \<longrightarrow>
        bind (price_to_y c p) (y_to_price c) = Inr p \<and>
        (\<exists>y p'. price_to_y_fl rnd c p = Inr y \<and> y_to_price_fl rnd c y = Inr p' \<and>
           \<bar>p' - p\<bar> \<le> 12 * u * (\<bar>p\<bar> + \<bar>min_price c\<bar> + \<bar>max_price c\<bar>))) \<and>
     (max_time c \<noteq> min_time c \<longrightarrow>
        bind (time_to_x c i) (x_to_time c) = Inr i \<and>
        (\<exists>x i'. time_to_x_fl rnd c i = Inr x \<and> x_to_time_fl rnd c x = Inr i' \<and>
           \<bar>i' - i\<bar> \<le> 12 * u * (\<bar>i\<bar> + \<bar>min_time c\<bar> + \<bar>max_time c\<bar>)))"
  using exact_round_trip(1)[of c p] exact_round_trip(2)[of c i] constructor_extent[of c]
    price_round_trip[of c rnd u p] time_round_trip[of c rnd u i]
  by blast

text \<open>
  On a new canvas (prices 0 to 1000, time indices 0 to 100) the double next to 0.1 goes to
  the pixel row 539.948 and comes back as 0.10000000000004022, and the index 33 comes back
  as 33.
\<close>

theorem maps_inverse_witness:
  "geometry init_canvas = geometry init_canvas \<and>
   (\<forall>r. \<bar>binary64 r - r\<bar> \<le> 1 / 2 ^ 53 * \<bar>r\<bar>) \<and> (1 / 2 ^ 53 :: real) \<le> 1 / 100 \<and>
   max_price init_canvas \<noteq> min_price init_canvas \<and>
   max_time init_canvas \<noteq> min_time init_canvas \<and>
   bind (price_to_y init_canvas (3602879701896397 / 36028797018963968)) (y_to_price init_canvas)
     = Inr (3602879701896397 / 36028797018963968) \<and>
   price_to_y_fl binary64 init_canvas (3602879701896397 / 36028797018963968)
     = Inr (4749432835155165 / 8796093022208) \<and>
   y_to_price_fl binary64 init_canvas (4749432835155165 / 8796093022208)
     = Inr (1801439850948923 / 18014398509481984) \<and>
   \<bar>1801439850948923 / 18014398509481984 - 3602879701896397 / 36028797018963968 :: real\<bar>
     \<le> 12 * (1 / 2 ^ 53) * (\<bar>3602879701896397 / 36028797018963968\<bar> + \<bar>0\<bar> + \<bar>1000\<bar>) \<and>
   bind (time_to_x init_canvas 33) (x_to_time init_canvas) = Inr 33 \<and>
   time_to_x_fl binary64 init_canvas 33 = Inr (2617717283409101 / 8796093022208) \<and>
   x_to_time_fl binary64 init_canvas (2617717283409101 / 8796093022208) = Inr 33"
proof -
  have R: "\<forall>r. \<bar>binary64 r - r\<bar> \<le> 1 / 2 ^ 53 * \<bar>r\<bar>" using binary64_rel by blast
  have u: "(1 / 2 ^ 53 :: real) \<le> 1 / 100" by simp
  have ne: "max_price init_canvas \<noteq> min_price init_canvas"
    "max_time init_canvas \<noteq> min_time init_canvas"
    by (simp_all add: init_canvas_def)
  have fp: "price_to_y_fl binary64 init_canvas (3602879701896397 / 36028797018963968)
      = Inr (4749432835155165 / 8796093022208)"
    by (simp add: price_to_y_fl_def py_div_def init_canvas_def binary64_values binary64_zero)
  have bp: "y_to_price_fl binary64 init_canvas (4749432835155165 / 8796093022208)
      = Inr (1801439850948923 / 18014398509481984)"
    by (simp add: y_to_price_fl_def py_div_def init_canvas_def binary64_values binary64_zero)
  have ft: "time_to_x_fl binary64 init_canvas 33 = Inr (2617717283409101 / 8796093022208)"
    by (simp add: time_to_x_fl_def py_div_def init_canvas_def binary64_values binary64_zero)
  have bt: "x_to_time_fl binary64 init_canvas (2617717283409101 / 8796093022208) = Inr 33"
    by (simp add: x_to_time_fl_def py_div_def init_canvas_def binary64_values binary64_zero)
  note T = maps_inverse [of init_canvas binary64 "1 / 2 ^ 53"
      "3602879701896397 / 36028797018963968" 33]
  from T R u ne(1) have ep: "bind (price_to_y init_canvas (3602879701896397 / 36028797018963968))
      (y_to_price init_canvas) = Inr (3602879701896397 / 36028797018963968)"
    by blast
  from T R u ne(1) obtain y p' where
    "price_to_y_fl binary64 init_canvas (3602879701896397 / 36028797018963968) = Inr y"
    "y_to_price_fl binary64 init_canvas y = Inr p'"
    "\<bar>p' - 3602879701896397 / 36028797018963968\<bar>
       \<le> 12 * (1 / 2 ^ 53) * (\<bar>3602879701896397 / 36028797018963968\<bar>
            + \<bar>min_price init_canvas\<bar> + \<bar>max_price init_canvas\<bar>)"
    by blast
  with fp bp have tol:
    "\<bar>1801439850948923 / 18014398509481984 - 3602879701896397 / 36028797018963968 :: real\<bar>
       \<le> 12 * (1 / 2 ^ 53) * (\<bar>3602879701896397 / 36028797018963968\<bar> + \<bar>0\<bar> + \<bar>1000\<bar>)"
    by (simp add: init_canvas_def)
  from T R u ne(2) have et: "bind (time_to_x init_canvas 33) (x_to_time init_canvas) = Inr 33"
    by blast
  from R u ne ep fp bp tol et ft bt show ?thesis by blast
qed

section \<open>The stroke recorder\<close>

lemma plot_market_data_keeps [simp]:
  "all_strokes (plot_market_data c) = all_strokes c"
  "current_stroke (plot_market_data c) = current_stroke c"
  "is_drawing (plot_market_data c) = is_drawing c"
  "drawing_enabled (plot_market_data c) = drawing_enabled c"
  "market_data (plot_market_data c) = market_data c"
  "data_handler (plot_market_data c) = data_handler c"
  by (simp_all add: plot_market_data_def Let_def)

lemma x_to_time_value:
  "x_to_time c x = Inr (if chart_width c - margin_left c - margin_right c = 0 then min_time c
     else min_time c + (x - margin_left c) / (chart_width c - margin_left c - margin_right c)
            * (max_time c - min_time c))"
  by (simp add: map_defs)

lemma y_to_price_value:
  "y_to_price c y = Inr (if chart_height c - margin_top c - margin_bottom c = 0 then min_price c
     else min_price c + (chart_height c - margin_bottom c - y)
            / (chart_height c - margin_top c - margin_bottom c) * (max_price c - min_price c))"
  by (simp add: map_defs)

lemma py_index_floor:
  assumes "0 \<le> t" and "t < real (length xs)"
  shows "py_index xs (py_trunc t) = Inr (xs ! nat \<lfloor>t\<rfloor>)"
proof -
  from assms have "0 \<le> \<lfloor>t\<rfloor>" and "\<lfloor>t\<rfloor> < int (length xs)"
    by (simp_all add: floor_less_iff)
  with assms(1) show ?thesis by (simp add: py_index_def py_trunc_def)
qed

lemma time_string_value:
  "time_string now c t =
     Inr (if market_data c \<noteq> [] \<and> 0 \<le> t \<and> t < real (length (market_data c))
          then strftime (dp_datetime (market_data c ! nat \<lfloor>t\<rfloor>)) day_format
          else strftime now day_format)"
  by (simp add: time_string_def py_index_floor)

lemma event_point_value:
  "x_to_time c x = Inr t \<Longrightarrow> y_to_price c y = Inr p \<Longrightarrow>
   event_point now c x y =
     Inr (Str (if market_data c \<noteq> [] \<and> 0 \<le> t \<and> t < real (length (market_data c))
               then strftime (dp_datetime (market_data c ! nat \<lfloor>t\<rfloor>)) day_format
               else strftime now day_format), p)"
  by (simp add: event_point_def time_string_value)

lemma event_point_total: "\<exists>pt. event_point now c x y = Inr pt"
  using event_point_value[OF x_to_time_value y_to_price_value] by blast

lemma handle_total:
  "\<exists>c'. handle e c = Inr c' \<and>
     (\<forall>s\<in>set (all_strokes c'). s \<in> set (all_strokes c) \<or> 1 < length s)"
proof (cases e)
  case (PointerDown now x y)
  obtain pt where "event_point now c x y = Inr pt" using event_point_total by blast
  then show ?thesis by (simp add: PointerDown on_mouse_press_def)
next
  case (PointerMove now x y)
  obtain pt where "event_point now c x y = Inr pt" using event_point_total by blast
  then show ?thesis by (simp add: PointerMove on_mouse_move_def update_drawing_preview_def)
next
  case PointerUp
  then show ?thesis by (auto simp: on_mouse_release_def update_drawing_preview_def)
qed

lemma run_total:
  "(\<forall>s\<in>set (all_strokes c). length s \<noteq> 1)
    \<Longrightarrow> \<exists>c'. run es c = Inr c' \<and> (\<forall>s\<in>set (all_strokes c'). length s \<noteq> 1)"
proof (induction es arbitrary: c)
  case Nil
  then show ?case by simp
next
  case (Cons e es)
  obtain c1 where c1: "handle e c = Inr c1"
    "\<forall>s\<in>set (all_strokes c1). s \<in> set (all_strokes c) \<or> 1 < length s"
    using handle_total by blast
  with Cons.prems have "\<forall>s\<in>set (all_strokes c1). length s \<noteq> 1" by fastforce
  from Cons.IH[OF this] show ?case by (simp add: c1(1))
qed

text \<open>
  C8. No sequence of pointer events raises an exception, and none puts a stroke of exactly one
  point among the completed strokes: if there is none before, there is none after. A pointer-up
  that ends a drawing (drawing enabled, a stroke in progress) appends the current stroke to the
  completed strokes when it has more than one point and drops it otherwise, and empties the
  current stroke either way.
\<close>

theorem no_single_point_stroke:
  "((\<forall>s\<in>set (all_strokes c). length s \<noteq> 1) \<longrightarrow>
      (\<exists>c'. run es c = Inr c' \<and> (\<forall>s\<in>set (all_strokes c'). length s \<noteq> 1))) \<and>
   (drawing_enabled c \<longrightarrow> is_drawing c \<longrightarrow>
      all_strokes (on_mouse_release c) =
        (if 1 < length (current_stroke c) then all_strokes c @ [current_stroke c]
         else all_strokes c) \<and>
      current_stroke (on_mouse_release c) = [] \<and> \<not> is_drawing (on_mouse_release c))"
  using run_total[of c es]
  by (simp add: on_mouse_release_def update_drawing_preview_def)

theorem no_single_point_stroke_witness:
  "all_strokes pressed_canvas = [] \<and>
   drawing_enabled pressed_canvas \<and> is_drawing pressed_canvas \<and>
   length (current_stroke pressed_canvas) = 1 \<and>
   all_strokes (on_mouse_release pressed_canvas) = [] \<and>
   current_stroke (on_mouse_release pressed_canvas) = [] \<and>
   run [PointerUp] pressed_canvas = Inr (on_mouse_release pressed_canvas)"
  using no_single_point_stroke [of pressed_canvas "[PointerUp]"]
  by (simp add: pressed_canvas_def canvas_eval)

lemma plot_market_data_fl_keeps [simp]:
  "all_strokes (plot_market_data_fl rnd c) = all_strokes c"
  "current_stroke (plot_market_data_fl rnd c) = current_stroke c"
  "is_drawing (plot_market_data_fl rnd c) = is_drawing c"
  "drawing_enabled (plot_market_data_fl rnd c) = drawing_enabled c"
  "market_data (plot_market_data_fl rnd c) = market_data c"
  by (simp_all add: plot_market_data_fl_def Let_def)

lemma x_to_time_fl_total: "\<exists>t. x_to_time_fl rnd c x = Inr t"
  by (simp add: x_to_time_fl_def py_div_def)

lemma y_to_price_fl_total: "\<exists>p. y_to_price_fl rnd c y = Inr p"
  by (simp add: y_to_price_fl_def py_div_def)

lemma event_point_fl_value:
  "x_to_time_fl rnd c x = Inr t \<Longrightarrow> y_to_price_fl rnd c y = Inr p \<Longrightarrow>
   event_point_fl rnd now c x y =
     Inr (Str (if market_data c \<noteq> [] \<and> 0 \<le> t \<and> t < real (length (market_data c))
               then strftime (dp_datetime (market_data c ! nat \<lfloor>t\<rfloor>)) day_format
               else strftime now day_format), p)"
  by (simp add: event_point_fl_def time_string_value)

text \<open>
  C5, as amended. For a pointer-down inside the chart rectangle while drawing is enabled (and
  for a pointer-move, when a stroke is in progress), the recorded point's timestamp is the
  timestamp of the bar at index \<open>\<lfloor>t\<rfloor>\<close>, formatted as MM/DD/YYYY HH:MM, when a series is
  loaded and \<open>t\<close> lies in \<open>[0, len)\<close>; otherwise it is the wall-clock time, formatted the
  same way. Here \<open>t\<close> is the time index as the handler computes it, in floating point,
  whatever the rounding is. The range test is on \<open>t\<close> itself, and \<^verbatim>\<open>int(time_val)\<close> cuts
  its fraction off: nothing rounds \<open>t\<close> to the nearest integer.
\<close>

theorem recorded_timestamp:
  "drawing_enabled c \<longrightarrow> inside c x y \<longrightarrow>
     (\<exists>t p. x_to_time_fl rnd c x = Inr t \<and> y_to_price_fl rnd c y = Inr p \<and>
        on_mouse_press_fl rnd now c x y =
          Inr (c\<lparr>is_drawing := True,
                 current_stroke :=
                   [(Str (if market_data c \<noteq> [] \<and> 0 \<le> t \<and> t < real (length (market_data c))
                          then strftime (dp_datetime (market_data c ! nat \<lfloor>t\<rfloor>)) day_format
                          else strftime now day_format), p)]\<rparr>) \<and>
        (is_drawing c \<longrightarrow>
           (\<exists>c'. on_mouse_move_fl rnd now c x y = Inr c' \<and>
              current_stroke c' = current_stroke c @
                   [(Str (if market_data c \<noteq> [] \<and> 0 \<le> t \<and> t < real (length (market_data c))
                          then strftime (dp_datetime (market_data c ! nat \<lfloor>t\<rfloor>)) day_format
                          else strftime now day_format), p)])))"
proof (intro impI)
  assume a: "drawing_enabled c" "inside c x y"
  obtain t p where tp: "x_to_time_fl rnd c x = Inr t" "y_to_price_fl rnd c y = Inr p"
    using x_to_time_fl_total y_to_price_fl_total by blast
  note ev = event_point_fl_value[OF tp, of now]
  have "on_mouse_press_fl rnd now c x y =
          Inr (c\<lparr>is_drawing := True,
                 current_stroke :=
                   [(Str (if market_data c \<noteq> [] \<and> 0 \<le> t \<and> t < real (length (market_data c))
                          then strftime (dp_datetime (market_data c ! nat \<lfloor>t\<rfloor>)) day_format
                          else strftime now day_format), p)]\<rparr>)"
    using a by (simp add: on_mouse_press_fl_def ev)
  moreover have "is_drawing c \<longrightarrow>
           (\<exists>c'. on_mouse_move_fl rnd now c x y = Inr c' \<and>
              current_stroke c' = current_stroke c @
                   [(Str (if market_data c \<noteq> [] \<and> 0 \<le> t \<and> t < real (length (market_data c))
                          then strftime (dp_datetime (market_data c ! nat \<lfloor>t\<rfloor>)) day_format
                          else strftime now day_format), p)])"
    using a by (simp add: on_mouse_move_fl_def ev)
  ultimately show "\<exists>t p. x_to_time_fl rnd c x = Inr t \<and> y_to_price_fl rnd c y = Inr p \<and>
        on_mouse_press_fl rnd now c x y =
          Inr (c\<lparr>is_drawing := True,
                 current_stroke :=
                   [(Str (if market_data c \<noteq> [] \<and> 0 \<le> t \<and> t < real (length (market_data c))
                          then strftime (dp_datetime (market_data c ! nat \<lfloor>t\<rfloor>)) day_format
                          else strftime now day_format), p)]\<rparr>) \<and>
        (is_drawing c \<longrightarrow>
           (\<exists>c'. on_mouse_move_fl rnd now c x y = Inr c' \<and>
              current_stroke c' = current_stroke c @
                   [(Str (if market_data c \<noteq> [] \<and> 0 \<le> t \<and> t < real (length (market_data c))
                          then strftime (dp_datetime (market_data c ! nat \<lfloor>t\<rfloor>)) day_format
                          else strftime now day_format), p)]))"
    using tp by blast
qed

lemma example_press:
  "on_mouse_press (stamp_at 2026 1 1 12 0 0) example_canvas 330 280 = Inr pressed_canvas"
  by (simp add: on_mouse_press_def event_point_def time_string_def py_index_def py_trunc_def
      map_defs pressed_canvas_def canvas_eval stamp_at_def day_format_def pad2_def str_nat_digit
      str_nat_more digit_char_def)

text \<open>
  The data ranges of \<open>float_canvas\<close>, in doubles: 555.8 and 560.2 as Python prints them.
\<close>

lemma float_canvas_value:
  "float_canvas =
     init_canvas\<lparr>market_data := three_bars,
       min_price := 2444434250871603 / 4398046511104,
       max_price := 2463785655520461 / 4398046511104,
       min_time := 0, max_time := 2, drawing_enabled := True\<rparr>"
  by (simp add: float_canvas_def enable_drawing_def load_market_data_fl_def
      plot_market_data_fl_def three_bars_def bar_at_def init_canvas_def binary64_values
      binary64_zero)

lemma float_maps:
  "x_to_time_fl binary64 float_canvas 330 = Inr (3 / 4)"
  "y_to_price_fl binary64 float_canvas 280 = Inr 558"
  "x_to_time_fl binary64 float_canvas 690 = Inr (7 / 4)"
  "y_to_price_fl binary64 float_canvas 150 = Inr (4917895608716493 / 8796093022208)"
  by (simp_all add: float_canvas_value x_to_time_fl_def y_to_price_fl_def py_div_def
      init_canvas_def binary64_values binary64_zero)

theorem recorded_timestamp_counterexample:
  "drawing_enabled float_canvas \<and> inside float_canvas 330 280 \<and>
   market_data float_canvas = three_bars \<and>
   x_to_time_fl binary64 float_canvas 330 = Inr (3 / 4) \<and>
   round (3 / 4 :: real) = 1 \<and> (1::int) < int (length three_bars) \<and>
   strftime (dp_datetime (three_bars ! 1)) day_format = ''03/12/2025 10:30'' \<and>
   on_mouse_press_fl binary64 (stamp_at 2026 1 1 12 0 0) float_canvas 330 280 =
     Inr (float_canvas\<lparr>is_drawing := True,
                         current_stroke := [(Str ''03/12/2025 10:00'', 558)]\<rparr>)"
proof -
  have c: "drawing_enabled float_canvas" "inside float_canvas 330 280"
    "market_data float_canvas = three_bars"
    by (simp_all add: float_canvas_value init_canvas_def inside_def)
  have r: "round (3 / 4 :: real) = 1" "(1::int) < int (length three_bars)"
    "strftime (dp_datetime (three_bars ! 1)) day_format = ''03/12/2025 10:30''"
    by (simp_all add: round_def three_bars_def bar_at_def stamp_at_def day_format_def pad2_def
        str_nat_digit str_nat_more digit_char_def)
  have "event_point_fl binary64 (stamp_at 2026 1 1 12 0 0) float_canvas 330 280 =
      Inr (Str ''03/12/2025 10:00'', 558)"
    by (simp add: event_point_fl_value[OF float_maps(1,2)] c(3))
      (simp add: three_bars_def bar_at_def stamp_at_def day_format_def pad2_def
        str_nat_digit str_nat_more digit_char_def)
  then have "on_mouse_press_fl binary64 (stamp_at 2026 1 1 12 0 0) float_canvas 330 280 =
     Inr (float_canvas\<lparr>is_drawing := True,
                         current_stroke := [(Str ''03/12/2025 10:00'', 558)]\<rparr>)"
    using c by (simp add: on_mouse_press_fl_def)
  with c r float_maps(1) show ?thesis by blast
qed

theorem recorded_timestamp_witness:
  "drawing_enabled pressed_float_canvas \<and> inside pressed_float_canvas 690 150 \<and>
   is_drawing pressed_float_canvas \<and>
   x_to_time_fl binary64 pressed_float_canvas 690 = Inr (7 / 4) \<and>
   (\<exists>c'. on_mouse_move_fl binary64 (stamp_at 2026 1 1 12 0 0) pressed_float_canvas 690 150
            = Inr c' \<and>
      current_stroke c' =
        [(Str ''03/12/2025 10:00'', 558),
         (Str ''03/12/2025 10:30'', 4917895608716493 / 8796093022208)])"
proof -
  have h: "drawing_enabled pressed_float_canvas" "inside pressed_float_canvas 690 150"
    "is_drawing pressed_float_canvas"
    by (simp_all add: pressed_float_canvas_def float_canvas_value init_canvas_def inside_def)
  have x: "x_to_time_fl binary64 pressed_float_canvas 690 = Inr (7 / 4)"
    and y: "y_to_price_fl binary64 pressed_float_canvas 150
              = Inr (4917895608716493 / 8796093022208)"
    by (simp_all add: pressed_float_canvas_def float_canvas_value x_to_time_fl_def
        y_to_price_fl_def py_div_def init_canvas_def binary64_values binary64_zero)
  from recorded_timestamp [of pressed_float_canvas 690 150 binary64 "stamp_at 2026 1 1 12 0 0"] h
  obtain t p c' where tp: "x_to_time_fl binary64 pressed_float_canvas 690 = Inr t"
      "y_to_price_fl binary64 pressed_float_canvas 150 = Inr p"
    and mv: "on_mouse_move_fl binary64 (stamp_at 2026 1 1 12 0 0) pressed_float_canvas 690 150
               = Inr c'"
    "current_stroke c' = current_stroke pressed_float_canvas @
       [(Str (if market_data pressed_float_canvas \<noteq> [] \<and> 0 \<le> t \<and>
                 t < real (length (market_data pressed_float_canvas))
              then strftime (dp_datetime (market_data pressed_float_canvas ! nat \<lfloor>t\<rfloor>)) day_format
              else strftime (stamp_at 2026 1 1 12 0 0) day_format), p)]"
    by blast
  from tp x y have t: "t = 7 / 4" and p: "p = 4917895608716493 / 8796093022208" by simp_all
  have "current_stroke c' =
      [(Str ''03/12/2025 10:00'', 558),
       (Str ''03/12/2025 10:30'', 4917895608716493 / 8796093022208)]"
    unfolding mv(2) t p
    by (simp add: pressed_float_canvas_def float_canvas_value init_canvas_def three_bars_def
        bar_at_def stamp_at_def day_format_def pad2_def str_nat_digit str_nat_more
        digit_char_def)
  with mv(1) h x show ?thesis by blast
qed

text \<open>
  Where the rounding shows. With 46 bars loaded, the pixel column 268 is the column of bar
  13 in exact arithmetic. In doubles the time index comes out as \<open>13 - 2\<^sup>-\<^sup>4\<^sup>9\<close>, which
  Python prints as 12.999999999999998, and the handler records bar 12.
\<close>

lemma minute_canvas_value:
  "minute_canvas =
     init_canvas\<lparr>market_data := minute_bars, min_price := 560, max_price := 560,
       min_time := 0, max_time := 45, drawing_enabled := True\<rparr>"
  by (simp add: minute_canvas_def enable_drawing_def load_market_data_fl_def
      plot_market_data_fl_def minute_bars_def bar_at_def init_canvas_def binary64_values
      binary64_zero upt_rec)

lemma late_bar:
  "x_to_time minute_canvas 268 = Inr 13 \<and>
   x_to_time_fl binary64 minute_canvas 268 = Inr (7318349394477055 / 562949953421312) \<and>
   (7318349394477055 / 562949953421312 :: real) = 13 - 1 / 2 ^ 49 \<and>
   on_mouse_press_fl binary64 (stamp_at 2026 1 1 12 0 0) minute_canvas 268 280 =
     Inr (minute_canvas\<lparr>is_drawing := True,
                          current_stroke := [(Str ''03/12/2025 10:12'', 560)]\<rparr>)"
proof -
  have x: "x_to_time_fl binary64 minute_canvas 268 = Inr (7318349394477055 / 562949953421312)"
    and y: "y_to_price_fl binary64 minute_canvas 280 = Inr 560"
    and e: "x_to_time minute_canvas 268 = Inr 13"
    by (simp_all add: minute_canvas_value x_to_time_fl_def y_to_price_fl_def x_to_time_def
        py_div_def init_canvas_def binary64_values binary64_zero)
  have c: "drawing_enabled minute_canvas" "inside minute_canvas 268 280"
    "market_data minute_canvas = minute_bars"
    by (simp_all add: minute_canvas_value init_canvas_def inside_def)
  have "event_point_fl binary64 (stamp_at 2026 1 1 12 0 0) minute_canvas 268 280 =
      Inr (Str ''03/12/2025 10:12'', 560)"
    by (simp add: event_point_fl_value[OF x y] c(3))
      (simp add: minute_bars_def bar_at_def stamp_at_def day_format_def pad2_def
        str_nat_digit str_nat_more digit_char_def)
  then have "on_mouse_press_fl binary64 (stamp_at 2026 1 1 12 0 0) minute_canvas 268 280 =
     Inr (minute_canvas\<lparr>is_drawing := True,
                          current_stroke := [(Str ''03/12/2025 10:12'', 560)]\<rparr>)"
    using c by (simp add: on_mouse_press_fl_def)
  moreover have "(7318349394477055 / 562949953421312 :: real) = 13 - 1 / 2 ^ 49" by simp
  ultimately show ?thesis using x e by blast
qed

section \<open>The modern format\<close>

lemma export_point_parsed:
  "strptime (Some (fst pt)) day_format = Inr d \<Longrightarrow>
   export_point si sf k (as_point pt) = Inr (row_of si sf k pt)"
  by (simp add: export_point_def as_point_def row_of_def normalized_def)

lemma write_stroke_parsed:
  "\<forall>pt\<in>set stroke. \<exists>d. strptime (Some (fst pt)) day_format = Inr d \<Longrightarrow>
   write_stroke si sf k (map as_point stroke) = (map (row_of si sf k) stroke, None)"
  by (induction stroke) (auto simp: export_point_parsed)

lemma write_strokes_parsed:
  "\<forall>stroke\<in>set strokes. \<forall>pt\<in>set stroke. \<exists>d. strptime (Some (fst pt)) day_format = Inr d \<Longrightarrow>
   write_strokes si sf k (map (map as_point) strokes) = (rows_from si sf k strokes, None)"
  by (induction strokes arbitrary: k) (simp_all add: write_stroke_parsed)

lemma row_of_not_empty: "row_of si sf k pt \<noteq> []"
  by (simp add: row_of_def)

lemma rows_from_no_empty: "[] \<notin> set (rows_from si sf k strokes)"
  by (induction strokes arbitrary: k) (auto simp: row_of_def)

lemma DictReader_rows_from:
  "DictReader (pattern_header # rows_from si sf k strokes) =
     map (dict_row pattern_header) (rows_from si sf k strokes)"
proof -
  have "filter (\<lambda>r. r \<noteq> []) (rows_from si sf k strokes) = rows_from si sf k strokes"
    using rows_from_no_empty[of si sf k strokes] by (simp add: filter_id_conv) metis
  then show ?thesis by (simp add: DictReader_def)
qed

lemma dict_row_pattern:
  "dict_row pattern_header [a, b, c, d, e, f, g] ''stroke_id'' = Some (Some a)"
  "dict_row pattern_header [a, b, c, d, e, f, g] ''datetime'' = Some (Some b)"
  "dict_row pattern_header [a, b, c, d, e, f, g] ''close'' = Some (Some f)"
  by (simp_all add: dict_row_def pattern_header_def)

lemma import_row_modern:
  assumes "pint (si k) = Some k" and "pf (sf (snd pt)) = Some (snd pt)"
  shows "import_row pint pf (dict_row pattern_header (row_of si sf k pt)) (S, cur, l) =
     Inr (if l \<noteq> NoLast \<and> LastInt k \<noteq> l then (if cur \<noteq> [] then S @ [cur] else S) else S,
          (if l \<noteq> NoLast \<and> LastInt k \<noteq> l then [] else cur) @ [as_normalized_point pt],
          LastInt k)"
  using assms
  by (simp add: import_row_def row_of_def dict_row_pattern getitem_def py_int_def py_float_def
      new_stroke_def stamp_of_def as_normalized_point_def)

lemma import_rows_append:
  "import_rows pint pf (xs @ ys) st = bind (import_rows pint pf xs st) (import_rows pint pf ys)"
proof (induction xs arbitrary: st)
  case Nil
  then show ?case by simp
next
  case (Cons x xs)
  then show ?case by (cases "import_row pint pf x st") simp_all
qed

lemma import_rows_same_stroke:
  assumes "pint (si k) = Some k" and "\<forall>pt\<in>set pts. pf (sf (snd pt)) = Some (snd pt)"
  shows "import_rows pint pf (map (dict_row pattern_header) (map (row_of si sf k) pts))
           (S, cur, LastInt k) = Inr (S, cur @ map as_normalized_point pts, LastInt k)"
  using assms(2)
proof (induction pts arbitrary: cur)
  case Nil
  then show ?case by simp
next
  case (Cons pt pts)
  then show ?case
    using assms(1) import_row_modern[of pint si k pf sf pt S cur "LastInt k"] by simp
qed

lemma import_rows_strokes:
  assumes "\<forall>stroke\<in>set strokes. stroke \<noteq> []"
    and "\<forall>i<length strokes. pint (si (k + int i)) = Some (k + int i)"
    and "\<forall>stroke\<in>set strokes. \<forall>pt\<in>set stroke. pf (sf (snd pt)) = Some (snd pt)"
    and "(cur = [] \<and> l = NoLast) \<or> (\<exists>j. l = LastInt j \<and> j < k)"
  shows "bind (import_rows pint pf (map (dict_row pattern_header) (rows_from si sf k strokes))
                 (S, cur, l)) (\<lambda>st. Inr (add_last_stroke st))
         = Inr ((if cur \<noteq> [] then S @ [cur] else S) @ map (map as_normalized_point) strokes)"
  using assms
proof (induction strokes arbitrary: k S cur l)
  case Nil
  then show ?case by (simp add: add_last_stroke_def)
next
  case (Cons stroke strokes)
  from Cons.prems(1) obtain pt pts where st: "stroke = pt # pts" by (cases stroke) auto
  from Cons.prems(2) have k0: "pint (si k) = Some k" by fastforce
  from Cons.prems(2) have ks: "\<forall>i<length strokes. pint (si (k + 1 + int i)) = Some (k + 1 + int i)"
  proof (intro allI impI)
    fix i assume "i < length strokes"
    then have "Suc i < length (stroke # strokes)" by simp
    with Cons.prems(2) have "pint (si (k + int (Suc i))) = Some (k + int (Suc i))" by blast
    moreover have "k + int (Suc i) = k + 1 + int i" by simp
    ultimately show "pint (si (k + 1 + int i)) = Some (k + 1 + int i)" by (simp only:)
  qed
  from Cons.prems(3) have f0: "pf (sf (snd pt)) = Some (snd pt)"
    and fs: "\<forall>pt\<in>set pts. pf (sf (snd pt)) = Some (snd pt)"
    and fr: "\<forall>stroke\<in>set strokes. \<forall>pt\<in>set stroke. pf (sf (snd pt)) = Some (snd pt)"
    by (auto simp: st)
  from Cons.prems(1) have ne: "\<forall>stroke\<in>set strokes. stroke \<noteq> []" by simp
  let ?S = "if cur \<noteq> [] then S @ [cur] else S"
  have first: "import_row pint pf (dict_row pattern_header (row_of si sf k pt)) (S, cur, l)
      = Inr (?S, [as_normalized_point pt], LastInt k)"
    using Cons.prems(4) k0 f0 import_row_modern[of pint si k pf sf pt S cur l] by auto
  have rest: "import_rows pint pf (map (dict_row pattern_header) (map (row_of si sf k) pts))
           (?S, [as_normalized_point pt], LastInt k)
      = Inr (?S, [as_normalized_point pt] @ map as_normalized_point pts, LastInt k)"
    using k0 fs import_rows_same_stroke[of pint si k pts pf sf ?S "[as_normalized_point pt]"]
    by simp
  have ih: "bind (import_rows pint pf
                (map (dict_row pattern_header) (rows_from si sf (k + 1) strokes))
                (?S, as_normalized_point pt # map as_normalized_point pts, LastInt k))
             (\<lambda>st. Inr (add_last_stroke st))
        = Inr ((?S @ [as_normalized_point pt # map as_normalized_point pts])
                 @ map (map as_normalized_point) strokes)"
    using ne ks fr
      Cons.IH[of "k + 1" "as_normalized_point pt # map as_normalized_point pts" "LastInt k" ?S]
    by simp
  show ?case
    using first rest ih by (simp add: st import_rows_append)
qed

lemma normalized_strftime:
  "valid_datetime d \<Longrightarrow> 1000 \<le> year d \<Longrightarrow>
   normalized (strftime d day_format) = strftime d day_format"
  by (simp add: normalized_def strptime_strftime strftime_ignores_seconds)

lemma export_parsed:
  assumes "\<forall>stroke\<in>set strokes. \<forall>pt\<in>set stroke. \<exists>d. strptime (Some (fst pt)) day_format = Inr d"
  shows "export_pattern_to_csv si sf (map (map as_point) strokes) filename fs =
           (fs(filename \<mapsto> pattern_header # rows_from si sf 0 strokes), Inr ())"
  by (simp add: export_pattern_to_csv_def write_strokes_parsed[OF assms])

lemma import_exported:
  assumes "\<forall>stroke\<in>set strokes. stroke \<noteq> []"
    and "\<forall>i<length strokes. pint (si (int i)) = Some (int i)"
    and "\<forall>stroke\<in>set strokes. \<forall>pt\<in>set stroke. pf (sf (snd pt)) = Some (snd pt)"
  shows "import_pattern_from_csv pint pf filename
           (fs(filename \<mapsto> pattern_header # rows_from si sf 0 strokes)) ps0 =
         (map (map as_normalized_point) strokes, Inr (map (map as_normalized_point) strokes))"
proof -
  have "bind (import_rows pint pf (map (dict_row pattern_header) (rows_from si sf 0 strokes))
                 ([], [], NoLast)) (\<lambda>st. Inr (add_last_stroke st))
         = Inr ((if ([]::'a stroke) \<noteq> [] then [] @ [[]] else []) @ map (map as_normalized_point) strokes)"
    using assms import_rows_strokes[of strokes pint si 0 pf sf "[]" NoLast "[]"] by simp
  then show ?thesis
    by (simp add: import_pattern_from_csv_def read_table_def DictReader_rows_from)
qed

text \<open>
  C1, as amended. For every pattern set in which every stroke has at least one point and every
  timestamp string parses as MM/DD/YYYY HH:MM (and Python's \<^verbatim>\<open>int\<close> and \<^verbatim>\<open>float\<close> read back
  what \<^verbatim>\<open>str\<close> wrote for the stroke numbers and prices involved), \<open>export_pattern_to_csv\<close>
  succeeds and \<open>import_pattern_from_csv\<close> of the file it wrote yields the same number of
  strokes, the same number of points in each stroke, the same prices, and for each point the
  timestamp as the export wrote it, \<open>normalized\<close>: the export parses the string and formats
  the parsed value again, which pads month, day, hour and minute to two digits and writes the
  year without padding. The timestamps are the original strings when these are what
  \<open>strftime\<close> writes with the same format for a date from the year 1000 on, as the recorder's
  are for such dates.
\<close>

theorem export_then_import:
  "(\<forall>stroke\<in>set strokes. stroke \<noteq> []) \<longrightarrow>
   (\<forall>stroke\<in>set strokes. \<forall>pt\<in>set stroke. \<exists>d. strptime (Some (fst pt)) day_format = Inr d) \<longrightarrow>
   (\<forall>i<length strokes. pint (si (int i)) = Some (int i)) \<longrightarrow>
   (\<forall>stroke\<in>set strokes. \<forall>pt\<in>set stroke. pf (sf (snd pt)) = Some (snd pt)) \<longrightarrow>
   (\<exists>fs' R.
      export_pattern_to_csv si sf (map (map as_point) strokes) filename fs = (fs', Inr ()) \<and>
      import_pattern_from_csv pint pf filename fs' ps0 = (R, Inr R) \<and>
      length R = length strokes \<and>
      map length R = map length strokes \<and>
      map (map snd) R = map (map snd) strokes \<and>
      map (map fst) R = map (map (\<lambda>pt. Str (normalized (fst pt)))) strokes \<and>
      ((\<forall>stroke\<in>set strokes. \<forall>pt\<in>set stroke.
           \<exists>d. valid_datetime d \<and> 1000 \<le> year d \<and> fst pt = strftime d day_format) \<longrightarrow>
         R = map (map as_point) strokes))"
proof (intro impI)
  assume a: "\<forall>stroke\<in>set strokes. stroke \<noteq> []"
    "\<forall>stroke\<in>set strokes. \<forall>pt\<in>set stroke. \<exists>d. strptime (Some (fst pt)) day_format = Inr d"
    "\<forall>i<length strokes. pint (si (int i)) = Some (int i)"
    "\<forall>stroke\<in>set strokes. \<forall>pt\<in>set stroke. pf (sf (snd pt)) = Some (snd pt)"
  let ?R = "map (map as_normalized_point) strokes"
  let ?fs = "fs(filename \<mapsto> pattern_header # rows_from si sf 0 strokes)"
  have e: "export_pattern_to_csv si sf (map (map as_point) strokes) filename fs = (?fs, Inr ())"
    by (rule export_parsed[OF a(2)])
  have i: "import_pattern_from_csv pint pf filename ?fs ps0 = (?R, Inr ?R)"
    by (rule import_exported[OF a(1,3,4)])
  have l: "length ?R = length strokes" "map length ?R = map length strokes"
    "map (map snd) ?R = map (map snd) strokes"
    "map (map fst) ?R = map (map (\<lambda>pt. Str (normalized (fst pt)))) strokes"
    by (simp_all add: as_normalized_point_def comp_def)
  have c: "(\<forall>stroke\<in>set strokes. \<forall>pt\<in>set stroke.
           \<exists>d. valid_datetime d \<and> 1000 \<le> year d \<and> fst pt = strftime d day_format) \<longrightarrow>
         ?R = map (map as_point) strokes"
  proof
    assume v: "\<forall>stroke\<in>set strokes. \<forall>pt\<in>set stroke.
           \<exists>d. valid_datetime d \<and> 1000 \<le> year d \<and> fst pt = strftime d day_format"
    have "as_normalized_point pt = as_point pt" if "stroke \<in> set strokes" "pt \<in> set stroke"
      for stroke pt
    proof -
      from v that obtain d where "valid_datetime d" "1000 \<le> year d"
        "fst pt = strftime d day_format" by blast
      then show ?thesis
        by (simp add: as_normalized_point_def as_point_def normalized_strftime)
    qed
    then show "?R = map (map as_point) strokes" by simp
  qed
  from e i l c show "\<exists>fs' R.
      export_pattern_to_csv si sf (map (map as_point) strokes) filename fs = (fs', Inr ()) \<and>
      import_pattern_from_csv pint pf filename fs' ps0 = (R, Inr R) \<and>
      length R = length strokes \<and>
      map length R = map length strokes \<and>
      map (map snd) R = map (map snd) strokes \<and>
      map (map fst) R = map (map (\<lambda>pt. Str (normalized (fst pt)))) strokes \<and>
      ((\<forall>stroke\<in>set strokes. \<forall>pt\<in>set stroke.
           \<exists>d. valid_datetime d \<and> 1000 \<le> year d \<and> fst pt = strftime d day_format) \<longrightarrow>
         R = map (map as_point) strokes)"
    by blast
qed

lemmas modern_eval = export_pattern_to_csv_def export_point_def import_pattern_from_csv_def
  import_row_def new_stroke_def add_last_stroke_def as_point_def pad2_def

theorem export_then_import_counterexample:
  "strptime (Some ''3/12/2025 9:30'') day_format = Inr (stamp_at 2025 3 12 9 30 0) \<and>
   strptime (Some ''3/12/2025 10:00'') day_format = Inr (stamp_at 2025 3 12 10 0 0) \<and>
   export_pattern_to_csv str_int str_float
       (map (map as_point) [[(''3/12/2025 9:30'', 560), (''3/12/2025 10:00'', 558.5)]])
       ''pattern.csv'' Map.empty =
     ([''pattern.csv'' \<mapsto>
         [pattern_header,
          [''0'', ''03/12/2025 09:30'', ''560.0'', ''560.0'', ''560.0'', ''560.0'', ''0''],
          [''0'', ''03/12/2025 10:00'', ''558.5'', ''558.5'', ''558.5'', ''558.5'', ''0'']]],
      Inr ()) \<and>
   import_pattern_from_csv int_of_string float_of_string ''pattern.csv''
       [''pattern.csv'' \<mapsto>
         [pattern_header,
          [''0'', ''03/12/2025 09:30'', ''560.0'', ''560.0'', ''560.0'', ''560.0'', ''0''],
          [''0'', ''03/12/2025 10:00'', ''558.5'', ''558.5'', ''558.5'', ''558.5'', ''0'']]] [] =
     ([[(Str ''03/12/2025 09:30'', 560), (Str ''03/12/2025 10:00'', 558.5)]],
      Inr [[(Str ''03/12/2025 09:30'', 560), (Str ''03/12/2025 10:00'', 558.5)]]) \<and>
   ''03/12/2025 09:30'' \<noteq> ''3/12/2025 9:30''"
  by (simp add: modern_eval csv_eval strptime_eval stamp_at_def conv_eval)

lemma early_year_unpadded:
  "strptime (Some ''01/01/0999 10:00'') day_format = Inr (stamp_at 999 1 1 10 0 0) \<and>
   normalized ''01/01/0999 10:00'' = ''01/01/999 10:00'' \<and>
   strptime (Some ''01/01/999 10:00'') day_format = Inl ValueError"
  by (simp add: normalized_def strptime_eval stamp_at_def day_format_def pad2_def str_nat_digit
      str_nat_more digit_char_def)

lemma sample_canonical:
  "\<forall>stroke\<in>set sample_strokes. \<forall>pt\<in>set stroke.
      \<exists>d. valid_datetime d \<and> 1000 \<le> year d \<and> fst pt = strftime d day_format"
proof -
  have c: "valid_datetime (stamp_at 2025 3 12 h m 0) \<and> 1000 \<le> year (stamp_at 2025 3 12 h m 0) \<and>
        s = strftime (stamp_at 2025 3 12 h m 0) day_format \<Longrightarrow>
        \<exists>d. valid_datetime d \<and> 1000 \<le> year d \<and> s = strftime d day_format" for h m s
    by blast
  have "\<exists>d. valid_datetime d \<and> 1000 \<le> year d \<and> ''03/12/2025 10:00'' = strftime d day_format"
    by (rule c[of 10 0]) (simp add: strptime_eval stamp_at_def pad2_def str_nat_digit str_nat_more digit_char_def)
  moreover have "\<exists>d. valid_datetime d \<and> 1000 \<le> year d \<and> ''03/12/2025 10:30'' = strftime d day_format"
    by (rule c[of 10 30]) (simp add: strptime_eval stamp_at_def pad2_def str_nat_digit str_nat_more digit_char_def)
  moreover have "\<exists>d. valid_datetime d \<and> 1000 \<le> year d \<and> ''03/12/2025 12:00'' = strftime d day_format"
    by (rule c[of 12 0]) (simp add: strptime_eval stamp_at_def pad2_def str_nat_digit str_nat_more digit_char_def)
  moreover have "\<exists>d. valid_datetime d \<and> 1000 \<le> year d \<and> ''03/12/2025 13:00'' = strftime d day_format"
    by (rule c[of 13 0]) (simp add: strptime_eval stamp_at_def pad2_def str_nat_digit str_nat_more digit_char_def)
  ultimately show ?thesis by (simp add: sample_strokes_def)
qed

theorem export_then_import_witness:
  "[] \<notin> set sample_strokes \<and>
   map (map (\<lambda>pt. strptime (Some (fst pt)) day_format)) sample_strokes =
     [[Inr (stamp_at 2025 3 12 10 0 0), Inr (stamp_at 2025 3 12 10 30 0)],
      [Inr (stamp_at 2025 3 12 12 0 0), Inr (stamp_at 2025 3 12 13 0 0)]] \<and>
   int_of_string (str_int 0) = Some 0 \<and> int_of_string (str_int 1) = Some 1 \<and>
   map (map (\<lambda>pt. float_of_string (str_float (snd pt)))) sample_strokes =
     map (map (\<lambda>pt. Some (snd pt))) sample_strokes \<and>
   (\<exists>fs'. export_pattern_to_csv str_int str_float (map (map as_point) sample_strokes)
             ''pattern.csv'' Map.empty = (fs', Inr ()) \<and>
          import_pattern_from_csv int_of_string float_of_string ''pattern.csv'' fs' [] =
            (map (map as_point) sample_strokes, Inr (map (map as_point) sample_strokes)))"
proof -
  have h1: "\<forall>stroke\<in>set sample_strokes. stroke \<noteq> []"
    by (simp add: sample_strokes_def)
  have p: "map (map (\<lambda>pt. strptime (Some (fst pt)) day_format)) sample_strokes =
     [[Inr (stamp_at 2025 3 12 10 0 0), Inr (stamp_at 2025 3 12 10 30 0)],
      [Inr (stamp_at 2025 3 12 12 0 0), Inr (stamp_at 2025 3 12 13 0 0)]]"
    by (simp add: sample_strokes_def strptime_eval stamp_at_def)
  have h2: "\<forall>stroke\<in>set sample_strokes. \<forall>pt\<in>set stroke.
      \<exists>d. strptime (Some (fst pt)) day_format = Inr d"
    using p by (simp add: sample_strokes_def)
  have i0: "int_of_string (str_int 0) = Some 0" and i1: "int_of_string (str_int 1) = Some 1"
    by (simp_all add: conv_eval)
  have h3: "\<forall>i<length sample_strokes. int_of_string (str_int (int i)) = Some (int i)"
    using i0 i1 by (simp add: sample_strokes_def less_Suc_eq)
  have f: "map (map (\<lambda>pt. float_of_string (str_float (snd pt)))) sample_strokes =
     map (map (\<lambda>pt. Some (snd pt))) sample_strokes"
    by (simp add: sample_strokes_def conv_eval)
  have h4: "\<forall>stroke\<in>set sample_strokes. \<forall>pt\<in>set stroke.
      float_of_string (str_float (snd pt)) = Some (snd pt)"
    using f by (simp add: sample_strokes_def)
  from export_then_import [of sample_strokes int_of_string str_int float_of_string str_float
      "''pattern.csv''" Map.empty "[]"] h1 h2 h3 h4 sample_canonical
  obtain fs' R where
    "export_pattern_to_csv str_int str_float (map (map as_point) sample_strokes)
             ''pattern.csv'' Map.empty = (fs', Inr ())"
    "import_pattern_from_csv int_of_string float_of_string ''pattern.csv'' fs' [] = (R, Inr R)"
    "R = map (map as_point) sample_strokes"
    by blast
  then have "\<exists>fs'. export_pattern_to_csv str_int str_float (map (map as_point) sample_strokes)
             ''pattern.csv'' Map.empty = (fs', Inr ()) \<and>
          import_pattern_from_csv int_of_string float_of_string ''pattern.csv'' fs' [] =
            (map (map as_point) sample_strokes, Inr (map (map as_point) sample_strokes))"
    by blast
  moreover have "[] \<notin> set sample_strokes" by (simp add: sample_strokes_def)
  ultimately show ?thesis using p i0 i1 f by blast
qed

text \<open>
  C4, as amended. The canvas's \<open>export_patterns\<close> refuses an empty pattern set: with zero
  strokes it returns \<^verbatim>\<open>False\<close>, raises nothing, calls no export and leaves the files as
  they are. \<open>export_pattern_to_csv\<close> of the handler has no such guard: with zero strokes it
  succeeds and writes a file that holds the header row only.
\<close>

theorem empty_export:
  "(all_strokes c = [] \<longrightarrow> export_patterns export c filename fs = (fs, Inr False)) \<and>
   export_pattern_to_csv si sf [] filename fs = (fs(filename \<mapsto> [pattern_header]), Inr ())"
  by (simp add: export_patterns_def export_pattern_to_csv_def)

theorem empty_export_witness:
  "all_strokes (example_canvas\<lparr>data_handler := Some []\<rparr>) = [] \<and>
   export_patterns (export_pattern_to_csv str_int str_float)
       (example_canvas\<lparr>data_handler := Some []\<rparr>) ''pattern.csv'' Map.empty =
     (Map.empty, Inr False)"
  using empty_export [of "example_canvas\<lparr>data_handler := Some []\<rparr>"
      "export_pattern_to_csv str_int str_float" "''pattern.csv''" Map.empty str_int str_float]
  by (simp add: canvas_eval)

theorem empty_export_counterexample:
  "export_pattern_to_csv str_int str_float ([] :: real stroke list) ''pattern.csv'' Map.empty =
     ([''pattern.csv'' \<mapsto>
         [[''stroke_id'', ''datetime'', ''open'', ''high'', ''low'', ''close'', ''volume'']]],
      Inr ())"
  by (simp add: export_pattern_to_csv_def pattern_header_def)

section \<open>Rows that cannot be read\<close>

lemma import_row_missing:
  assumes "r ''stroke_id'' \<noteq> None"
    and "r ''datetime'' = None \<or> r ''close'' = None \<or> r ''close'' = Some None"
  shows "\<exists>e. import_row pint pf r st = Inl e"
proof -
  obtain S cur l where st: "st = (S, cur, l)" by (cases st) auto
  from assms(1) obtain sid where sid: "r ''stroke_id'' = Some sid" by auto
  show ?thesis
  proof (cases "py_int pint sid")
    case (Inl e)
    then show ?thesis by (simp add: st import_row_def getitem_def sid)
  next
    case (Inr i)
    then show ?thesis using assms(2)
      by (cases "r ''datetime''") (auto simp: st import_row_def getitem_def py_float_def sid)
  qed
qed

lemma import_rows_fail:
  "r \<in> set rows \<Longrightarrow> \<forall>st. \<exists>e. import_row pint pf r st = Inl e
    \<Longrightarrow> \<exists>e. import_rows pint pf rows st = Inl e"
proof (induction rows arbitrary: st)
  case Nil
  then show ?case by simp
next
  case (Cons x xs)
  show ?case
  proof (cases "import_row pint pf x st")
    case (Inl e)
    then show ?thesis by simp
  next
    case (Inr st')
    have "r \<noteq> x"
    proof
      assume "r = x"
      with Cons.prems(2) obtain e where "import_row pint pf x st = Inl e" by blast
      with Inr show False by simp
    qed
    with Cons.prems(1) have "r \<in> set xs" by simp
    from Cons.IH[OF this Cons.prems(2), of st'] show ?thesis by (simp add: Inr)
  qed
qed

text \<open>
  C3, as amended. Modern-format decode (rows with a \<open>stroke_id\<close> column) fails, with the
  handler's "Error importing pattern" exception, whenever the file has a row with no
  \<open>datetime\<close> key or no \<open>close\<close> key (the header lacks the column), or a row that ends
  before its \<open>close\<close> cell (the reader gives \<^verbatim>\<open>None\<close> for it). It does not parse the
  \<open>datetime\<close> value: a row whose \<open>stroke_id\<close> and \<open>close\<close> can be read is accepted
  whatever is under its \<open>datetime\<close> key, a string no format parses or the \<^verbatim>\<open>None\<close> of a
  row that ends before that cell, and this value is stored as it is. Legacy-format decode in
  the web handler, for a \<open>datetime\<close> that none of its six formats parses, takes the current
  time as the row's timestamp and goes on.
\<close>

theorem modern_decode_failures:
  "(r1 ''stroke_id'' \<noteq> None \<longrightarrow>
    (r1 ''datetime'' = None \<or> r1 ''close'' = None \<or> r1 ''close'' = Some None) \<longrightarrow>
    r1 \<in> set (DictReader t) \<longrightarrow> fs filename = Some t \<longrightarrow>
      (\<exists>e. import_pattern_from_csv pint pf filename fs ps0 =
              (ps0, Inl (ErrorImportingPattern e)))) \<and>
   (r2 ''stroke_id'' = Some sid \<longrightarrow> py_int pint sid = Inr i \<longrightarrow> r2 ''datetime'' = Some cell \<longrightarrow>
    r2 ''close'' = Some cc \<longrightarrow> py_float pf cc = Inr price \<longrightarrow>
      (\<exists>strokes' cur'. import_row pint pf r2 (strokes, cur, l) =
          Inr (strokes', cur' @ [(stamp_of cell, price)], LastInt i))) \<and>
   (r3 ''datetime'' = Some (Some s) \<longrightarrow> try_formats (Some s) formats_to_try = Inr None \<longrightarrow>
    r3 ''close'' = Some cc3 \<longrightarrow> py_float pf cc3 = Inr price3 \<longrightarrow>
      (\<exists>strokes' cur'. web_import_row pf now r3 (wstrokes, wcur, wl) =
          Inr (strokes', cur' @ [(Str s, price3)], Some now)))"
proof (intro conjI impI)
  assume a: "r1 ''stroke_id'' \<noteq> None"
    "r1 ''datetime'' = None \<or> r1 ''close'' = None \<or> r1 ''close'' = Some None"
    "r1 \<in> set (DictReader t)" "fs filename = Some t"
  have "\<forall>st. \<exists>e. import_row pint pf r1 st = Inl e"
    using import_row_missing[OF a(1,2)] by blast
  from import_rows_fail[OF a(3) this, of "([], [], NoLast)"]
  obtain e where "import_rows pint pf (DictReader t) ([], [], NoLast) = Inl e" by blast
  then show "\<exists>e. import_pattern_from_csv pint pf filename fs ps0 =
              (ps0, Inl (ErrorImportingPattern e))"
    using a(4) by (simp add: import_pattern_from_csv_def read_table_def)
next
  assume "r2 ''stroke_id'' = Some sid" "py_int pint sid = Inr i" "r2 ''datetime'' = Some cell"
    "r2 ''close'' = Some cc" "py_float pf cc = Inr price"
  then show "\<exists>strokes' cur'. import_row pint pf r2 (strokes, cur, l) =
          Inr (strokes', cur' @ [(stamp_of cell, price)], LastInt i)"
    by (simp add: import_row_def getitem_def new_stroke_def)
next
  assume "r3 ''datetime'' = Some (Some s)" "try_formats (Some s) formats_to_try = Inr None"
    "r3 ''close'' = Some cc3" "py_float pf cc3 = Inr price3"
  then show "\<exists>strokes' cur'. web_import_row pf now r3 (wstrokes, wcur, wl) =
          Inr (strokes', cur' @ [(Str s, price3)], Some now)"
    by (cases wl) (simp_all add: web_import_row_def getitem_def gap_split_def new_stroke_def stamp_of_def)
qed

theorem modern_decode_failures_counterexample:
  "map (strptime (Some ''not-a-date'')) formats_to_try =
     [Inl ValueError, Inl ValueError, Inl ValueError, Inl ValueError, Inl ValueError, Inl ValueError] \<and>
   DictReader not_a_date_table =
     [dict_row pattern_header [''0'', ''not-a-date'', ''1.5'', ''1.5'', ''1.5'', ''1.5'', ''0'']] \<and>
   dict_row pattern_header [''0'', ''not-a-date'', ''1.5'', ''1.5'', ''1.5'', ''1.5'', ''0'']
       ''stroke_id'' = Some (Some ''0'') \<and>
   import_pattern_from_csv int_of_string float_of_string ''pattern.csv''
       [''pattern.csv'' \<mapsto> not_a_date_table] [] =
     ([[(Str ''not-a-date'', 1.5)]], Inr [[(Str ''not-a-date'', 1.5)]]) \<and>
   DictReader no_datetime_cell_table =
     [dict_row [''stroke_id'', ''close'', ''datetime''] [''0'', ''1.5'']] \<and>
   dict_row [''stroke_id'', ''close'', ''datetime''] [''0'', ''1.5''] ''stroke_id''
     = Some (Some ''0'') \<and>
   dict_row [''stroke_id'', ''close'', ''datetime''] [''0'', ''1.5''] ''datetime'' = Some None \<and>
   import_pattern_from_csv int_of_string float_of_string ''pattern.csv''
       [''pattern.csv'' \<mapsto> no_datetime_cell_table] [] =
     ([[(NoStamp, 1.5)]], Inr [[(NoStamp, 1.5)]])"
  by (simp add: not_a_date_table_def no_datetime_cell_table_def modern_eval csv_eval
      strptime_eval conv_eval stamp_of_def)

lemma no_close_cell_fails:
  "dict_row pattern_header [''0'', ''03/12/2025 10:00''] ''stroke_id'' = Some (Some ''0'') \<and>
   dict_row pattern_header [''0'', ''03/12/2025 10:00''] ''close'' = Some None \<and>
   DictReader no_close_cell_table = [dict_row pattern_header [''0'', ''03/12/2025 10:00'']] \<and>
   import_pattern_from_csv int_of_string float_of_string ''pattern.csv''
       [''pattern.csv'' \<mapsto> no_close_cell_table] ([] :: real stroke list) =
     ([], Inl (ErrorImportingPattern TypeError))"
  by (simp add: no_close_cell_table_def modern_eval csv_eval conv_eval)

theorem modern_decode_failures_witness:
  "dict_row [''stroke_id'', ''datetime''] [''0'', ''03/12/2025 10:00''] ''stroke_id'' \<noteq> None \<and>
   dict_row [''stroke_id'', ''datetime''] [''0'', ''03/12/2025 10:00''] ''close'' = None \<and>
   dict_row [''stroke_id'', ''datetime''] [''0'', ''03/12/2025 10:00''] \<in> set (DictReader no_close_table) \<and>
   import_pattern_from_csv int_of_string float_of_string ''pattern.csv''
       [''pattern.csv'' \<mapsto> no_close_table] ([] :: real stroke list) =
     ([], Inl (ErrorImportingPattern KeyError)) \<and>
   dict_row pattern_header [''0'', ''not-a-date'', ''1.5'', ''1.5'', ''1.5'', ''1.5'', ''0'']
       ''stroke_id'' = Some (Some ''0'') \<and>
   py_int int_of_string (Some ''0'') = Inr 0 \<and>
   dict_row pattern_header [''0'', ''not-a-date'', ''1.5'', ''1.5'', ''1.5'', ''1.5'', ''0'']
       ''datetime'' = Some (Some ''not-a-date'') \<and>
   dict_row pattern_header [''0'', ''not-a-date'', ''1.5'', ''1.5'', ''1.5'', ''1.5'', ''0'']
       ''close'' = Some (Some ''1.5'') \<and>
   py_float float_of_string (Some ''1.5'') = Inr (1.5 :: real) \<and>
   import_row int_of_string float_of_string
       (dict_row pattern_header [''0'', ''not-a-date'', ''1.5'', ''1.5'', ''1.5'', ''1.5'', ''0''])
       ([], [], NoLast) =
     Inr ([], [(Str ''not-a-date'', 1.5)], LastInt 0) \<and>
   dict_row market_header [''not-a-date'', ''1.5'', ''1.5'', ''1.5'', ''1.5'', ''0'']
       ''datetime'' = Some (Some ''not-a-date'') \<and>
   try_formats (Some ''not-a-date'') formats_to_try = Inr None \<and>
   dict_row market_header [''not-a-date'', ''1.5'', ''1.5'', ''1.5'', ''1.5'', ''0'']
       ''close'' = Some (Some ''1.5'') \<and>
   web_import_row float_of_string (stamp_at 2026 1 1 12 0 0)
       (dict_row market_header [''not-a-date'', ''1.5'', ''1.5'', ''1.5'', ''1.5'', ''0''])
       ([], [], None) =
     Inr ([], [(Str ''not-a-date'', 1.5)], Some (stamp_at 2026 1 1 12 0 0))"
proof -
  let ?r1 = "dict_row [''stroke_id'', ''datetime''] [''0'', ''03/12/2025 10:00'']"
  let ?r2 = "dict_row pattern_header [''0'', ''not-a-date'', ''1.5'', ''1.5'', ''1.5'', ''1.5'', ''0'']"
  let ?r3 = "dict_row market_header [''not-a-date'', ''1.5'', ''1.5'', ''1.5'', ''1.5'', ''0'']"
  have a: "?r1 ''stroke_id'' \<noteq> None" "?r1 ''close'' = None"
    "?r1 \<in> set (DictReader no_close_table)"
    "[''pattern.csv'' \<mapsto> no_close_table] ''pattern.csv'' = Some no_close_table"
    by (simp_all add: no_close_table_def csv_eval)
  have b: "?r2 ''stroke_id'' = Some (Some ''0'')" "py_int int_of_string (Some ''0'') = Inr 0"
    "?r2 ''datetime'' = Some (Some ''not-a-date'')" "?r2 ''close'' = Some (Some ''1.5'')"
    "py_float float_of_string (Some ''1.5'') = Inr (1.5::real)"
    by (simp_all add: csv_eval conv_eval)
  have c: "?r3 ''datetime'' = Some (Some ''not-a-date'')"
    "try_formats (Some ''not-a-date'') formats_to_try = Inr None"
    "?r3 ''close'' = Some (Some ''1.5'')"
    by (simp_all add: csv_eval strptime_eval)
  note T = modern_decode_failures [of ?r1 no_close_table "[''pattern.csv'' \<mapsto> no_close_table]"
      "''pattern.csv''" int_of_string float_of_string "[] :: real stroke list"
      ?r2 "Some ''0''" 0 "Some ''not-a-date''" "Some ''1.5''" "1.5" "[]" "[]" NoLast
      ?r3 "''not-a-date''" "Some ''1.5''" "1.5" "stamp_at 2026 1 1 12 0 0" "[]" "[]" None]
  from T a obtain e where t1: "import_pattern_from_csv int_of_string float_of_string ''pattern.csv''
       [''pattern.csv'' \<mapsto> no_close_table] ([] :: real stroke list) =
     ([], Inl (ErrorImportingPattern e))"
    by blast
  from T b obtain S2 cur2 where t2: "import_row int_of_string float_of_string ?r2 ([], [], NoLast) =
     Inr (S2, cur2 @ [(stamp_of (Some ''not-a-date''), 1.5)], LastInt 0)"
    by blast
  from T b c obtain S3 cur3 where t3: "web_import_row float_of_string (stamp_at 2026 1 1 12 0 0)
       ?r3 ([], [], None) =
     Inr (S3, cur3 @ [(Str ''not-a-date'', 1.5)], Some (stamp_at 2026 1 1 12 0 0))"
    by blast
  have e1: "import_pattern_from_csv int_of_string float_of_string ''pattern.csv''
       [''pattern.csv'' \<mapsto> no_close_table] ([] :: real stroke list) =
     ([], Inl (ErrorImportingPattern KeyError))"
    by (simp add: no_close_table_def modern_eval csv_eval conv_eval)
  have e2: "import_row int_of_string float_of_string ?r2 ([], [], NoLast) =
     Inr ([], [(Str ''not-a-date'', 1.5)], LastInt 0)"
    by (simp add: modern_eval csv_eval conv_eval)
  have e3: "web_import_row float_of_string (stamp_at 2026 1 1 12 0 0) ?r3 ([], [], None) =
     Inr ([], [(Str ''not-a-date'', 1.5)], Some (stamp_at 2026 1 1 12 0 0))"
    by (simp add: legacy_eval csv_eval conv_eval strptime_eval)
  from t1 t2 t3 a(1-3) b c e1 e2 e3 show ?thesis by blast
qed

end
